theory Spec2Isabelle
  imports Main
begin

section \<open>The sync controller of a federated type (pkg/controller/sync/controller.go)\<close>

text \<open>
  The controller reconciles one federated resource at a time. Everything it talks to
  (the cluster informer and its target store, the federated resource accessor, the
  dispatchers, the host cluster client) lives outside controller.go, so the embedding
  takes these collaborators as an environment: a record of functions over an abstract
  world \<open>'w\<close>. A read of a cache is a function of the current world; a call that writes
  or blocks (a dispatcher's Wait, a host client call, the version bookkeeping) returns
  the next world with its result. Calls that matter to an observer are appended, in
  program order, to an event list. Verbose logging through klog is left out.
\<close>

subsection \<open>Constants\<close>

definition FinalizerSyncController :: string where
  "FinalizerSyncController = ''kubefed.k8s.io/sync-controller''"

definition OrphanManagedResources :: string where
  "OrphanManagedResources = ''kubefed.k8s.io/orphan''"

subsection \<open>Data\<close>

text \<open>
  Errors are values. \<open>External\<close> is an error handed back by a collaborator,
  \<open>ApiConflict\<close> the API server's conflict error, \<open>Wrap\<close> is errors.Wrap and
  errors.Wrapf (the wrapped error and the message), \<open>Errorf\<close> is errors.Errorf and
  errors.New (the message and the cluster names joined into it), and
  \<open>ErrWaitTimeout\<close> is what the poll helper returns when its window is used up.
\<close>

datatype error =
    External string
  | ApiConflict string
  | Wrap error string
  | Errorf string "string list"
  | ErrWaitTimeout

text \<open>apierrors.IsConflict looks at the error itself, not through a wrapper.\<close>

fun IsConflict :: "error \<Rightarrow> bool" where
  "IsConflict (ApiConflict m) = True"
| "IsConflict e = False"

datatype ReconciliationStatus =
    StatusAllOK
  | StatusNeedsRecheck
  | StatusError
  | StatusNotSynced

text \<open>The per-cluster statuses and aggregate reasons that controller.go names.\<close>

datatype PropagationStatus =
    ClusterNotReady
  | CachedRetrievalFailed
  | WaitingForRemoval
  | OtherPropagationStatus string

datatype AggregateReason =
    AggregateSuccess
  | ClusterRetrievalFailed
  | ComputePlacementFailed

text \<open>
  The reason under which an error is recorded on the resource: the string of an
  aggregate reason (the constants' strings are declared in the status package), or a
  string literal of controller.go.
\<close>

datatype error_reason = ReasonOf AggregateReason | ReasonText string

type_synonym PropagationStatusMap = "(string \<times> PropagationStatus) list"
type_synonym VersionMap = "(string \<times> string) list"

record QualifiedName =
  Namespace :: string
  Name :: string

text \<open>
  Modelled from the spec: QualifiedName.String of pkg/controller/util, which is not
  under src/; the spec calls the result the "namespace/name key" of a cached object.
\<close>

definition QualifiedName_String :: "QualifiedName \<Rightarrow> string" where
  "QualifiedName_String n =
     (if Namespace n = [] then Name n else Namespace n @ ''/'' @ Name n)"

text \<open>
  A member cluster as the loops see it: its name, and what util.IsClusterReady answers
  for its status.
\<close>

record KubefedCluster =
  ClusterName :: string
  IsClusterReady :: bool

text \<open>
  An unstructured object, in the host store or in a member cluster. The finalizers are
  a set because controller.go reads them only through sets.NewString; a nil
  annotations map is \<open>None\<close>.
\<close>

record Unstructured =
  ObjNamespace :: string
  ObjName :: string
  ResourceVersion :: string
  DeletionTimestamp :: "nat option"
  Finalizers :: "string set"
  Annotations :: "(string \<rightharpoonup> string) option"

record FederatedResource =
  Object :: Unstructured
  FederatedKind :: string
  FederatedName :: QualifiedName
  TargetKind :: string
  TargetName :: QualifiedName

text \<open>
  What a dispatcher is told, in the order it is told. The managed dispatcher takes all
  but the check; the unmanaged one Delete and RemoveManagedLabel; the check dispatcher
  CheckRemovedOrUnlabeled only.
\<close>

datatype dispatch_call =
    Create string
  | Update string Unstructured
  | Delete string
  | RemoveManagedLabel string Unstructured
  | CheckRemovedOrUnlabeled string
  | RecordClusterError PropagationStatus string error
  | RecordStatus string PropagationStatus

datatype dispatcher_kind = ManagedDispatcher | UnmanagedDispatcher | CheckUnmanagedDispatcher

text \<open>The cluster a call is recorded against, and whether the call is an operation.\<close>

fun call_cluster :: "dispatch_call \<Rightarrow> string" where
  "call_cluster (Create c) = c"
| "call_cluster (Update c obj) = c"
| "call_cluster (Delete c) = c"
| "call_cluster (RemoveManagedLabel c obj) = c"
| "call_cluster (CheckRemovedOrUnlabeled c) = c"
| "call_cluster (RecordClusterError st c e) = c"
| "call_cluster (RecordStatus c st) = c"

fun is_operation :: "dispatch_call \<Rightarrow> bool" where
  "is_operation (RecordClusterError st c e) = False"
| "is_operation (RecordStatus c st) = False"
| "is_operation call = True"

text \<open>
  The observable calls of one reconcile: the process-wide error handler, errors recorded
  on the resource, the join of a dispatcher (with everything recorded in it), the host
  client's calls, the in-memory status merge, and the calls on the accessor and the
  resource that claims speak about.
\<close>

datatype event =
    EvHandleError error
  | EvRecordError error_reason error
  | EvWait dispatcher_kind "dispatch_call list"
  | EvUpdate Unstructured
  | EvUpdateStatus Unstructured
  | EvGet string string "error + Unstructured"
  | EvSetPropagationStatus Unstructured AggregateReason "PropagationStatusMap option"
  | EvFederatedResource QualifiedName
  | EvComputePlacement "KubefedCluster list"
  | EvUpdateVersions "string set" VersionMap
  | EvDeleteVersions

record 'w state =
  world :: 'w
  events :: "event list"

definition emit :: "event \<Rightarrow> 'w state \<Rightarrow> 'w state" where
  "emit e s = s\<lparr>events := events s @ [e]\<rparr>"

text \<open>What a call added to the event list: the events of \<open>s'\<close> past those of \<open>s\<close>.\<close>

definition emitted :: "'w state \<Rightarrow> 'w state \<Rightarrow> event list" where
  "emitted s s' = drop (length (events s)) (events s')"

text \<open>The same state with earlier events put before its own.\<close>

definition prepend :: "event list \<Rightarrow> 'w state \<Rightarrow> 'w state" where
  "prepend es s = s\<lparr>events := es @ events s\<rparr>"

subsection \<open>The collaborators\<close>

text \<open>
  The informer (ClustersSynced, GetReadyClusters, GetClusters, the target store's
  ClustersSynced and GetByKey, which answers nil for a key it does not hold), the
  accessor (HasSynced, and FederatedResource, here \<open>GetFederatedResource\<close>), the
  methods of a federated resource, the host cluster client (Update, UpdateStatus and
  Get, here \<open>HostUpdate\<close>, \<open>HostUpdateStatus\<close> and \<open>HostGet\<close>; each returns the
  object as the server left it), the status package's merge, whether the metadata of an
  object can be accessed, and what the dispatch package needs to run a join: the outcome
  of each operation, whether the join times out, and the world after it. \<open>PollTicks\<close>
  is how many more times the poll helper evaluates its condition after the immediate
  first time, for an interval and a window in seconds. \<open>TypeTargetKind\<close> is
  typeConfig.GetTarget().Kind.
\<close>

record 'w env =
  ClustersSynced :: "'w \<Rightarrow> bool"
  GetReadyClusters :: "'w \<Rightarrow> error + KubefedCluster list"
  GetClusters :: "'w \<Rightarrow> error + KubefedCluster list"
  TargetStoreClustersSynced :: "KubefedCluster list \<Rightarrow> 'w \<Rightarrow> bool"
  GetByKey :: "string \<Rightarrow> string \<Rightarrow> 'w \<Rightarrow> error + Unstructured option"
  HasSynced :: "'w \<Rightarrow> bool"
  GetFederatedResource :: "QualifiedName \<Rightarrow> 'w \<Rightarrow> FederatedResource option \<times> bool \<times> error option"
  ComputePlacement :: "FederatedResource \<Rightarrow> KubefedCluster list \<Rightarrow> 'w \<Rightarrow> error + string set"
  UpdateVersions :: "FederatedResource \<Rightarrow> string set \<Rightarrow> VersionMap \<Rightarrow> 'w \<Rightarrow> error option \<times> 'w"
  DeleteVersions :: "FederatedResource \<Rightarrow> 'w \<Rightarrow> 'w"
  IsNamespaceInHostCluster :: "FederatedResource \<Rightarrow> Unstructured \<Rightarrow> bool"
  OperationOutcome :: "dispatcher_kind \<Rightarrow> dispatch_call \<Rightarrow> 'w \<Rightarrow> bool"
  WaitTimeout :: "dispatcher_kind \<Rightarrow> dispatch_call list \<Rightarrow> 'w \<Rightarrow> error option"
  WaitWorld :: "dispatcher_kind \<Rightarrow> dispatch_call list \<Rightarrow> 'w \<Rightarrow> 'w"
  DispatcherVersionMap :: "dispatch_call list \<Rightarrow> 'w \<Rightarrow> VersionMap"
  DispatcherStatusMap :: "dispatch_call list \<Rightarrow> 'w \<Rightarrow> PropagationStatusMap"
  HostUpdate :: "Unstructured \<Rightarrow> 'w \<Rightarrow> (error + Unstructured) \<times> 'w"
  HostUpdateStatus :: "Unstructured \<Rightarrow> 'w \<Rightarrow> (error + Unstructured) \<times> 'w"
  HostGet :: "string \<Rightarrow> string \<Rightarrow> 'w \<Rightarrow> (error + Unstructured) \<times> 'w"
  SetPropagationStatus :: "Unstructured \<Rightarrow> AggregateReason \<Rightarrow> PropagationStatusMap option \<Rightarrow> error + Unstructured"
  MetaAccessor :: "Unstructured \<Rightarrow> error option"
  PollTicks :: "nat \<Rightarrow> nat \<Rightarrow> nat"
  TypeTargetKind :: string

text \<open>
  Modelled from the spec: the dispatchers' Wait of pkg/controller/sync/dispatch, which
  is not under src/. The spec: a single Wait blocks until all recorded operations finish
  or a shared deadline elapses, returning an overall success flag and an optional
  timeout error.
\<close>

definition Wait :: "'w env \<Rightarrow> dispatcher_kind \<Rightarrow> dispatch_call list \<Rightarrow> 'w \<Rightarrow> (bool \<times> error option) \<times> 'w" where
  "Wait env k calls w =
     (case WaitTimeout env k calls w of
        Some e \<Rightarrow> ((False, Some e), WaitWorld env k calls w)
      | None \<Rightarrow>
          ((list_all (\<lambda>c. OperationOutcome env k c w) (filter is_operation calls), None),
           WaitWorld env k calls w))"

text \<open>
  Modelled from the spec: AddFinalizers of pkg/controller/util/finalizers, which is not
  under src/. The spec: the finalizer token is a marker string in the resource's
  finalizer set, ensuring it is idempotent, and a no-op write is skipped if it is already
  present. It answers whether the object was changed, and fails when the object's
  metadata cannot be accessed.
\<close>

definition AddFinalizers :: "'w env \<Rightarrow> Unstructured \<Rightarrow> string set \<Rightarrow> (bool \<times> error option) \<times> Unstructured" where
  "AddFinalizers env obj finalizers =
     (case MetaAccessor env obj of
        Some e \<Rightarrow> ((False, Some e), obj)
      | None \<Rightarrow>
          if finalizers \<subseteq> Finalizers obj then ((False, None), obj)
          else ((True, None), obj\<lparr>Finalizers := Finalizers obj \<union> finalizers\<rparr>))"

text \<open>
  Modelled from the spec: RemoveFinalizers of pkg/controller/util/finalizers, which is
  not under src/. The spec speaks of removing the finalizer token from the finalizer set;
  the function mirrors AddFinalizers: it answers whether the object was changed, which
  is when one of the given tokens was present.
\<close>

definition RemoveFinalizers :: "'w env \<Rightarrow> Unstructured \<Rightarrow> string set \<Rightarrow> (bool \<times> error option) \<times> Unstructured" where
  "RemoveFinalizers env obj finalizers =
     (case MetaAccessor env obj of
        Some e \<Rightarrow> ((False, Some e), obj)
      | None \<Rightarrow>
          if Finalizers obj \<inter> finalizers = {} then ((False, None), obj)
          else ((True, None), obj\<lparr>Finalizers := Finalizers obj - finalizers\<rparr>))"

subsection \<open>isSynced\<close>

definition isSynced :: "'w env \<Rightarrow> 'w state \<Rightarrow> bool \<times> 'w state" where
  "isSynced env s =
     (if \<not> ClustersSynced env (world s) then (False, s)
      else if \<not> HasSynced env (world s) then (False, s)
      else
        (case GetReadyClusters env (world s) of
           Inl err \<Rightarrow> (False, emit (EvHandleError (Wrap err ''Failed to get ready clusters'')) s)
         | Inr clusters \<Rightarrow>
             if \<not> TargetStoreClustersSynced env clusters (world s) then (False, s)
             else (True, s)))"

subsection \<open>ensureFinalizer and removeFinalizer\<close>

definition ensureFinalizer :: "'w env \<Rightarrow> FederatedResource \<Rightarrow> 'w state \<Rightarrow> error option \<times> FederatedResource \<times> 'w state" where
  "ensureFinalizer env fedResource s =
     (case AddFinalizers env (Object fedResource) {FinalizerSyncController} of
        ((isUpdated, err), obj) \<Rightarrow>
          if err \<noteq> None \<or> \<not> isUpdated then (err, fedResource\<lparr>Object := obj\<rparr>, s)
          else
            (case HostUpdate env obj (world s) of
               (Inl e, w) \<Rightarrow> (Some e, fedResource\<lparr>Object := obj\<rparr>, (emit (EvUpdate obj) s)\<lparr>world := w\<rparr>)
             | (Inr obj', w) \<Rightarrow> (None, fedResource\<lparr>Object := obj'\<rparr>, (emit (EvUpdate obj) s)\<lparr>world := w\<rparr>)))"

definition removeFinalizer :: "'w env \<Rightarrow> FederatedResource \<Rightarrow> 'w state \<Rightarrow> error option \<times> FederatedResource \<times> 'w state" where
  "removeFinalizer env fedResource s =
     (case RemoveFinalizers env (Object fedResource) {FinalizerSyncController} of
        ((isUpdated, err), obj) \<Rightarrow>
          if err \<noteq> None \<or> \<not> isUpdated then (err, fedResource\<lparr>Object := obj\<rparr>, s)
          else
            (case HostUpdate env obj (world s) of
               (Inl e, w) \<Rightarrow> (Some e, fedResource\<lparr>Object := obj\<rparr>, (emit (EvUpdate obj) s)\<lparr>world := w\<rparr>)
             | (Inr obj', w) \<Rightarrow> (None, fedResource\<lparr>Object := obj'\<rparr>, (emit (EvUpdate obj) s)\<lparr>world := w\<rparr>)))"

subsection \<open>setPropagationStatus\<close>

text \<open>
  wait.PollImmediate evaluates its condition at once and then again on every tick of
  its window; it stops with the condition's error, with success when the condition
  answers true, and with ErrWaitTimeout when the window is used up. \<open>poll\<close> is that
  loop for a given number of evaluations.
\<close>

fun poll :: "nat \<Rightarrow> ('s \<Rightarrow> (bool \<times> error option) \<times> 's) \<Rightarrow> 's \<Rightarrow> error option \<times> 's" where
  "poll 0 condition s = (Some ErrWaitTimeout, s)"
| "poll (Suc n) condition s =
     (case condition s of
        ((done, err), s') \<Rightarrow>
          (case err of
             Some e \<Rightarrow> (Some e, s')
           | None \<Rightarrow> if done then (None, s') else poll n condition s'))"

definition PollImmediate :: "'w env \<Rightarrow> nat \<Rightarrow> nat \<Rightarrow> ('s \<Rightarrow> (bool \<times> error option) \<times> 's) \<Rightarrow> 's \<Rightarrow> error option \<times> 's" where
  "PollImmediate env interval timeout condition s =
     poll (Suc (PollTicks env interval timeout)) condition s"

text \<open>
  The condition of setPropagationStatus: one mutate-and-write cycle on the in-memory
  object.
\<close>

definition statusCycle :: "'w env \<Rightarrow> AggregateReason \<Rightarrow> PropagationStatusMap option \<Rightarrow>
    Unstructured \<times> 'w state \<Rightarrow> (bool \<times> error option) \<times> Unstructured \<times> 'w state" where
  "statusCycle env reason statusMap os =
     (case os of (obj, s) \<Rightarrow>
        (case SetPropagationStatus env obj reason statusMap of
           Inl err \<Rightarrow>
             ((False, Some (Wrap err ''failed to set the status'')), obj,
              emit (EvSetPropagationStatus obj reason statusMap) s)
         | Inr obj1 \<Rightarrow>
             (let s1 = emit (EvUpdateStatus obj1) (emit (EvSetPropagationStatus obj reason statusMap) s) in
              case HostUpdateStatus env obj1 (world s1) of
                (Inr obj2, w) \<Rightarrow> ((True, None), obj2, s1\<lparr>world := w\<rparr>)
              | (Inl err, w) \<Rightarrow>
                  if IsConflict err then
                    (case HostGet env (ObjNamespace obj1) (ObjName obj1) w of
                       (Inl err', w') \<Rightarrow>
                         ((False, Some (Wrap err' ''failed to retrieve resource'')), obj1,
                          emit (EvGet (ObjNamespace obj1) (ObjName obj1) (Inl err')) (s1\<lparr>world := w'\<rparr>))
                     | (Inr obj3, w') \<Rightarrow>
                         ((False, None), obj3,
                          emit (EvGet (ObjNamespace obj1) (ObjName obj1) (Inr obj3)) (s1\<lparr>world := w'\<rparr>)))
                  else ((False, Some (Wrap err ''failed to update resource'')), obj1, s1\<lparr>world := w\<rparr>))))"

definition setPropagationStatus :: "'w env \<Rightarrow> FederatedResource \<Rightarrow> AggregateReason \<Rightarrow>
    PropagationStatusMap option \<Rightarrow> 'w state \<Rightarrow> ReconciliationStatus \<times> 'w state" where
  "setPropagationStatus env fedResource reason statusMap s =
     (case PollImmediate env 1 5 (statusCycle env reason statusMap) (Object fedResource, s) of
        (Some err, obj, s') \<Rightarrow>
          (StatusError, emit (EvHandleError (Wrap err ''failed to set propagation status'')) s')
      | (None, obj, s') \<Rightarrow> (StatusAllOK, s'))"

text \<open>
  Two readings of an event list, for the properties of the retry: whether an event is a
  status write, and whether every status merge that follows another event follows a
  successful re-fetch and starts from the object that the re-fetch returned.
\<close>

fun is_UpdateStatus :: "event \<Rightarrow> bool" where
  "is_UpdateStatus (EvUpdateStatus obj) = True"
| "is_UpdateStatus e = False"

fun refetched :: "event \<Rightarrow> Unstructured \<Rightarrow> bool" where
  "refetched (EvGet ns n (Inr obj')) obj = (obj' = obj)"
| "refetched e obj = False"

fun merges_fresh :: "event list \<Rightarrow> bool" where
  "merges_fresh (e # EvSetPropagationStatus obj reason sm # es) =
     (refetched e obj \<and> merges_fresh (EvSetPropagationStatus obj reason sm # es))"
| "merges_fresh (e # es) = merges_fresh es"
| "merges_fresh [] = True"

subsection \<open>syncToClusters\<close>

text \<open>
  The body of the loop over the clusters, as a step on the managed dispatcher: what is
  recorded for one cluster.
\<close>

definition syncToCluster :: "'w env \<Rightarrow> FederatedResource \<Rightarrow> string \<Rightarrow> string set \<Rightarrow> 'w \<Rightarrow>
    KubefedCluster \<Rightarrow> dispatch_call list \<Rightarrow> dispatch_call list" where
  "syncToCluster env fedResource key selectedClusterNames w cluster dispatcher =
     (let clusterName = ClusterName cluster;
          selectedCluster = (clusterName \<in> selectedClusterNames)
      in
      if \<not> IsClusterReady cluster then
        (if selectedCluster
         then dispatcher @ [RecordClusterError ClusterNotReady clusterName (Errorf ''Cluster not ready'' [])]
         else dispatcher)
      else
        (case GetByKey env clusterName key w of
           Inl err \<Rightarrow>
             dispatcher @ [RecordClusterError CachedRetrievalFailed clusterName
                             (Wrap err ''Failed to retrieve cached cluster object'')]
         | Inr clusterObj \<Rightarrow>
             if \<not> selectedCluster then
               (case clusterObj of
                  None \<Rightarrow> dispatcher
                | Some obj \<Rightarrow>
                    if DeletionTimestamp obj \<noteq> None then dispatcher @ [RecordStatus clusterName WaitingForRemoval]
                    else if IsNamespaceInHostCluster env fedResource obj
                    then dispatcher @ [RemoveManagedLabel clusterName obj]
                    else dispatcher @ [Delete clusterName])
             else
               (case clusterObj of
                  None \<Rightarrow> dispatcher @ [Create clusterName]
                | Some obj \<Rightarrow> dispatcher @ [Update clusterName obj])))"

definition syncToClusters :: "'w env \<Rightarrow> FederatedResource \<Rightarrow> 'w state \<Rightarrow> ReconciliationStatus \<times> 'w state" where
  "syncToClusters env fedResource s =
     (case GetClusters env (world s) of
        Inl err \<Rightarrow>
          setPropagationStatus env fedResource ClusterRetrievalFailed None
            (emit (EvRecordError (ReasonOf ClusterRetrievalFailed)
                     (Wrap err ''Failed to retrieve list of clusters'')) s)
      | Inr clusters \<Rightarrow>
          (case ComputePlacement env fedResource clusters (world s) of
             Inl err \<Rightarrow>
               setPropagationStatus env fedResource ComputePlacementFailed None
                 (emit (EvRecordError (ReasonOf ComputePlacementFailed)
                          (Wrap err ''Failed to compute placement''))
                    (emit (EvComputePlacement clusters) s))
           | Inr selectedClusterNames \<Rightarrow>
               (let s1 = emit (EvComputePlacement clusters) s;
                    key = QualifiedName_String (TargetName fedResource);
                    dispatcher = fold (syncToCluster env fedResource key selectedClusterNames (world s1)) clusters [];
                    s2 = emit (EvWait ManagedDispatcher dispatcher) s1
                in
                case Wait env ManagedDispatcher dispatcher (world s2) of
                  ((ok, timeoutErr), w3) \<Rightarrow>
                    (let s3 = (case timeoutErr of
                                 Some e \<Rightarrow> emit (EvRecordError (ReasonText ''OperationTimeoutError'') e) (s2\<lparr>world := w3\<rparr>)
                               | None \<Rightarrow> s2\<lparr>world := w3\<rparr>);
                         updatedVersionMap = DispatcherVersionMap env dispatcher (world s3);
                         s4 = emit (EvUpdateVersions selectedClusterNames updatedVersionMap) s3
                     in
                     case UpdateVersions env fedResource selectedClusterNames updatedVersionMap (world s4) of
                       (err, w5) \<Rightarrow>
                         (let s5 = (case err of
                                      Some e \<Rightarrow> emit (EvHandleError e) (s4\<lparr>world := w5\<rparr>)
                                    | None \<Rightarrow> s4\<lparr>world := w5\<rparr>);
                              statusMap = DispatcherStatusMap env dispatcher (world s5)
                          in setPropagationStatus env fedResource AggregateSuccess (Some statusMap) s5)))))"

subsection \<open>handleDeletionInClusters\<close>

text \<open>
  The deletion handler is a closure: besides the dispatcher it may write to variables of
  its caller, here a value of type \<open>'a\<close>. The locals of the loop are a record.
\<close>

type_synonym 'a deletionFunc = "string \<Rightarrow> Unstructured \<Rightarrow> dispatch_call list \<times> 'a \<Rightarrow> dispatch_call list \<times> 'a"

record ('a, 'w) deletionLoop =
  loopDispatcher :: "dispatch_call list"
  loopCaptured :: 'a
  retrievalFailureClusters :: "string list"
  unreadyClusters :: "string list"
  loopState :: "'w state"

definition handleDeletionInCluster :: "'w env \<Rightarrow> string \<Rightarrow> string \<Rightarrow> 'a deletionFunc \<Rightarrow>
    KubefedCluster \<Rightarrow> ('a, 'w) deletionLoop \<Rightarrow> ('a, 'w) deletionLoop" where
  "handleDeletionInCluster env kind key deletionFunc cluster l =
     (let clusterName = ClusterName cluster in
      if \<not> IsClusterReady cluster then l\<lparr>unreadyClusters := unreadyClusters l @ [clusterName]\<rparr>
      else
        (case GetByKey env clusterName key (world (loopState l)) of
           Inl err \<Rightarrow>
             l\<lparr>retrievalFailureClusters := retrievalFailureClusters l @ [clusterName],
               loopState := emit (EvHandleError (Wrap err ''failed to retrieve'')) (loopState l)\<rparr>
         | Inr None \<Rightarrow> l
         | Inr (Some clusterObj) \<Rightarrow>
             (case deletionFunc clusterName clusterObj (loopDispatcher l, loopCaptured l) of
                (d, c) \<Rightarrow> l\<lparr>loopDispatcher := d, loopCaptured := c\<rparr>)))"

definition handleDeletionInClusters :: "'w env \<Rightarrow> string \<Rightarrow> QualifiedName \<Rightarrow> 'a deletionFunc \<Rightarrow> 'a \<Rightarrow>
    'w state \<Rightarrow> (bool \<times> error option) \<times> 'a \<times> 'w state" where
  "handleDeletionInClusters env kind qualifiedName deletionFunc captured s =
     (case GetClusters env (world s) of
        Inl err \<Rightarrow> ((False, Some (Wrap err ''failed to get a list of clusters'')), captured, s)
      | Inr clusters \<Rightarrow>
          (let key = QualifiedName_String qualifiedName;
               l = fold (handleDeletionInCluster env kind key deletionFunc) clusters
                     \<lparr>loopDispatcher = [], loopCaptured = captured, retrievalFailureClusters = [],
                      unreadyClusters = [], loopState = s\<rparr>;
               s1 = emit (EvWait UnmanagedDispatcher (loopDispatcher l)) (loopState l)
           in
           case Wait env UnmanagedDispatcher (loopDispatcher l) (world s1) of
             ((ok, timeoutErr), w2) \<Rightarrow>
               if timeoutErr \<noteq> None then ((False, timeoutErr), loopCaptured l, s1\<lparr>world := w2\<rparr>)
               else if retrievalFailureClusters l \<noteq> [] then
                 ((False, Some (Errorf ''failed to retrieve a managed resource for the following cluster(s)''
                                  (retrievalFailureClusters l))),
                  loopCaptured l, s1\<lparr>world := w2\<rparr>)
               else if unreadyClusters l \<noteq> [] then
                 ((False, Some (Errorf ''the following clusters were not ready'' (unreadyClusters l))),
                  loopCaptured l, s1\<lparr>world := w2\<rparr>)
               else ((ok, None), loopCaptured l, s1\<lparr>world := w2\<rparr>)))"

subsection \<open>removeManagedLabel\<close>

definition removeManagedLabel_deletionFunc :: "unit deletionFunc" where
  "removeManagedLabel_deletionFunc clusterName clusterObj dc =
     (case dc of (dispatcher, u) \<Rightarrow>
        if DeletionTimestamp clusterObj \<noteq> None then (dispatcher, u)
        else (dispatcher @ [RemoveManagedLabel clusterName clusterObj], u))"

definition removeManagedLabel :: "'w env \<Rightarrow> string \<Rightarrow> QualifiedName \<Rightarrow> 'w state \<Rightarrow> error option \<times> 'w state" where
  "removeManagedLabel env kind qualifiedName s =
     (case handleDeletionInClusters env kind qualifiedName removeManagedLabel_deletionFunc () s of
        ((ok, err), u, s') \<Rightarrow>
          if err \<noteq> None then (err, s')
          else if \<not> ok then
            (Some (Errorf ''failed to remove the label from resources in one or more clusters.'' []), s')
          else (None, s'))"

subsection \<open>ensureRemovedOrUnmanaged\<close>

definition checkCluster :: "KubefedCluster \<Rightarrow> dispatch_call list \<times> string list \<Rightarrow> dispatch_call list \<times> string list" where
  "checkCluster cluster du =
     (case du of (dispatcher, unready) \<Rightarrow>
        if \<not> IsClusterReady cluster then (dispatcher, unready @ [ClusterName cluster])
        else (dispatcher @ [CheckRemovedOrUnlabeled (ClusterName cluster)], unready))"

definition ensureRemovedOrUnmanaged :: "'w env \<Rightarrow> FederatedResource \<Rightarrow> 'w state \<Rightarrow> error option \<times> 'w state" where
  "ensureRemovedOrUnmanaged env fedResource s =
     (case GetClusters env (world s) of
        Inl err \<Rightarrow> (Some (Wrap err ''failed to get a list of clusters''), s)
      | Inr clusters \<Rightarrow>
          (case fold checkCluster clusters ([], []) of
             (dispatcher, unready) \<Rightarrow>
               (let s1 = emit (EvWait CheckUnmanagedDispatcher dispatcher) s in
                case Wait env CheckUnmanagedDispatcher dispatcher (world s1) of
                  ((ok, timeoutErr), w2) \<Rightarrow>
                    if timeoutErr \<noteq> None then (timeoutErr, s1\<lparr>world := w2\<rparr>)
                    else if unready \<noteq> [] then
                      (Some (Errorf ''the following clusters were not ready'' unready), s1\<lparr>world := w2\<rparr>)
                    else if \<not> ok then (Some (Errorf ''one or more checks failed'' []), s1\<lparr>world := w2\<rparr>)
                    else (None, s1\<lparr>world := w2\<rparr>))))"

subsection \<open>deleteFromClusters\<close>

text \<open>The closure of deleteFromClusters writes to remainingClusters.\<close>

definition deleteFromClusters_deletionFunc :: "'w env \<Rightarrow> FederatedResource \<Rightarrow> (string list) deletionFunc" where
  "deleteFromClusters_deletionFunc env fedResource clusterName clusterObj dr =
     (case dr of (dispatcher, remainingClusters) \<Rightarrow>
        if IsNamespaceInHostCluster env fedResource clusterObj \<and> DeletionTimestamp clusterObj \<noteq> None
        then (dispatcher, remainingClusters)
        else if DeletionTimestamp clusterObj \<noteq> None then (dispatcher, remainingClusters @ [clusterName])
        else if IsNamespaceInHostCluster env fedResource clusterObj
        then (dispatcher @ [RemoveManagedLabel clusterName clusterObj], remainingClusters @ [clusterName])
        else (dispatcher @ [Delete clusterName], remainingClusters @ [clusterName]))"

definition deleteFromClusters :: "'w env \<Rightarrow> FederatedResource \<Rightarrow> 'w state \<Rightarrow> (bool \<times> error option) \<times> 'w state" where
  "deleteFromClusters env fedResource s =
     (case handleDeletionInClusters env (TargetKind fedResource) (TargetName fedResource)
             (deleteFromClusters_deletionFunc env fedResource) [] s of
        ((ok, err), remainingClusters, s1) \<Rightarrow>
          if err \<noteq> None then ((False, err), s1)
          else if \<not> ok then
            ((False, Some (Errorf ''failed to remove managed resources from one or more clusters.'' [])), s1)
          else if length remainingClusters > 0 then ((True, None), s1)
          else
            (case ensureRemovedOrUnmanaged env fedResource s1 of
               (Some e, s2) \<Rightarrow>
                 ((False, Some (Wrap e ''failed to verify that managed resources no longer exist in any cluster'')), s2)
             | (None, s2) \<Rightarrow>
                 (case removeFinalizer env fedResource s2 of
                    (err', fedResource', s3) \<Rightarrow> ((False, err'), s3))))"

subsection \<open>ensureDeletion\<close>

definition orphanResources :: "Unstructured \<Rightarrow> bool" where
  "orphanResources obj =
     (case Annotations obj of
        None \<Rightarrow> False
      | Some annotations \<Rightarrow> annotations OrphanManagedResources = Some ''true'')"

text \<open>
  The two blocks that follow the test of the annotation: the one taken when
  orphanResources holds, and the one after it.
\<close>

definition ensureDeletion_orphan :: "'w env \<Rightarrow> FederatedResource \<Rightarrow> 'w state \<Rightarrow> ReconciliationStatus \<times> 'w state" where
  "ensureDeletion_orphan env fedResource s0 =
     (case removeFinalizer env fedResource s0 of
        (Some err, fedResource', s1) \<Rightarrow>
          (StatusError, emit (EvHandleError (Wrap err ''failed to remove finalizer'')) s1)
      | (None, fedResource', s1) \<Rightarrow>
          (case removeManagedLabel env (TargetKind fedResource') (TargetName fedResource') s1 of
             (Some err, s2) \<Rightarrow>
               (StatusError, emit (EvHandleError (Wrap err ''failed to remove the label'')) s2)
           | (None, s2) \<Rightarrow> (StatusAllOK, s2)))"

definition ensureDeletion_cascade :: "'w env \<Rightarrow> FederatedResource \<Rightarrow> 'w state \<Rightarrow> ReconciliationStatus \<times> 'w state" where
  "ensureDeletion_cascade env fedResource s0 =
     (case deleteFromClusters env fedResource s0 of
        ((recheckRequired, Some err), s1) \<Rightarrow>
          (StatusError, emit (EvHandleError (Wrap err ''failed to delete'')) s1)
      | ((recheckRequired, None), s1) \<Rightarrow>
          if recheckRequired then (StatusNeedsRecheck, s1) else (StatusAllOK, s1))"

definition ensureDeletion :: "'w env \<Rightarrow> FederatedResource \<Rightarrow> 'w state \<Rightarrow> ReconciliationStatus \<times> 'w state" where
  "ensureDeletion env fedResource s =
     (let s0 = (emit EvDeleteVersions s)\<lparr>world := DeleteVersions env fedResource (world s)\<rparr>;
          obj = Object fedResource
      in
      if FinalizerSyncController \<notin> Finalizers obj then (StatusAllOK, s0)
      else if orphanResources obj then ensureDeletion_orphan env fedResource s0
      else ensureDeletion_cascade env fedResource s0)"

subsection \<open>reconcile\<close>

definition reconcile :: "'w env \<Rightarrow> QualifiedName \<Rightarrow> 'w state \<Rightarrow> ReconciliationStatus \<times> 'w state" where
  "reconcile env qualifiedName s =
     (case isSynced env s of
        (False, s0) \<Rightarrow> (StatusNotSynced, s0)
      | (True, s0) \<Rightarrow>
          (let s1 = emit (EvFederatedResource qualifiedName) s0 in
           case GetFederatedResource env qualifiedName (world s1) of
             (fedResource, possibleOrphan, err) \<Rightarrow>
               (case err of
                  Some e \<Rightarrow>
                    (StatusError, emit (EvHandleError (Wrap e ''Error creating FederatedResource helper'')) s1)
                | None \<Rightarrow>
                    if possibleOrphan then
                      (case removeManagedLabel env (TypeTargetKind env) qualifiedName s1 of
                         (Some e, s2) \<Rightarrow>
                           (StatusError,
                            emit (EvHandleError (Wrap e ''failed to remove the label in member clusters'')) s2)
                       | (None, s2) \<Rightarrow> (StatusAllOK, s2))
                    else
                      (case fedResource of
                         None \<Rightarrow> (StatusAllOK, s1)
                       | Some fr \<Rightarrow>
                           if DeletionTimestamp (Object fr) \<noteq> None then ensureDeletion env fr s1
                           else
                             (case ensureFinalizer env fr s1 of
                                (Some e, fr', s2) \<Rightarrow>
                                  (StatusError,
                                   emit (EvRecordError (ReasonText ''EnsureFinalizerError'')
                                           (Wrap e ''Failed to ensure finalizer'')) s2)
                              | (None, fr', s2) \<Rightarrow> syncToClusters env fr' s2)))))"

subsection \<open>The decision table of propagation\<close>

text \<open>
  The spec's table, row by row: what is recorded for a cluster, given whether it is
  ready, whether placement selected it, and its cached copy. The first argument answers
  whether a copy is the host-cluster namespace.
\<close>

fun decisionTable :: "(Unstructured \<Rightarrow> bool) \<Rightarrow> bool \<Rightarrow> bool \<Rightarrow> Unstructured option \<Rightarrow> string \<Rightarrow> dispatch_call list" where
  "decisionTable hostNamespace False True cached n =
     [RecordClusterError ClusterNotReady n (Errorf ''Cluster not ready'' [])]"
| "decisionTable hostNamespace False False cached n = []"
| "decisionTable hostNamespace True False None n = []"
| "decisionTable hostNamespace True False (Some obj) n =
     (if DeletionTimestamp obj \<noteq> None then [RecordStatus n WaitingForRemoval]
      else if hostNamespace obj then [RemoveManagedLabel n obj]
      else [Delete n])"
| "decisionTable hostNamespace True True None n = [Create n]"
| "decisionTable hostNamespace True True (Some obj) n = [Update n obj]"

text \<open>
  The rule as amended, for one cluster of the list: the table decides for a cluster
  whose cache is not looked up (it is not ready) or whose lookup succeeds; for a ready
  cluster whose lookup fails, a case for which the table has no row, the failure is
  recorded as CachedRetrievalFailed and no operation is issued, selected or not.
\<close>

definition syncDecision :: "'w env \<Rightarrow> FederatedResource \<Rightarrow> string \<Rightarrow> string set \<Rightarrow> 'w \<Rightarrow> KubefedCluster \<Rightarrow> dispatch_call list" where
  "syncDecision env fedResource key selected w c =
     (case GetByKey env (ClusterName c) key w of
        Inr cached \<Rightarrow>
          decisionTable (IsNamespaceInHostCluster env fedResource) (IsClusterReady c)
            (ClusterName c \<in> selected) cached (ClusterName c)
      | Inl err \<Rightarrow>
          if IsClusterReady c
          then [RecordClusterError CachedRetrievalFailed (ClusterName c)
                  (Wrap err ''Failed to retrieve cached cluster object'')]
          else decisionTable (IsNamespaceInHostCluster env fedResource) False
                 (ClusterName c \<in> selected) None (ClusterName c))"

subsection \<open>What the deletion loop meets\<close>

text \<open>
  Three readings of a cluster list in a world, used to state what the loop of
  handleDeletionInClusters does: the ready clusters that hold a cached copy of the key
  (with the copy), the ready clusters whose cache lookup fails (with the error), and the
  names of the clusters that are not ready.
\<close>

definition cachedCopies :: "'w env \<Rightarrow> string \<Rightarrow> 'w \<Rightarrow> KubefedCluster list \<Rightarrow> (string \<times> Unstructured) list" where
  "cachedCopies env key w clusters =
     concat (map (\<lambda>c. if IsClusterReady c
                         then (case GetByKey env (ClusterName c) key w of
                                 Inr (Some obj) \<Rightarrow> [(ClusterName c, obj)]
                               | Inr None \<Rightarrow> []
                               | Inl err \<Rightarrow> [])
                         else []) clusters)"

definition retrievalFailures :: "'w env \<Rightarrow> string \<Rightarrow> 'w \<Rightarrow> KubefedCluster list \<Rightarrow> (string \<times> error) list" where
  "retrievalFailures env key w clusters =
     concat (map (\<lambda>c. if IsClusterReady c
                         then (case GetByKey env (ClusterName c) key w of
                                 Inl err \<Rightarrow> [(ClusterName c, err)]
                               | Inr obj \<Rightarrow> [])
                         else []) clusters)"

definition unreadyNames :: "KubefedCluster list \<Rightarrow> string list" where
  "unreadyNames clusters = map ClusterName (filter (\<lambda>c. \<not> IsClusterReady c) clusters)"

text \<open>
  What removeManagedLabel records for the cached copies it meets: a label removal for
  every copy that is not itself being deleted.
\<close>

definition labelRemovals :: "(string \<times> Unstructured) list \<Rightarrow> dispatch_call list" where
  "labelRemovals copies =
     concat (map (\<lambda>(n, obj). if DeletionTimestamp obj \<noteq> None then [] else [RemoveManagedLabel n obj]) copies)"

text \<open>
  The cascade rule in the spec's words, for one cached copy: the cluster is not tracked
  as remaining when the copy is the host-cluster namespace and is itself terminating;
  otherwise it is tracked, and no operation is issued for a copy that carries a
  deletion timestamp, RemoveManagedLabel for the host-cluster namespace, and Delete for
  anything else.
\<close>

definition cascade_tracked :: "'w env \<Rightarrow> FederatedResource \<Rightarrow> Unstructured \<Rightarrow> bool" where
  "cascade_tracked env fedResource obj =
     (\<not> (IsNamespaceInHostCluster env fedResource obj \<and> DeletionTimestamp obj \<noteq> None))"

definition cascade_operation :: "'w env \<Rightarrow> FederatedResource \<Rightarrow> string \<Rightarrow> Unstructured \<Rightarrow> dispatch_call list" where
  "cascade_operation env fedResource n obj =
     (if \<not> cascade_tracked env fedResource obj then []
      else if DeletionTimestamp obj \<noteq> None then []
      else if IsNamespaceInHostCluster env fedResource obj then [RemoveManagedLabel n obj]
      else [Delete n])"

subsection \<open>Readings of the event list\<close>

text \<open>
  The operations that an event list shows as dispatched: those recorded in the
  dispatchers that were joined. Whether an event is a write of the resource through the
  host client. Whether an event is the report of an error to the process-wide handler.
\<close>

fun dispatched :: "event \<Rightarrow> dispatch_call list" where
  "dispatched (EvWait k calls) = filter is_operation calls"
| "dispatched e = []"

definition operations :: "event list \<Rightarrow> dispatch_call list" where
  "operations es = concat (map dispatched es)"

fun is_Update :: "event \<Rightarrow> bool" where
  "is_Update (EvUpdate obj) = True"
| "is_Update e = False"



fun is_HandleError :: "event \<Rightarrow> bool" where
  "is_HandleError (EvHandleError e) = True"
| "is_HandleError e = False"

subsection \<open>Example inputs\<close>

text \<open>
  A resource with the finalizer, and a quiet environment over a counter of host writes:
  every cache is synced, the cluster list and the cached copies are the ones given,
  placement selects the names given, and every call succeeds. The theorems below are
  evaluated on variations of it.
\<close>

definition exampleObject :: Unstructured where
  "exampleObject =
     \<lparr>ObjNamespace = ''ns'', ObjName = ''web'', ResourceVersion = ''1'', DeletionTimestamp = None,
      Finalizers = {FinalizerSyncController}, Annotations = None\<rparr>"

text \<open>The same resource once it is being deleted, without and with the orphan annotation.\<close>

definition terminatingObject :: Unstructured where
  "terminatingObject = exampleObject\<lparr>DeletionTimestamp := Some 1\<rparr>"

definition orphanedObject :: Unstructured where
  "orphanedObject = terminatingObject\<lparr>Annotations := Some [OrphanManagedResources \<mapsto> ''true'']\<rparr>"

definition exampleResource :: "Unstructured \<Rightarrow> FederatedResource" where
  "exampleResource obj =
     \<lparr>Object = obj, FederatedKind = ''FederatedDeployment'',
      FederatedName = \<lparr>Namespace = ''ns'', Name = ''web''\<rparr>,
      TargetKind = ''Deployment'', TargetName = \<lparr>Namespace = ''ns'', Name = ''web''\<rparr>\<rparr>"

definition exampleCopy :: "nat option \<Rightarrow> Unstructured" where
  "exampleCopy deleted =
     \<lparr>ObjNamespace = ''ns'', ObjName = ''web'', ResourceVersion = ''7'', DeletionTimestamp = deleted,
      Finalizers = {}, Annotations = None\<rparr>"

definition exampleEnv :: "KubefedCluster list \<Rightarrow> (string \<Rightarrow> error + Unstructured option) \<Rightarrow> string set \<Rightarrow> nat env" where
  "exampleEnv clusters cache selected =
     \<lparr>ClustersSynced = (\<lambda>w. True),
      GetReadyClusters = (\<lambda>w. Inr (filter IsClusterReady clusters)),
      GetClusters = (\<lambda>w. Inr clusters),
      TargetStoreClustersSynced = (\<lambda>cs w. True),
      GetByKey = (\<lambda>c key w. cache c),
      HasSynced = (\<lambda>w. True),
      GetFederatedResource = (\<lambda>q w. (None, False, None)),
      ComputePlacement = (\<lambda>fr cs w. Inr selected),
      UpdateVersions = (\<lambda>fr sel vm w. (None, w)),
      DeleteVersions = (\<lambda>fr w. w),
      IsNamespaceInHostCluster = (\<lambda>fr obj. False),
      OperationOutcome = (\<lambda>k c w. True),
      WaitTimeout = (\<lambda>k cs w. None),
      WaitWorld = (\<lambda>k cs w. w),
      DispatcherVersionMap = (\<lambda>cs w. []),
      DispatcherStatusMap = (\<lambda>cs w. []),
      HostUpdate = (\<lambda>obj w. (Inr obj, Suc w)),
      HostUpdateStatus = (\<lambda>obj w. (Inr obj, Suc w)),
      HostGet = (\<lambda>ns n w. (Inr (exampleObject\<lparr>ResourceVersion := ''2''\<rparr>), w)),
      SetPropagationStatus = (\<lambda>obj reason sm. Inr obj),
      MetaAccessor = (\<lambda>obj. None),
      PollTicks = (\<lambda>interval timeout. timeout div interval),
      TypeTargetKind = ''Deployment''\<rparr>"

text \<open>
  Two member clusters, the second one not ready; both hold a copy of the target that is
  not being deleted, and placement selects both.
\<close>

definition unreadyEnv :: "nat env" where
  "unreadyEnv =
     exampleEnv [\<lparr>ClusterName = ''a'', IsClusterReady = True\<rparr>, \<lparr>ClusterName = ''c'', IsClusterReady = False\<rparr>]
       (\<lambda>c. Inr (Some (exampleCopy None))) {''a'', ''c''}"

text \<open>Two ready member clusters that hold no copy of the target.\<close>

definition cleanEnv :: "nat env" where
  "cleanEnv =
     exampleEnv [\<lparr>ClusterName = ''a'', IsClusterReady = True\<rparr>, \<lparr>ClusterName = ''b'', IsClusterReady = True\<rparr>]
       (\<lambda>c. Inr None) {}"

text \<open>
  One ready member cluster that holds a copy of the target, not being deleted; and the
  same where every dispatched operation fails (without a timeout of the join).
\<close>

definition heldEnv :: "nat env" where
  "heldEnv = exampleEnv [\<lparr>ClusterName = ''a'', IsClusterReady = True\<rparr>] (\<lambda>c. Inr (Some (exampleCopy None))) {}"

definition failingEnv :: "nat env" where
  "failingEnv = heldEnv\<lparr>OperationOutcome := (\<lambda>k c w. False)\<rparr>"

text \<open>One ready member cluster whose copy of the target is itself being deleted.\<close>

definition terminatingCopyEnv :: "nat env" where
  "terminatingCopyEnv =
     exampleEnv [\<lparr>ClusterName = ''a'', IsClusterReady = True\<rparr>] (\<lambda>c. Inr (Some (exampleCopy (Some 5)))) {}"

text \<open>The join of every dispatcher times out and the version bookkeeping fails.\<close>

definition troubledEnv :: "nat env" where
  "troubledEnv =
     heldEnv\<lparr>UpdateVersions := (\<lambda>fr sel vm w. (Some (External ''versions''), w)),
             WaitTimeout := (\<lambda>k cs w. Some (External ''timeout''))\<rparr>"

text \<open>The first status write meets a conflict, the later ones go through.\<close>

definition conflictOnceEnv :: "nat env" where
  "conflictOnceEnv =
     (exampleEnv [] (\<lambda>c. Inr None) {})
       \<lparr>HostUpdateStatus := (\<lambda>obj w. (if w = 0 then Inl (ApiConflict ''conflict'') else Inr obj, Suc w))\<rparr>"

text \<open>Every status write meets a conflict.\<close>

definition conflictAlwaysEnv :: "nat env" where
  "conflictAlwaysEnv =
     (exampleEnv [] (\<lambda>c. Inr None) {})
       \<lparr>HostUpdateStatus := (\<lambda>obj w. (Inl (ApiConflict ''conflict''), Suc w))\<rparr>"

text \<open>One ready member cluster, selected by placement, whose cache lookup fails.\<close>

definition cacheFailureEnv :: "nat env" where
  "cacheFailureEnv =
     exampleEnv [\<lparr>ClusterName = ''a'', IsClusterReady = True\<rparr>] (\<lambda>c. Inl (External ''cache'')) {''a''}"

text \<open>
  The join times out and the version bookkeeping fails, while the dispatcher reports a
  version for the cluster and a status for every operation recorded in it.
\<close>

definition reportingEnv :: "nat env" where
  "reportingEnv =
     troubledEnv\<lparr>DispatcherVersionMap := (\<lambda>cs w. [(''a'', ''7'')]),
                 DispatcherStatusMap :=
                   (\<lambda>cs w. map (\<lambda>c. (call_cluster c, OtherPropagationStatus ''DeletionTimedOut''))
                              (filter is_operation cs))\<rparr>"

section \<open>Properties\<close>

subsection \<open>Events are only ever appended\<close>

lemma emit_simps [simp]: "world (emit e s) = world s" "events (emit e s) = events s @ [e]"
  by (simp_all add: emit_def)

lemma prepend_simps [simp]:
  "world (prepend es s) = world s" "events (prepend es s) = es @ events s"
  "emit e (prepend es s) = prepend es (emit e s)"
  "(prepend es s)\<lparr>world := w\<rparr> = prepend es (s\<lparr>world := w\<rparr>)"
  by (simp_all add: prepend_def emit_def)

lemma prepend_events_self: "prepend (events s) (s\<lparr>events := []\<rparr>) = s"
  by (simp add: prepend_def)

lemma emitted_prepend [simp]: "emitted s (prepend (events s) t) = events t"
  by (simp add: emitted_def prepend_def)

lemma statusCycle_prepend:
  "statusCycle env reason sm (obj, prepend es s) =
     (case statusCycle env reason sm (obj, s) of (r, obj', s') \<Rightarrow> (r, obj', prepend es s'))"
  by (simp add: statusCycle_def Let_def split: sum.splits prod.splits)

lemma poll_statusCycle_prepend:
  "poll n (statusCycle env reason sm) (obj, prepend es s) =
     (case poll n (statusCycle env reason sm) (obj, s) of (r, obj', s') \<Rightarrow> (r, obj', prepend es s'))"
proof (induction n arbitrary: obj s)
  case 0
  show ?case by simp
next
  case (Suc n)
  show ?case
    by (simp add: statusCycle_prepend Suc.IH split: prod.splits option.splits)
qed

lemma setPropagationStatus_prepend:
  "setPropagationStatus env fr reason sm (prepend es s) =
     (case setPropagationStatus env fr reason sm s of (r, s') \<Rightarrow> (r, prepend es s'))"
  by (simp add: setPropagationStatus_def PollImmediate_def poll_statusCycle_prepend
      del: poll.simps split: prod.splits option.splits)

text \<open>The outcome of the poll depends on the world only, not on the events so far.\<close>

lemma poll_statusCycle_world:
  assumes "world s = world t"
  shows "fst (poll n (statusCycle env reason sm) (obj, s)) = fst (poll n (statusCycle env reason sm) (obj, t))"
proof -
  have "s\<lparr>events := []\<rparr> = t\<lparr>events := []\<rparr>" using assms by simp
  then have "poll n (statusCycle env reason sm) (obj, prepend (events s) (s\<lparr>events := []\<rparr>)) =
      (case poll n (statusCycle env reason sm) (obj, t\<lparr>events := []\<rparr>) of (r, obj', s') \<Rightarrow> (r, obj', prepend (events s) s'))"
    by (simp add: poll_statusCycle_prepend del: prepend_simps)
  moreover have "poll n (statusCycle env reason sm) (obj, prepend (events t) (t\<lparr>events := []\<rparr>)) =
      (case poll n (statusCycle env reason sm) (obj, t\<lparr>events := []\<rparr>) of (r, obj', s') \<Rightarrow> (r, obj', prepend (events t) s'))"
    by (simp add: poll_statusCycle_prepend del: prepend_simps)
  ultimately show ?thesis
    by (simp add: prepend_events_self split: prod.splits)
qed

lemma setPropagationStatus_world:
  assumes "world s = world t"
  shows "fst (setPropagationStatus env fr reason sm s) = fst (setPropagationStatus env fr reason sm t)"
proof -
  have "fst (poll (Suc (PollTicks env 1 5)) (statusCycle env reason sm) (Object fr, s)) =
        fst (poll (Suc (PollTicks env 1 5)) (statusCycle env reason sm) (Object fr, t))"
    by (rule poll_statusCycle_world [OF assms])
  then show ?thesis
    by (auto simp add: setPropagationStatus_def PollImmediate_def simp del: poll.simps split: prod.splits option.splits)
qed

text \<open>The events of one cycle and of the poll.\<close>

lemma statusCycle_shape:
  assumes "statusCycle env reason sm (obj, s\<lparr>events := []\<rparr>) = (res, obj1, s1)"
  shows "(res = (False, None) \<longrightarrow>
            (\<exists>ob ns nm. events s1 = [EvSetPropagationStatus obj reason sm, EvUpdateStatus ob, EvGet ns nm (Inr obj1)]))
       \<and> (res \<noteq> (False, None) \<longrightarrow>
            events s1 = [EvSetPropagationStatus obj reason sm]
          \<or> (\<exists>ob. events s1 = [EvSetPropagationStatus obj reason sm, EvUpdateStatus ob])
          \<or> (\<exists>ob ns nm e. events s1 = [EvSetPropagationStatus obj reason sm, EvUpdateStatus ob, EvGet ns nm (Inl e)]))"
  using assms
  by (auto simp: statusCycle_def Let_def split: sum.splits prod.splits if_splits)

lemma poll_fresh:
  "poll n (statusCycle env reason sm) (obj, s\<lparr>events := []\<rparr>) = (r, obj', s') \<Longrightarrow>
     (if n = 0 then events s' = [] else (\<exists>es. events s' = EvSetPropagationStatus obj reason sm # es)) \<and> merges_fresh (events s')
     \<and> length (filter is_UpdateStatus (events s')) \<le> n"
proof (induction n arbitrary: obj s r obj' s')
  case 0
  then show ?case by auto
next
  case (Suc n)
  obtain res obj1 s1 where c: "statusCycle env reason sm (obj, s\<lparr>events := []\<rparr>) = (res, obj1, s1)"
    by (metis prod_cases3)
  note sh = statusCycle_shape [OF c]
  show ?case
  proof (cases "res = (False, None)")
    case False
    then have "s' = s1"
      using Suc.prems c by (cases res) (auto split: option.splits if_splits)
    then show ?thesis using sh False by auto
  next
    case True
    then obtain o1 ns nm where ev: "events s1 = [EvSetPropagationStatus obj reason sm, EvUpdateStatus o1, EvGet ns nm (Inr obj1)]"
      using sh by blast
    obtain r2 obj2 s2 where p: "poll n (statusCycle env reason sm) (obj1, s1\<lparr>events := []\<rparr>) = (r2, obj2, s2)"
      by (metis prod_cases3)
    have "poll n (statusCycle env reason sm) (obj1, prepend (events s1) (s1\<lparr>events := []\<rparr>)) = (r2, obj2, prepend (events s1) s2)"
      by (simp add: poll_statusCycle_prepend p del: prepend_simps)
    then have "poll n (statusCycle env reason sm) (obj1, s1) = (r2, obj2, prepend (events s1) s2)"
      by (simp add: prepend_events_self)
    then have s': "s' = prepend (events s1) s2"
      using Suc.prems c True by simp
    from Suc.IH [OF p] have ih: "(events s2 = [] \<or> (\<exists>es. events s2 = EvSetPropagationStatus obj1 reason sm # es))"
      "merges_fresh (events s2)" "length (filter is_UpdateStatus (events s2)) \<le> n"
      by (auto split: if_splits)
    from ih(1) show ?thesis
    proof
      assume "events s2 = []"
      then show ?thesis using s' ev by simp
    next
      assume "\<exists>es. events s2 = EvSetPropagationStatus obj1 reason sm # es"
      then obtain es where "events s2 = EvSetPropagationStatus obj1 reason sm # es" by blast
      then show ?thesis using s' ev ih(2,3) by simp
    qed
  qed
qed

lemma poll_always_conflict:
  assumes m: "\<forall>ob. \<exists>obj1. SetPropagationStatus env ob reason sm = Inr obj1"
    and u: "\<forall>ob w. \<exists>e w'. HostUpdateStatus env ob w = (Inl e, w') \<and> IsConflict e"
    and g: "\<forall>ns nm w. \<exists>ob w'. HostGet env ns nm w = (Inr ob, w')"
  shows "fst (poll n (statusCycle env reason sm) (obj, s)) = Some ErrWaitTimeout"
proof (induction n arbitrary: obj s)
  case 0
  show ?case by simp
next
  case (Suc n)
  obtain obj1 where 1: "SetPropagationStatus env obj reason sm = Inr obj1" using m by blast
  obtain e w where 2: "HostUpdateStatus env obj1 (world s) = (Inl e, w)" "IsConflict e"
    using u by blast
  obtain obj3 w' where 3: "HostGet env (ObjNamespace obj1) (ObjName obj1) w = (Inr obj3, w')"
    using g by blast
  have "\<exists>s1. statusCycle env reason sm (obj, s) = ((False, None), obj3, s1)"
    using 1 2 3 by (simp add: statusCycle_def Let_def)
  then show ?case using Suc.IH by auto
qed

lemma emitted_via_prepend:
  assumes "\<And>es t. f (prepend es t) = (case f t of (r, t') \<Rightarrow> (r, prepend es t'))"
  shows "emitted s (snd (f s)) = events (snd (f (s\<lparr>events := []\<rparr>)))"
proof -
  have "f (prepend (events s) (s\<lparr>events := []\<rparr>)) =
      (case f (s\<lparr>events := []\<rparr>) of (r, t') \<Rightarrow> (r, prepend (events s) t'))"
    by (rule assms)
  then have "f s = (case f (s\<lparr>events := []\<rparr>) of (r, t') \<Rightarrow> (r, prepend (events s) t'))"
    by (simp add: prepend_events_self)
  then show ?thesis
    by (simp add: split: prod.splits)
qed

lemma setPropagationStatus_emitted:
  "\<exists>es. emitted s (snd (setPropagationStatus env fr reason sm s)) = EvSetPropagationStatus (Object fr) reason sm # es
     \<and> merges_fresh (EvSetPropagationStatus (Object fr) reason sm # es)
     \<and> length (filter is_UpdateStatus (EvSetPropagationStatus (Object fr) reason sm # es)) \<le> Suc (PollTicks env 1 5)"
proof -
  obtain r obj' s' where p: "poll (Suc (PollTicks env 1 5)) (statusCycle env reason sm) (Object fr, s\<lparr>events := []\<rparr>) = (r, obj', s')"
    by (metis prod_cases3)
  note f = poll_fresh [OF p]
  then obtain es where es: "events s' = EvSetPropagationStatus (Object fr) reason sm # es" by auto
  have em: "emitted s (snd (setPropagationStatus env fr reason sm s)) =
      events (snd (setPropagationStatus env fr reason sm (s\<lparr>events := []\<rparr>)))"
    by (rule emitted_via_prepend) (rule setPropagationStatus_prepend)
  have "events (snd (setPropagationStatus env fr reason sm (s\<lparr>events := []\<rparr>))) = events s'
      \<or> (\<exists>e. events (snd (setPropagationStatus env fr reason sm (s\<lparr>events := []\<rparr>))) = events s' @ [EvHandleError e])"
    using p by (auto simp: setPropagationStatus_def PollImmediate_def simp del: poll.simps split: option.splits)
  then show ?thesis
  proof
    assume "events (snd (setPropagationStatus env fr reason sm (s\<lparr>events := []\<rparr>))) = events s'"
    then show ?thesis using em es f by simp
  next
    assume "\<exists>e. events (snd (setPropagationStatus env fr reason sm (s\<lparr>events := []\<rparr>))) = events s' @ [EvHandleError e]"
    then obtain e where e: "events (snd (setPropagationStatus env fr reason sm (s\<lparr>events := []\<rparr>))) = events s' @ [EvHandleError e]"
      by blast
    have mf: "merges_fresh (xs @ [EvHandleError e]) = merges_fresh xs" for xs
      by (induction xs rule: merges_fresh.induct) auto
    show ?thesis using em es f e mf [of "events s'"] by simp
  qed
qed

subsection \<open>The status write and its retry\<close>

text \<open>
  C5: setPropagationStatus merges the status into the in-memory object and writes it
  through the status update. A failed merge, a write failure that is not a conflict, or
  a failed re-fetch after a conflict gives StatusError; a successful write gives
  StatusAllOK; after a conflict and a successful re-fetch the whole cycle runs again on
  the re-fetched object for the evaluations that the window (polled every 1s, capped at
  5s) still allows, and when every write conflicts the window runs out and the result is
  StatusError. There is at most one write per evaluation, and every merge after the
  first starts from the object that the re-fetch just returned.
\<close>

theorem setPropagationStatus_retry:
  "(\<forall>e. SetPropagationStatus env (Object fr) reason sm = Inl e \<longrightarrow>
        fst (setPropagationStatus env fr reason sm s) = StatusError)
 \<and> (\<forall>obj1 obj2 w. SetPropagationStatus env (Object fr) reason sm = Inr obj1 \<and>
        HostUpdateStatus env obj1 (world s) = (Inr obj2, w) \<longrightarrow>
        fst (setPropagationStatus env fr reason sm s) = StatusAllOK)
 \<and> (\<forall>obj1 e w. SetPropagationStatus env (Object fr) reason sm = Inr obj1 \<and>
        HostUpdateStatus env obj1 (world s) = (Inl e, w) \<and> \<not> IsConflict e \<longrightarrow>
        fst (setPropagationStatus env fr reason sm s) = StatusError)
 \<and> (\<forall>obj1 e w e' w'. SetPropagationStatus env (Object fr) reason sm = Inr obj1 \<and>
        HostUpdateStatus env obj1 (world s) = (Inl e, w) \<and> IsConflict e \<and>
        HostGet env (ObjNamespace obj1) (ObjName obj1) w = (Inl e', w') \<longrightarrow>
        fst (setPropagationStatus env fr reason sm s) = StatusError)
 \<and> (\<forall>obj1 e w obj3 w'. SetPropagationStatus env (Object fr) reason sm = Inr obj1 \<and>
        HostUpdateStatus env obj1 (world s) = (Inl e, w) \<and> IsConflict e \<and>
        HostGet env (ObjNamespace obj1) (ObjName obj1) w = (Inr obj3, w') \<longrightarrow>
        fst (setPropagationStatus env fr reason sm s) =
          (case fst (poll (PollTicks env 1 5) (statusCycle env reason sm) (obj3, s\<lparr>world := w'\<rparr>)) of
             Some err \<Rightarrow> StatusError
           | None \<Rightarrow> StatusAllOK))
 \<and> ((\<forall>ob. \<exists>obj1. SetPropagationStatus env ob reason sm = Inr obj1) \<and>
      (\<forall>ob w. \<exists>e w'. HostUpdateStatus env ob w = (Inl e, w') \<and> IsConflict e) \<and>
      (\<forall>ns nm w. \<exists>ob w'. HostGet env ns nm w = (Inr ob, w')) \<longrightarrow>
        fst (setPropagationStatus env fr reason sm s) = StatusError)
 \<and> length (filter is_UpdateStatus (emitted s (snd (setPropagationStatus env fr reason sm s)))) \<le> Suc (PollTicks env 1 5)
 \<and> merges_fresh (emitted s (snd (setPropagationStatus env fr reason sm s)))"
proof -
  have c1: "fst (setPropagationStatus env fr reason sm s) = StatusError"
    if "SetPropagationStatus env (Object fr) reason sm = Inl e" for e
    using that by (simp add: setPropagationStatus_def PollImmediate_def statusCycle_def)
  have c2: "fst (setPropagationStatus env fr reason sm s) = StatusAllOK"
    if "SetPropagationStatus env (Object fr) reason sm = Inr obj1"
      "HostUpdateStatus env obj1 (world s) = (Inr obj2, w)" for obj1 obj2 w
    using that by (simp add: setPropagationStatus_def PollImmediate_def statusCycle_def Let_def)
  have c3: "fst (setPropagationStatus env fr reason sm s) = StatusError"
    if "SetPropagationStatus env (Object fr) reason sm = Inr obj1"
      "HostUpdateStatus env obj1 (world s) = (Inl e, w)" "\<not> IsConflict e" for obj1 e w
    using that by (simp add: setPropagationStatus_def PollImmediate_def statusCycle_def Let_def)
  have c4: "fst (setPropagationStatus env fr reason sm s) = StatusError"
    if "SetPropagationStatus env (Object fr) reason sm = Inr obj1"
      "HostUpdateStatus env obj1 (world s) = (Inl e, w)" "IsConflict e"
      "HostGet env (ObjNamespace obj1) (ObjName obj1) w = (Inl e', w')" for obj1 e w e' w'
    using that by (simp add: setPropagationStatus_def PollImmediate_def statusCycle_def Let_def)
  have c5: "fst (setPropagationStatus env fr reason sm s) =
          (case fst (poll (PollTicks env 1 5) (statusCycle env reason sm) (obj3, s\<lparr>world := w'\<rparr>)) of
             Some err \<Rightarrow> StatusError
           | None \<Rightarrow> StatusAllOK)"
    if h: "SetPropagationStatus env (Object fr) reason sm = Inr obj1"
      "HostUpdateStatus env obj1 (world s) = (Inl e, w)" "IsConflict e"
      "HostGet env (ObjNamespace obj1) (ObjName obj1) w = (Inr obj3, w')" for obj1 e w obj3 w'
  proof -
    obtain s1 where s1: "statusCycle env reason sm (Object fr, s) = ((False, None), obj3, s1)" "world s1 = w'"
      using h by (simp add: statusCycle_def Let_def)
    have "fst (poll (PollTicks env 1 5) (statusCycle env reason sm) (obj3, s1)) =
          fst (poll (PollTicks env 1 5) (statusCycle env reason sm) (obj3, s\<lparr>world := w'\<rparr>))"
      by (rule poll_statusCycle_world) (simp add: s1)
    then show ?thesis
      using s1 by (auto simp add: setPropagationStatus_def PollImmediate_def split: prod.splits option.splits)
  qed
  have c6: "fst (setPropagationStatus env fr reason sm s) = StatusError"
    if "\<forall>ob. \<exists>obj1. SetPropagationStatus env ob reason sm = Inr obj1"
      "\<forall>ob w. \<exists>e w'. HostUpdateStatus env ob w = (Inl e, w') \<and> IsConflict e"
      "\<forall>ns nm w. \<exists>ob w'. HostGet env ns nm w = (Inr ob, w')"
  proof -
    have "fst (poll (Suc (PollTicks env 1 5)) (statusCycle env reason sm) (Object fr, s)) = Some ErrWaitTimeout"
      by (rule poll_always_conflict [OF that])
    then show ?thesis
      by (auto simp add: setPropagationStatus_def PollImmediate_def simp del: poll.simps split: prod.splits option.splits)
  qed
  from setPropagationStatus_emitted [of s env fr reason sm]
  have c78: "length (filter is_UpdateStatus (emitted s (snd (setPropagationStatus env fr reason sm s)))) \<le> Suc (PollTicks env 1 5)"
    "merges_fresh (emitted s (snd (setPropagationStatus env fr reason sm s)))"
    by auto
  show ?thesis
    using c1 c2 c3 c4 c5 c6 c78 by blast
qed

theorem setPropagationStatus_retry_witness:
  "fst (setPropagationStatus conflictOnceEnv (exampleResource exampleObject) AggregateSuccess None
          \<lparr>world = 0, events = []\<rparr>) = StatusAllOK
   \<and> emitted \<lparr>world = 0, events = []\<rparr>
        (snd (setPropagationStatus conflictOnceEnv (exampleResource exampleObject) AggregateSuccess None
          \<lparr>world = 0, events = []\<rparr>)) =
      [EvSetPropagationStatus exampleObject AggregateSuccess None,
       EvUpdateStatus exampleObject,
       EvGet ''ns'' ''web'' (Inr (exampleObject\<lparr>ResourceVersion := ''2''\<rparr>)),
       EvSetPropagationStatus (exampleObject\<lparr>ResourceVersion := ''2''\<rparr>) AggregateSuccess None,
       EvUpdateStatus (exampleObject\<lparr>ResourceVersion := ''2''\<rparr>)]
   \<and> merges_fresh (emitted \<lparr>world = 0, events = []\<rparr>
        (snd (setPropagationStatus conflictOnceEnv (exampleResource exampleObject) AggregateSuccess None
          \<lparr>world = 0, events = []\<rparr>)))
   \<and> fst (setPropagationStatus conflictAlwaysEnv (exampleResource exampleObject) AggregateSuccess None
          \<lparr>world = 0, events = []\<rparr>) = StatusError
   \<and> length (filter is_UpdateStatus (emitted \<lparr>world = 0, events = []\<rparr>
        (snd (setPropagationStatus conflictAlwaysEnv (exampleResource exampleObject) AggregateSuccess None
          \<lparr>world = 0, events = []\<rparr>)))) \<le> 6"
proof -
  let ?fr = "exampleResource exampleObject"
  let ?s = "\<lparr>world = 0::nat, events = []\<rparr>"
  have 1: "setPropagationStatus conflictOnceEnv ?fr AggregateSuccess None ?s =
      (StatusAllOK,
       \<lparr>world = Suc (Suc 0),
        events = [EvSetPropagationStatus exampleObject AggregateSuccess None,
                  EvUpdateStatus exampleObject,
                  EvGet ''ns'' ''web'' (Inr (exampleObject\<lparr>ResourceVersion := ''2''\<rparr>)),
                  EvSetPropagationStatus (exampleObject\<lparr>ResourceVersion := ''2''\<rparr>) AggregateSuccess None,
                  EvUpdateStatus (exampleObject\<lparr>ResourceVersion := ''2''\<rparr>)]\<rparr>)"
    by (simp add: setPropagationStatus_def PollImmediate_def statusCycle_def conflictOnceEnv_def
        exampleEnv_def exampleResource_def exampleObject_def emit_def Let_def eval_nat_numeral)
  have m: "\<forall>ob. \<exists>obj1. SetPropagationStatus conflictAlwaysEnv ob AggregateSuccess None = Inr obj1"
    by (simp add: conflictAlwaysEnv_def exampleEnv_def)
  have u: "\<forall>ob w. \<exists>e w'. HostUpdateStatus conflictAlwaysEnv ob w = (Inl e, w') \<and> IsConflict e"
    by (simp add: conflictAlwaysEnv_def)
  have g: "\<forall>ns nm w. \<exists>ob w'. HostGet conflictAlwaysEnv ns nm w = (Inr ob, w')"
    by (simp add: conflictAlwaysEnv_def exampleEnv_def)
  have t: "PollTicks conflictAlwaysEnv 1 5 = 5"
    by (simp add: conflictAlwaysEnv_def exampleEnv_def)
  note rest = setPropagationStatus_retry [of conflictAlwaysEnv ?fr AggregateSuccess None ?s,
      THEN conjunct2, THEN conjunct2, THEN conjunct2, THEN conjunct2, THEN conjunct2]
  have 2: "fst (setPropagationStatus conflictAlwaysEnv ?fr AggregateSuccess None ?s) = StatusError"
    using rest [THEN conjunct1] m u g by blast
  have 3: "length (filter is_UpdateStatus (emitted ?s
        (snd (setPropagationStatus conflictAlwaysEnv ?fr AggregateSuccess None ?s)))) \<le> 6"
    using rest [THEN conjunct2, THEN conjunct1] t by simp
  have 4: "merges_fresh (emitted ?s (snd (setPropagationStatus conflictOnceEnv ?fr AggregateSuccess None ?s)))"
    by (rule setPropagationStatus_retry [of conflictOnceEnv ?fr AggregateSuccess None ?s,
      THEN conjunct2, THEN conjunct2, THEN conjunct2, THEN conjunct2, THEN conjunct2, THEN conjunct2,
      THEN conjunct2])
  show ?thesis using 1 2 3 4 by (simp add: emitted_def)
qed

subsection \<open>reconcile and the sync preconditions\<close>

lemma setPropagationStatus_status:
  "fst (setPropagationStatus env fr reason sm s) = StatusAllOK \<or> fst (setPropagationStatus env fr reason sm s) = StatusError"
  by (simp add: setPropagationStatus_def split: prod.splits option.splits)

lemma syncToClusters_status:
  "fst (syncToClusters env fr s) = StatusAllOK \<or> fst (syncToClusters env fr s) = StatusError"
  by (simp add: syncToClusters_def Let_def setPropagationStatus_status split: sum.splits prod.splits)

lemma ensureDeletion_status:
  "fst (ensureDeletion env fr s) \<noteq> StatusNotSynced"
  by (simp add: ensureDeletion_def ensureDeletion_orphan_def ensureDeletion_cascade_def Let_def
      split: prod.splits option.splits)

lemma reconcile_synced_status:
  assumes "isSynced env s = (True, s0)"
  shows "fst (reconcile env qn s) \<noteq> StatusNotSynced"
proof -
  have sy: "fst (syncToClusters env fr' s2) \<noteq> StatusNotSynced" for fr' s2
    using syncToClusters_status [of env fr' s2] by auto
  show ?thesis
    using assms sy
    by (simp add: reconcile_def Let_def ensureDeletion_status split: prod.splits option.splits)
qed

text \<open>
  C8: reconcile returns StatusNotSynced exactly when a sync precondition is unmet: the
  cluster list is not synced, the accessor is not synced, the list of ready clusters
  cannot be retrieved, or the target store is not synced for the ready clusters. It
  then stops there: the world is untouched and nothing is added to the events but the
  report of the failed retrieval, so nothing is resolved and nothing dispatched.
\<close>

theorem reconcile_NotSynced:
  "(fst (reconcile env qualifiedName s) = StatusNotSynced \<longleftrightarrow>
      \<not> (ClustersSynced env (world s) \<and> HasSynced env (world s) \<and>
         (\<exists>clusters. GetReadyClusters env (world s) = Inr clusters \<and>
                     TargetStoreClustersSynced env clusters (world s))))
   \<and> (fst (reconcile env qualifiedName s) = StatusNotSynced \<longrightarrow>
        world (snd (reconcile env qualifiedName s)) = world s \<and>
        list_all is_HandleError (emitted s (snd (reconcile env qualifiedName s))))"
proof (cases "fst (isSynced env s)")
  case True
  then obtain s0 where s0: "isSynced env s = (True, s0)" by (cases "isSynced env s") auto
  have "ClustersSynced env (world s) \<and> HasSynced env (world s) \<and>
         (\<exists>clusters. GetReadyClusters env (world s) = Inr clusters \<and>
                     TargetStoreClustersSynced env clusters (world s))"
    using s0 by (auto simp: isSynced_def split: if_splits sum.splits)
  then show ?thesis using reconcile_synced_status [OF s0] by simp
next
  case False
  then obtain s0 where s0: "isSynced env s = (False, s0)" by (cases "isSynced env s") auto
  have r: "reconcile env qualifiedName s = (StatusNotSynced, s0)"
    using s0 by (simp add: reconcile_def)
  have u: "\<not> (ClustersSynced env (world s) \<and> HasSynced env (world s) \<and>
         (\<exists>clusters. GetReadyClusters env (world s) = Inr clusters \<and>
                     TargetStoreClustersSynced env clusters (world s)))"
    using s0 by (auto simp: isSynced_def split: if_splits sum.splits)
  have e: "world s0 = world s \<and> list_all is_HandleError (emitted s s0)"
    using s0 by (auto simp: isSynced_def emitted_def split: if_splits sum.splits)
  show ?thesis using r u e by simp
qed

theorem reconcile_NotSynced_witness:
  "fst (reconcile ((exampleEnv [] (\<lambda>c. Inr None) {})\<lparr>HasSynced := (\<lambda>w. False)\<rparr>)
         \<lparr>Namespace = ''ns'', Name = ''web''\<rparr> \<lparr>world = 0, events = []\<rparr>) = StatusNotSynced
   \<and> snd (reconcile ((exampleEnv [] (\<lambda>c. Inr None) {})\<lparr>HasSynced := (\<lambda>w. False)\<rparr>)
         \<lparr>Namespace = ''ns'', Name = ''web''\<rparr> \<lparr>world = 0, events = []\<rparr>) = \<lparr>world = 0, events = []\<rparr>
   \<and> fst (reconcile (exampleEnv [] (\<lambda>c. Inr None) {})
         \<lparr>Namespace = ''ns'', Name = ''web''\<rparr> \<lparr>world = 0, events = []\<rparr>) = StatusAllOK"
  using reconcile_NotSynced [of "(exampleEnv [] (\<lambda>c. Inr None) {})\<lparr>HasSynced := (\<lambda>w. False)\<rparr>"
      "\<lparr>Namespace = ''ns'', Name = ''web''\<rparr>" "\<lparr>world = 0, events = []\<rparr>"]
    reconcile_NotSynced [of "exampleEnv [] (\<lambda>c. Inr None) {}"
      "\<lparr>Namespace = ''ns'', Name = ''web''\<rparr>" "\<lparr>world = 0, events = []\<rparr>"]
  by (simp add: reconcile_def isSynced_def exampleEnv_def emit_def Let_def)

subsection \<open>The deletion loop in closed form\<close>

lemma handleDeletionInCluster_step:
  "handleDeletionInCluster env kind key f c l =
     l\<lparr>loopDispatcher := fst (fold (\<lambda>(n, obj). f n obj) (cachedCopies env key (world (loopState l)) [c])
                                (loopDispatcher l, loopCaptured l)),
       loopCaptured := snd (fold (\<lambda>(n, obj). f n obj) (cachedCopies env key (world (loopState l)) [c])
                                (loopDispatcher l, loopCaptured l)),
       retrievalFailureClusters := retrievalFailureClusters l @
           map fst (retrievalFailures env key (world (loopState l)) [c]),
       unreadyClusters := unreadyClusters l @ unreadyNames [c],
       loopState := (loopState l)\<lparr>events := events (loopState l) @
           map (\<lambda>(n, e). EvHandleError (Wrap e ''failed to retrieve''))
             (retrievalFailures env key (world (loopState l)) [c])\<rparr>\<rparr>"
  by (simp add: handleDeletionInCluster_def cachedCopies_def retrievalFailures_def unreadyNames_def
      Let_def emit_def split: sum.splits option.splits prod.splits)

lemma cachedCopies_Cons: "cachedCopies env key w (c # cs) = cachedCopies env key w [c] @ cachedCopies env key w cs"
  by (simp add: cachedCopies_def)

lemma retrievalFailures_Cons: "retrievalFailures env key w (c # cs) = retrievalFailures env key w [c] @ retrievalFailures env key w cs"
  by (simp add: retrievalFailures_def)

lemma unreadyNames_Cons: "unreadyNames (c # cs) = unreadyNames [c] @ unreadyNames cs"
  by (simp add: unreadyNames_def)

lemma handleDeletion_loop:
  "fold (handleDeletionInCluster env kind key f) clusters l =
     l\<lparr>loopDispatcher := fst (fold (\<lambda>(n, obj). f n obj) (cachedCopies env key (world (loopState l)) clusters)
                                (loopDispatcher l, loopCaptured l)),
       loopCaptured := snd (fold (\<lambda>(n, obj). f n obj) (cachedCopies env key (world (loopState l)) clusters)
                                (loopDispatcher l, loopCaptured l)),
       retrievalFailureClusters := retrievalFailureClusters l @
           map fst (retrievalFailures env key (world (loopState l)) clusters),
       unreadyClusters := unreadyClusters l @ unreadyNames clusters,
       loopState := (loopState l)\<lparr>events := events (loopState l) @
           map (\<lambda>(n, e). EvHandleError (Wrap e ''failed to retrieve''))
             (retrievalFailures env key (world (loopState l)) clusters)\<rparr>\<rparr>"
proof (induction clusters arbitrary: l)
  case Nil
  show ?case by (simp add: cachedCopies_def retrievalFailures_def unreadyNames_def)
next
  case (Cons c cs)
  show ?case
    unfolding fold_Cons comp_apply
    by (subst Cons.IH)
      (simp add: handleDeletionInCluster_step [of env kind key f c l] cachedCopies_Cons [of _ _ _ c cs]
        retrievalFailures_Cons [of _ _ _ c cs] unreadyNames_Cons [of c cs])
qed

lemma handleDeletionInClusters_closed:
  assumes "GetClusters env (world s) = Inr clusters"
  shows "handleDeletionInClusters env kind qn f captured s =
    (let key = QualifiedName_String qn; w = world s;
         dc = fold (\<lambda>(n, obj). f n obj) (cachedCopies env key w clusters) ([], captured);
         failures = retrievalFailures env key w clusters;
         s1 = \<lparr>world = WaitWorld env UnmanagedDispatcher (fst dc) w,
               events = events s @ map (\<lambda>(n, e). EvHandleError (Wrap e ''failed to retrieve'')) failures @
                        [EvWait UnmanagedDispatcher (fst dc)]\<rparr>
     in ((case WaitTimeout env UnmanagedDispatcher (fst dc) w of
            Some e \<Rightarrow> (False, Some e)
          | None \<Rightarrow>
              if failures \<noteq> [] then
                (False, Some (Errorf ''failed to retrieve a managed resource for the following cluster(s)''
                                (map fst failures)))
              else if unreadyNames clusters \<noteq> [] then
                (False, Some (Errorf ''the following clusters were not ready'' (unreadyNames clusters)))
              else (list_all (\<lambda>c. OperationOutcome env UnmanagedDispatcher c w) (filter is_operation (fst dc)), None)),
         snd dc, s1))"
  using assms
  by (simp add: handleDeletionInClusters_def handleDeletion_loop Let_def Wait_def emit_def
      split: option.splits)

lemma fold_removeManagedLabel_deletionFunc:
  "fold (\<lambda>(n, obj). removeManagedLabel_deletionFunc n obj) copies (d, u) = (d @ labelRemovals copies, u)"
  by (induction copies arbitrary: d)
    (auto simp: removeManagedLabel_deletionFunc_def labelRemovals_def)

lemma fold_deleteFromClusters_deletionFunc:
  "fold (\<lambda>(n, obj). deleteFromClusters_deletionFunc env fr n obj) copies (d, r) =
     (d @ concat (map (\<lambda>(n, obj). cascade_operation env fr n obj) copies),
      r @ map fst (filter (\<lambda>(n, obj). cascade_tracked env fr obj) copies))"
  by (induction copies arbitrary: d r)
    (auto simp: deleteFromClusters_deletionFunc_def cascade_operation_def cascade_tracked_def)

lemma handleDeletionInClusters_prepend:
  "handleDeletionInClusters env kind qn f captured (prepend es s) =
     (case handleDeletionInClusters env kind qn f captured s of (r, c, s') \<Rightarrow> (r, c, prepend es s'))"
proof (cases "GetClusters env (world s)")
  case (Inl e)
  then show ?thesis by (simp add: handleDeletionInClusters_def)
next
  case (Inr clusters)
  then have "GetClusters env (world (prepend es s)) = Inr clusters" by simp
  then show ?thesis
    by (simp add: handleDeletionInClusters_closed [OF Inr] handleDeletionInClusters_closed Let_def prepend_def)
qed

lemma removeManagedLabel_prepend:
  "removeManagedLabel env kind qn (prepend es s) =
     (case removeManagedLabel env kind qn s of (r, s') \<Rightarrow> (r, prepend es s'))"
  by (simp add: removeManagedLabel_def handleDeletionInClusters_prepend split: prod.splits)

lemma ensureRemovedOrUnmanaged_prepend:
  "ensureRemovedOrUnmanaged env fr (prepend es s) =
     (case ensureRemovedOrUnmanaged env fr s of (r, s') \<Rightarrow> (r, prepend es s'))"
  by (simp add: ensureRemovedOrUnmanaged_def Let_def split: sum.splits prod.splits)

lemma removeFinalizer_prepend:
  "removeFinalizer env fr (prepend es s) =
     (case removeFinalizer env fr s of (r, fr', s') \<Rightarrow> (r, fr', prepend es s'))"
  by (simp add: removeFinalizer_def split: sum.splits prod.splits)

lemma ensureFinalizer_prepend:
  "ensureFinalizer env fr (prepend es s) =
     (case ensureFinalizer env fr s of (r, fr', s') \<Rightarrow> (r, fr', prepend es s'))"
  by (simp add: ensureFinalizer_def split: sum.splits prod.splits)

lemma deleteFromClusters_prepend:
  "deleteFromClusters env fr (prepend es s) =
     (case deleteFromClusters env fr s of (r, s') \<Rightarrow> (r, prepend es s'))"
  by (simp add: deleteFromClusters_def handleDeletionInClusters_prepend ensureRemovedOrUnmanaged_prepend
      removeFinalizer_prepend split: prod.splits option.splits)

lemma ensureDeletion_prepend:
  "ensureDeletion env fr (prepend es s) =
     (case ensureDeletion env fr s of (r, s') \<Rightarrow> (r, prepend es s'))"
  by (simp add: ensureDeletion_def ensureDeletion_orphan_def ensureDeletion_cascade_def Let_def
      deleteFromClusters_prepend removeFinalizer_prepend removeManagedLabel_prepend
      split: prod.splits option.splits)

lemma syncToClusters_prepend:
  "syncToClusters env fr (prepend es s) =
     (case syncToClusters env fr s of (r, s') \<Rightarrow> (r, prepend es s'))"
  by (simp add: syncToClusters_def Let_def setPropagationStatus_prepend
      split: sum.splits prod.splits option.splits)

lemma isSynced_prepend:
  "isSynced env (prepend es s) = (case isSynced env s of (r, s') \<Rightarrow> (r, prepend es s'))"
  by (simp add: isSynced_def split: sum.splits)

lemma reconcile_prepend:
  "reconcile env qn (prepend es s) = (case reconcile env qn s of (r, s') \<Rightarrow> (r, prepend es s'))"
proof -
  obtain b s0 where i: "isSynced env s = (b, s0)" by force
  have i': "isSynced env (prepend es s) = (b, prepend es s0)"
    using i by (simp add: isSynced_prepend)
  show ?thesis
  proof (cases b)
    case False
    then show ?thesis using i i' by (simp add: reconcile_def)
  next
    case True
    obtain fr po err where g: "GetFederatedResource env qn (world s0) = (fr, po, err)"
      by (metis prod_cases3)
    show ?thesis
    proof (cases err)
      case (Some e)
      then show ?thesis using i i' True g by (simp add: reconcile_def Let_def)
    next
      case None
      show ?thesis
      proof (cases po)
        case True
        then show ?thesis using i i' \<open>b\<close> g None
          by (simp add: reconcile_def Let_def removeManagedLabel_prepend split: prod.splits option.splits)
      next
        case False
        show ?thesis
        proof (cases fr)
          case None
          then show ?thesis using i i' \<open>b\<close> g \<open>err = None\<close> False
            by (simp add: reconcile_def Let_def)
        next
          case (Some f)
          show ?thesis
          proof (cases "DeletionTimestamp (Object f) = None")
            case False
            then show ?thesis using i i' \<open>b\<close> g \<open>err = None\<close> \<open>\<not> po\<close> Some
              by (simp add: reconcile_def Let_def ensureDeletion_prepend split: prod.splits)
          next
            case True
            then show ?thesis using i i' \<open>b\<close> g \<open>err = None\<close> \<open>\<not> po\<close> Some
              by (simp add: reconcile_def Let_def ensureFinalizer_prepend syncToClusters_prepend
                  split: prod.splits option.splits)
          qed
        qed
      qed
    qed
  qed
qed

subsection \<open>The decision table of syncToClusters\<close>

lemma syncToCluster_decision:
  "syncToCluster env fr key selected w c d = d @ syncDecision env fr key selected w c"
  by (cases "IsClusterReady c"; cases "ClusterName c \<in> selected")
    (auto simp: syncToCluster_def syncDecision_def Let_def split: sum.splits option.splits)

lemma fold_syncToCluster:
  "fold (syncToCluster env fr key selected w) clusters d =
     d @ concat (map (syncDecision env fr key selected w) clusters)"
  by (induction clusters arbitrary: d) (simp_all add: syncToCluster_decision)

lemma setPropagationStatus_events:
  "\<exists>es. events (snd (setPropagationStatus env fr reason sm t)) = events t @ es"
proof -
  have "setPropagationStatus env fr reason sm (prepend (events t) (t\<lparr>events := []\<rparr>)) =
      (case setPropagationStatus env fr reason sm (t\<lparr>events := []\<rparr>) of (r, s') \<Rightarrow> (r, prepend (events t) s'))"
    by (rule setPropagationStatus_prepend)
  then show ?thesis
    by (simp add: prepend_events_self split: prod.splits)
qed

text \<open>
  The claim as stated gives every cluster of the list the action of the table. With one
  ready cluster, selected by placement, whose cache lookup fails, syncToClusters records
  CachedRetrievalFailed for it and no operation: no row of the table yields that record,
  and the rows for a ready, selected cluster ask for Create or Update.
\<close>

theorem syncToClusters_decision_table_counterexample:
  "emitted \<lparr>world = 0, events = []\<rparr>
     (snd (syncToClusters cacheFailureEnv (exampleResource exampleObject) \<lparr>world = 0, events = []\<rparr>)) =
   [EvComputePlacement [\<lparr>ClusterName = ''a'', IsClusterReady = True\<rparr>],
    EvWait ManagedDispatcher
      [RecordClusterError CachedRetrievalFailed ''a''
         (Wrap (External ''cache'') ''Failed to retrieve cached cluster object'')],
    EvUpdateVersions {''a''} [],
    EvSetPropagationStatus exampleObject AggregateSuccess (Some []),
    EvUpdateStatus exampleObject]
   \<and> (\<forall>hostNamespace ready selected cached.
         decisionTable hostNamespace ready selected cached ''a'' \<noteq>
           [RecordClusterError CachedRetrievalFailed ''a''
              (Wrap (External ''cache'') ''Failed to retrieve cached cluster object'')])
   \<and> decisionTable (IsNamespaceInHostCluster cacheFailureEnv (exampleResource exampleObject))
        True (''a'' \<in> {''a''}) None ''a'' = [Create ''a'']
   \<and> decisionTable (IsNamespaceInHostCluster cacheFailureEnv (exampleResource exampleObject))
        True (''a'' \<in> {''a''}) (Some (exampleCopy None)) ''a'' = [Update ''a'' (exampleCopy None)]"
proof -
  have 1: "emitted \<lparr>world = 0, events = []\<rparr>
     (snd (syncToClusters cacheFailureEnv (exampleResource exampleObject) \<lparr>world = 0, events = []\<rparr>)) =
   [EvComputePlacement [\<lparr>ClusterName = ''a'', IsClusterReady = True\<rparr>],
    EvWait ManagedDispatcher
      [RecordClusterError CachedRetrievalFailed ''a''
         (Wrap (External ''cache'') ''Failed to retrieve cached cluster object'')],
    EvUpdateVersions {''a''} [],
    EvSetPropagationStatus exampleObject AggregateSuccess (Some []),
    EvUpdateStatus exampleObject]"
    by (simp add: cacheFailureEnv_def exampleEnv_def exampleResource_def exampleObject_def
        QualifiedName_String_def syncToClusters_def syncToCluster_def Wait_def setPropagationStatus_def
        PollImmediate_def statusCycle_def emitted_def emit_def Let_def eval_nat_numeral)
  have 2: "decisionTable hostNamespace ready selected cached ''a'' \<noteq>
           [RecordClusterError CachedRetrievalFailed ''a''
              (Wrap (External ''cache'') ''Failed to retrieve cached cluster object'')]"
    for hostNamespace ready selected cached
    by (cases ready; cases selected; cases cached) simp_all
  have 3: "decisionTable (IsNamespaceInHostCluster cacheFailureEnv (exampleResource exampleObject))
        True (''a'' \<in> {''a''}) None ''a'' = [Create ''a'']"
    "decisionTable (IsNamespaceInHostCluster cacheFailureEnv (exampleResource exampleObject))
        True (''a'' \<in> {''a''}) (Some (exampleCopy None)) ''a'' = [Update ''a'' (exampleCopy None)]"
    by simp_all
  show ?thesis using 1 2 3 by blast
qed

text \<open>
  C2, as amended: when the cluster list and the placement are available, syncToClusters
  computes the placement and then joins a managed dispatcher in which, cluster by cluster
  and in the order of the list, one decision is recorded. For a cluster whose cache
  lookup succeeds, and for any cluster that is not ready (its cache is not looked up),
  the decision is the action of the table: ClusterNotReady for a selected cluster that
  is not ready, nothing for an unselected one that is not ready or holds no cached copy,
  WaitingForRemoval for an unselected terminating copy, RemoveManagedLabel for an
  unselected host-cluster namespace, Delete for any other unselected copy, Create for a
  selected cluster with no copy and Update for one with a copy. For a ready cluster
  whose cache lookup fails the decision is CachedRetrievalFailed and no operation. When
  no lookup of a ready cluster fails, the dispatcher holds exactly the table's actions.
\<close>

theorem syncToClusters_decision_table:
  assumes g: "GetClusters env (world s) = Inr clusters"
    and p: "ComputePlacement env fedResource clusters (world s) = Inr selected"
    and key: "key = QualifiedName_String (TargetName fedResource)"
  shows "(\<exists>es. emitted s (snd (syncToClusters env fedResource s)) =
           EvComputePlacement clusters #
           EvWait ManagedDispatcher
             (concat (map (syncDecision env fedResource key selected (world s)) clusters)) # es)
     \<and> (\<forall>c cached. GetByKey env (ClusterName c) key (world s) = Inr cached \<longrightarrow>
           syncDecision env fedResource key selected (world s) c =
             decisionTable (IsNamespaceInHostCluster env fedResource) (IsClusterReady c)
               (ClusterName c \<in> selected) cached (ClusterName c))
     \<and> (\<forall>c cached. \<not> IsClusterReady c \<longrightarrow>
           syncDecision env fedResource key selected (world s) c =
             decisionTable (IsNamespaceInHostCluster env fedResource) False
               (ClusterName c \<in> selected) cached (ClusterName c))
     \<and> (\<forall>c err. IsClusterReady c \<and> GetByKey env (ClusterName c) key (world s) = Inl err \<longrightarrow>
           syncDecision env fedResource key selected (world s) c =
             [RecordClusterError CachedRetrievalFailed (ClusterName c)
                (Wrap err ''Failed to retrieve cached cluster object'')])
     \<and> (retrievalFailures env key (world s) clusters = [] \<longrightarrow>
          (\<exists>es. emitted s (snd (syncToClusters env fedResource s)) =
             EvComputePlacement clusters #
             EvWait ManagedDispatcher
               (concat (map (\<lambda>c. decisionTable (IsNamespaceInHostCluster env fedResource) (IsClusterReady c)
                                  (ClusterName c \<in> selected)
                                  (case GetByKey env (ClusterName c) key (world s) of
                                     Inr cached \<Rightarrow> cached
                                   | Inl err \<Rightarrow> None)
                                  (ClusterName c)) clusters)) # es))"
proof -
  let ?d = "concat (map (syncDecision env fedResource key selected (world s)) clusters)"
  let ?table = "\<lambda>c. decisionTable (IsNamespaceInHostCluster env fedResource) (IsClusterReady c)
                                  (ClusterName c \<in> selected)
                                  (case GetByKey env (ClusterName c) key (world s) of
                                     Inr cached \<Rightarrow> cached
                                   | Inl err \<Rightarrow> None)
                                  (ClusterName c)"
  have "\<exists>t sm. syncToClusters env fedResource s = setPropagationStatus env fedResource AggregateSuccess sm t
        \<and> (\<exists>es. events t = events s @ EvComputePlacement clusters # EvWait ManagedDispatcher ?d # es)"
    using g p unfolding key
    by (auto simp add: syncToClusters_def Let_def fold_syncToCluster split: prod.splits option.splits)
  then obtain t sm es where t: "syncToClusters env fedResource s = setPropagationStatus env fedResource AggregateSuccess sm t"
    "events t = events s @ EvComputePlacement clusters # EvWait ManagedDispatcher ?d # es"
    by blast
  obtain es' where "events (snd (setPropagationStatus env fedResource AggregateSuccess sm t)) = events t @ es'"
    using setPropagationStatus_events by blast
  then have 1: "\<exists>es. emitted s (snd (syncToClusters env fedResource s)) =
           EvComputePlacement clusters # EvWait ManagedDispatcher ?d # es"
    using t by (simp add: emitted_def)
  have 2: "syncDecision env fedResource key selected (world s) c =
             decisionTable (IsNamespaceInHostCluster env fedResource) (IsClusterReady c)
               (ClusterName c \<in> selected) cached (ClusterName c)"
    if "GetByKey env (ClusterName c) key (world s) = Inr cached" for c cached
    using that by (simp add: syncDecision_def)
  have 3: "syncDecision env fedResource key selected (world s) c =
             decisionTable (IsNamespaceInHostCluster env fedResource) False
               (ClusterName c \<in> selected) cached (ClusterName c)"
    if "\<not> IsClusterReady c" for c cached
    using that by (cases "ClusterName c \<in> selected") (simp_all add: syncDecision_def split: sum.splits)
  have 4: "syncDecision env fedResource key selected (world s) c =
             [RecordClusterError CachedRetrievalFailed (ClusterName c)
                (Wrap err ''Failed to retrieve cached cluster object'')]"
    if "IsClusterReady c \<and> GetByKey env (ClusterName c) key (world s) = Inl err" for c err
    using that by (simp add: syncDecision_def)
  have 5: "\<exists>es. emitted s (snd (syncToClusters env fedResource s)) =
             EvComputePlacement clusters # EvWait ManagedDispatcher (concat (map ?table clusters)) # es"
    if rf: "retrievalFailures env key (world s) clusters = []"
  proof -
    have "syncDecision env fedResource key selected (world s) c = ?table c" if "c \<in> set clusters" for c
    proof (cases "GetByKey env (ClusterName c) key (world s)")
      case (Inr cached)
      then show ?thesis by (simp add: 2)
    next
      case (Inl err)
      have "\<not> IsClusterReady c"
      proof
        assume "IsClusterReady c"
        then have "(ClusterName c, err) \<in> set (retrievalFailures env key (world s) clusters)"
          using that Inl by (force simp: retrievalFailures_def)
        then show False using rf by simp
      qed
      then show ?thesis using Inl 3 [of c None] by simp
    qed
    then have eq: "map (syncDecision env fedResource key selected (world s)) clusters = map ?table clusters"
      by (intro map_cong refl)
    show ?thesis using 1 unfolding eq .
  qed
  show ?thesis
    apply (intro conjI allI impI)
    subgoal by (rule 1)
    subgoal using 2 by blast
    subgoal using 3 by blast
    subgoal using 4 by blast
    subgoal using 5 by blast
    done
qed

theorem syncToClusters_decision_table_witness:
  "emitted \<lparr>world = 0, events = []\<rparr>
     (snd (syncToClusters
        (exampleEnv [\<lparr>ClusterName = ''a'', IsClusterReady = True\<rparr>,
                     \<lparr>ClusterName = ''b'', IsClusterReady = True\<rparr>,
                     \<lparr>ClusterName = ''c'', IsClusterReady = False\<rparr>]
           (\<lambda>c. if c = ''b'' then Inr (Some (exampleCopy None)) else Inr None) {''a'', ''c''})
        (exampleResource exampleObject) \<lparr>world = 0, events = []\<rparr>)) =
   [EvComputePlacement [\<lparr>ClusterName = ''a'', IsClusterReady = True\<rparr>,
                        \<lparr>ClusterName = ''b'', IsClusterReady = True\<rparr>,
                        \<lparr>ClusterName = ''c'', IsClusterReady = False\<rparr>],
    EvWait ManagedDispatcher
      [Create ''a'', Delete ''b'', RecordClusterError ClusterNotReady ''c'' (Errorf ''Cluster not ready'' [])],
    EvUpdateVersions {''a'', ''c''} [],
    EvSetPropagationStatus exampleObject AggregateSuccess (Some []),
    EvUpdateStatus exampleObject]
   \<and> (\<exists>es. emitted \<lparr>world = 0, events = []\<rparr>
        (snd (syncToClusters cacheFailureEnv (exampleResource exampleObject) \<lparr>world = 0, events = []\<rparr>)) =
      EvComputePlacement [\<lparr>ClusterName = ''a'', IsClusterReady = True\<rparr>] #
      EvWait ManagedDispatcher
        [RecordClusterError CachedRetrievalFailed ''a''
           (Wrap (External ''cache'') ''Failed to retrieve cached cluster object'')] # es)"
proof -
  let ?cs = "[\<lparr>ClusterName = ''a'', IsClusterReady = True\<rparr>,
              \<lparr>ClusterName = ''b'', IsClusterReady = True\<rparr>,
              \<lparr>ClusterName = ''c'', IsClusterReady = False\<rparr>]"
  let ?env = "exampleEnv ?cs (\<lambda>c. if c = ''b'' then Inr (Some (exampleCopy None)) else Inr None) {''a'', ''c''}"
  let ?fr = "exampleResource exampleObject"
  let ?s = "\<lparr>world = 0::nat, events = []\<rparr>"
  have g: "GetClusters ?env (world ?s) = Inr ?cs" by (simp add: exampleEnv_def)
  have p: "ComputePlacement ?env ?fr ?cs (world ?s) = Inr {''a'', ''c''}" by (simp add: exampleEnv_def)
  have key: "''ns/web'' = QualifiedName_String (TargetName ?fr)"
    by (simp add: exampleResource_def QualifiedName_String_def)
  have rf: "retrievalFailures ?env ''ns/web'' (world ?s) ?cs = []"
    by (simp add: retrievalFailures_def exampleEnv_def)
  have tb: "concat (map (\<lambda>c. decisionTable (IsNamespaceInHostCluster ?env ?fr) (IsClusterReady c)
                                  (ClusterName c \<in> {''a'', ''c''})
                                  (case GetByKey ?env (ClusterName c) ''ns/web'' (world ?s) of
                                     Inr cached \<Rightarrow> cached
                                   | Inl err \<Rightarrow> None)
                                  (ClusterName c)) ?cs) =
      [Create ''a'', Delete ''b'', RecordClusterError ClusterNotReady ''c'' (Errorf ''Cluster not ready'' [])]"
    by (simp add: exampleEnv_def exampleCopy_def)
  have 1: "\<exists>es. emitted ?s (snd (syncToClusters ?env ?fr ?s)) =
      EvComputePlacement ?cs #
      EvWait ManagedDispatcher
        [Create ''a'', Delete ''b'', RecordClusterError ClusterNotReady ''c'' (Errorf ''Cluster not ready'' [])] # es"
    using syncToClusters_decision_table [OF g p key, THEN conjunct2, THEN conjunct2, THEN conjunct2,
        THEN conjunct2, rule_format, OF rf]
    unfolding tb .
  have 2: "emitted ?s (snd (syncToClusters ?env ?fr ?s)) =
   [EvComputePlacement ?cs,
    EvWait ManagedDispatcher
      [Create ''a'', Delete ''b'', RecordClusterError ClusterNotReady ''c'' (Errorf ''Cluster not ready'' [])],
    EvUpdateVersions {''a'', ''c''} [],
    EvSetPropagationStatus exampleObject AggregateSuccess (Some []),
    EvUpdateStatus exampleObject]"
    by (simp add: exampleEnv_def exampleResource_def exampleCopy_def exampleObject_def
      QualifiedName_String_def syncToClusters_def syncToCluster_def Wait_def setPropagationStatus_def
      PollImmediate_def statusCycle_def emitted_def emit_def Let_def eval_nat_numeral)
  let ?a = "[\<lparr>ClusterName = ''a'', IsClusterReady = True\<rparr>]"
  have g': "GetClusters cacheFailureEnv (world ?s) = Inr ?a" by (simp add: cacheFailureEnv_def exampleEnv_def)
  have p': "ComputePlacement cacheFailureEnv ?fr ?a (world ?s) = Inr {''a''}"
    by (simp add: cacheFailureEnv_def exampleEnv_def)
  have sd: "concat (map (syncDecision cacheFailureEnv ?fr ''ns/web'' {''a''} (world ?s)) ?a) =
      [RecordClusterError CachedRetrievalFailed ''a''
           (Wrap (External ''cache'') ''Failed to retrieve cached cluster object'')]"
    using syncToClusters_decision_table [OF g' p' key, THEN conjunct2, THEN conjunct2, THEN conjunct2,
        THEN conjunct1, rule_format, of "\<lparr>ClusterName = ''a'', IsClusterReady = True\<rparr>" "External ''cache''"]
    by (simp add: cacheFailureEnv_def exampleEnv_def)
  have 3: "\<exists>es. emitted ?s (snd (syncToClusters cacheFailureEnv ?fr ?s)) =
      EvComputePlacement ?a #
      EvWait ManagedDispatcher
        [RecordClusterError CachedRetrievalFailed ''a''
           (Wrap (External ''cache'') ''Failed to retrieve cached cluster object'')] # es"
    using syncToClusters_decision_table [OF g' p' key, THEN conjunct1]
    unfolding sd .
  show ?thesis using 1 2 3 by blast
qed

subsection \<open>Closed forms of the other dispatch sites\<close>

lemma operations_simps [simp]:
  "operations [] = []" "operations (e # es) = dispatched e @ operations es"
  "operations (es @ es') = operations es @ operations es'"
  by (simp_all add: operations_def)

lemma statusCycle_quiet:
  "statusCycle env reason sm (obj, s) = (r, obj', s') \<Longrightarrow>
     operations (events s') = operations (events s) \<and> filter is_Update (events s') = filter is_Update (events s)"
  by (auto simp: statusCycle_def Let_def split: sum.splits prod.splits if_splits)

lemma poll_quiet:
  "poll n (statusCycle env reason sm) (obj, s) = (r, obj', s') \<Longrightarrow>
     operations (events s') = operations (events s) \<and> filter is_Update (events s') = filter is_Update (events s)"
proof (induction n arbitrary: obj s)
  case 0
  then show ?case by simp
next
  case (Suc n)
  obtain res obj1 s1 where c: "statusCycle env reason sm (obj, s) = (res, obj1, s1)"
    by (metis prod_cases3)
  note q = statusCycle_quiet [OF c]
  show ?case
  proof (cases "res = (False, None)")
    case True
    then have "poll n (statusCycle env reason sm) (obj1, s1) = (r, obj', s')"
      using Suc.prems c by simp
    from Suc.IH [OF this] q show ?thesis by simp
  next
    case False
    then have "s' = s1" using Suc.prems c by (cases res) (auto split: option.splits if_splits)
    then show ?thesis using q by simp
  qed
qed

lemma setPropagationStatus_quiet:
  "operations (events (snd (setPropagationStatus env fr reason sm s))) = operations (events s)
   \<and> filter is_Update (events (snd (setPropagationStatus env fr reason sm s))) = filter is_Update (events s)"
proof -
  obtain r obj' s' where p: "poll (Suc (PollTicks env 1 5)) (statusCycle env reason sm) (Object fr, s) = (r, obj', s')"
    by (metis prod_cases3)
  from poll_quiet [OF p] p show ?thesis
    by (auto simp: setPropagationStatus_def PollImmediate_def simp del: poll.simps split: option.splits)
qed

lemma fold_checkCluster:
  "fold checkCluster clusters (d, u) =
     (d @ map (\<lambda>c. CheckRemovedOrUnlabeled (ClusterName c)) (filter IsClusterReady clusters),
      u @ unreadyNames clusters)"
  by (induction clusters arbitrary: d u) (auto simp: checkCluster_def unreadyNames_def)

lemma ensureRemovedOrUnmanaged_closed:
  assumes "GetClusters env (world s) = Inr clusters"
  shows "ensureRemovedOrUnmanaged env fr s =
    (let d = map (\<lambda>c. CheckRemovedOrUnlabeled (ClusterName c)) (filter IsClusterReady clusters);
         s1 = \<lparr>world = WaitWorld env CheckUnmanagedDispatcher d (world s),
               events = events s @ [EvWait CheckUnmanagedDispatcher d]\<rparr>
     in ((case WaitTimeout env CheckUnmanagedDispatcher d (world s) of
            Some e \<Rightarrow> Some e
          | None \<Rightarrow>
              if unreadyNames clusters \<noteq> [] then
                Some (Errorf ''the following clusters were not ready'' (unreadyNames clusters))
              else if \<not> list_all (\<lambda>c. OperationOutcome env CheckUnmanagedDispatcher c (world s)) d
              then Some (Errorf ''one or more checks failed'' [])
              else None),
         s1))"
proof -
  have f: "filter is_operation (map (\<lambda>c. CheckRemovedOrUnlabeled (ClusterName c)) cs) =
      map (\<lambda>c. CheckRemovedOrUnlabeled (ClusterName c)) cs" for cs :: "KubefedCluster list"
    by (induction cs) auto
  show ?thesis
    using assms
    by (simp add: ensureRemovedOrUnmanaged_def fold_checkCluster Let_def Wait_def emit_def f
        split: option.splits)
qed

lemma removeManagedLabel_closed:
  assumes "GetClusters env (world s) = Inr clusters"
  shows "removeManagedLabel env kind qn s =
    (let key = QualifiedName_String qn; w = world s;
         d = labelRemovals (cachedCopies env key w clusters);
         failures = retrievalFailures env key w clusters;
         s1 = \<lparr>world = WaitWorld env UnmanagedDispatcher d w,
               events = events s @ map (\<lambda>(n, e). EvHandleError (Wrap e ''failed to retrieve'')) failures @
                        [EvWait UnmanagedDispatcher d]\<rparr>
     in ((case WaitTimeout env UnmanagedDispatcher d w of
            Some e \<Rightarrow> Some e
          | None \<Rightarrow>
              if failures \<noteq> [] then
                Some (Errorf ''failed to retrieve a managed resource for the following cluster(s)''
                        (map fst failures))
              else if unreadyNames clusters \<noteq> [] then
                Some (Errorf ''the following clusters were not ready'' (unreadyNames clusters))
              else if \<not> list_all (\<lambda>c. OperationOutcome env UnmanagedDispatcher c w) (filter is_operation d)
              then Some (Errorf ''failed to remove the label from resources in one or more clusters.'' [])
              else None),
         s1))"
  using assms
  by (simp add: removeManagedLabel_def handleDeletionInClusters_closed fold_removeManagedLabel_deletionFunc
      Let_def split: option.splits)

subsection \<open>Clusters that are not ready\<close>

lemma cachedCopies_ready:
  "(n, obj) \<in> set (cachedCopies env key w clusters) \<Longrightarrow>
     \<exists>c\<in>set clusters. IsClusterReady c \<and> ClusterName c = n \<and> GetByKey env n key w = Inr (Some obj)"
  by (auto simp: cachedCopies_def split: if_splits sum.splits option.splits)

lemma syncDecision_ready:
  "call \<in> set (syncDecision env fr key selected w c) \<Longrightarrow> is_operation call \<Longrightarrow>
     IsClusterReady c \<and> ClusterName c = call_cluster call"
proof (cases "GetByKey env (ClusterName c) key w")
  case (Inl err)
  assume "call \<in> set (syncDecision env fr key selected w c)" "is_operation call"
  then show ?thesis using Inl
    by (cases "IsClusterReady c"; cases "ClusterName c \<in> selected") (auto simp: syncDecision_def)
next
  case (Inr cached)
  assume "call \<in> set (syncDecision env fr key selected w c)" "is_operation call"
  then show ?thesis using Inr
    by (cases "IsClusterReady c"; cases "ClusterName c \<in> selected"; cases cached)
      (auto simp: syncDecision_def split: if_splits)
qed

lemma labelRemovals_copies:
  "call \<in> set (labelRemovals copies) \<Longrightarrow> \<exists>obj. (call_cluster call, obj) \<in> set copies"
  by (auto simp: labelRemovals_def split: if_splits)

lemma cascade_operation_copies:
  "call \<in> set (concat (map (\<lambda>(n, obj). cascade_operation env fr n obj) copies)) \<Longrightarrow>
     \<exists>obj. (call_cluster call, obj) \<in> set copies"
  by (auto simp: cascade_operation_def split: if_splits)

lemma syncToClusters_operations:
  assumes "GetClusters env (world s) = Inr clusters"
  shows "operations (emitted s (snd (syncToClusters env fr s))) =
     (case ComputePlacement env fr clusters (world s) of
        Inl e \<Rightarrow> []
      | Inr selected \<Rightarrow>
          filter is_operation
            (concat (map (syncDecision env fr (QualifiedName_String (TargetName fr)) selected (world s)) clusters)))"
proof -
  have em: "emitted s (snd (syncToClusters env fr s)) = events (snd (syncToClusters env fr (s\<lparr>events := []\<rparr>)))"
    by (rule emitted_via_prepend) (rule syncToClusters_prepend)
  show ?thesis
    unfolding em using assms
    by (simp add: syncToClusters_def Let_def fold_syncToCluster setPropagationStatus_quiet
        split: sum.splits prod.splits option.splits)
qed

lemma emitted_append [simp]: "events s' = events s @ es \<Longrightarrow> emitted s s' = es"
  by (simp add: emitted_def)

lemma operations_HandleError [simp]:
  "operations (map (\<lambda>(n, e). EvHandleError (f n e)) xs) = []"
  by (induction xs) auto

lemma is_Update_HandleError [simp]:
  "filter is_Update (map (\<lambda>(n, e). EvHandleError (f n e)) xs) = []"
  by (induction xs) auto

lemma ready_names_only:
  assumes "\<forall>call\<in>set ops. \<exists>c\<in>set clusters. IsClusterReady c \<and> ClusterName c = call_cluster call"
    and "distinct (map ClusterName clusters)" and "c \<in> set clusters" and "\<not> IsClusterReady c"
    and "call \<in> set ops"
  shows "call_cluster call \<noteq> ClusterName c"
proof
  assume e: "call_cluster call = ClusterName c"
  obtain c' where c': "c' \<in> set clusters" "IsClusterReady c'" "ClusterName c' = call_cluster call"
    using assms(1,5) by blast
  have "inj_on ClusterName (set clusters)"
    using assms(2) by (simp add: distinct_map)
  then have "c' = c" using c' e assms(3) by (auto dest: inj_onD)
  then show False using c' assms(4) by simp
qed

text \<open>
  C7: in every dispatch round, each operation handed to a dispatcher (Create, Update,
  Delete, RemoveManagedLabel, and the check of the deletion protocol) is recorded
  against the name of a cluster of the retrieved list that is ready; this holds for
  propagation (syncToClusters), for label removal (removeManagedLabel), for the
  cascading deletion (handleDeletionInClusters with the handler of deleteFromClusters)
  and for the final check (ensureRemovedOrUnmanaged), whatever placement selected; so
  when the names of the list are distinct, no operation names a cluster that is not
  ready. A cluster that is not ready is never evidence of removal: if the list has one,
  the check and the label removal fail, deleteFromClusters returns an error and the
  resource is not written.
\<close>

theorem unready_cluster_untouched:
  assumes "GetClusters env (world s) = Inr clusters"
  shows "(\<forall>call\<in>set (operations (emitted s (snd (syncToClusters env fedResource s)))).
            \<exists>c\<in>set clusters. IsClusterReady c \<and> ClusterName c = call_cluster call)
       \<and> (\<forall>call\<in>set (operations (emitted s (snd (removeManagedLabel env kind qualifiedName s)))).
            \<exists>c\<in>set clusters. IsClusterReady c \<and> ClusterName c = call_cluster call)
       \<and> (\<forall>call\<in>set (operations (emitted s (snd (snd (handleDeletionInClusters env kind qualifiedName
                                      (deleteFromClusters_deletionFunc env fedResource) [] s))))).
            \<exists>c\<in>set clusters. IsClusterReady c \<and> ClusterName c = call_cluster call)
       \<and> (\<forall>call\<in>set (operations (emitted s (snd (ensureRemovedOrUnmanaged env fedResource s)))).
            \<exists>c\<in>set clusters. IsClusterReady c \<and> ClusterName c = call_cluster call)
       \<and> ((\<exists>c\<in>set clusters. \<not> IsClusterReady c) \<longrightarrow>
            fst (ensureRemovedOrUnmanaged env fedResource s) \<noteq> None \<and>
            fst (removeManagedLabel env kind qualifiedName s) \<noteq> None \<and>
            snd (fst (deleteFromClusters env fedResource s)) \<noteq> None \<and>
            filter is_Update (emitted s (snd (deleteFromClusters env fedResource s))) = [])
       \<and> (distinct (map ClusterName clusters) \<longrightarrow>
            (\<forall>c\<in>set clusters. \<not> IsClusterReady c \<longrightarrow>
               (\<forall>call\<in>set (operations (emitted s (snd (syncToClusters env fedResource s))) @
                            operations (emitted s (snd (removeManagedLabel env kind qualifiedName s))) @
                            operations (emitted s (snd (snd (handleDeletionInClusters env kind qualifiedName
                                      (deleteFromClusters_deletionFunc env fedResource) [] s)))) @
                            operations (emitted s (snd (ensureRemovedOrUnmanaged env fedResource s)))).
                  call_cluster call \<noteq> ClusterName c)))"
proof -
  have 1: "\<forall>call\<in>set (operations (emitted s (snd (syncToClusters env fedResource s)))).
            \<exists>c\<in>set clusters. IsClusterReady c \<and> ClusterName c = call_cluster call"
    using syncDecision_ready
    by (fastforce simp add: syncToClusters_operations [OF assms] split: sum.splits)
  have 2: "\<forall>call\<in>set (operations (emitted s (snd (removeManagedLabel env kind qualifiedName s)))).
            \<exists>c\<in>set clusters. IsClusterReady c \<and> ClusterName c = call_cluster call"
  proof
    fix call
    assume "call \<in> set (operations (emitted s (snd (removeManagedLabel env kind qualifiedName s))))"
    then have "call \<in> set (labelRemovals (cachedCopies env (QualifiedName_String qualifiedName) (world s) clusters))"
      by (simp add: removeManagedLabel_closed [OF assms] Let_def)
    then obtain obj where "(call_cluster call, obj) \<in> set (cachedCopies env (QualifiedName_String qualifiedName) (world s) clusters)"
      using labelRemovals_copies by blast
    then show "\<exists>c\<in>set clusters. IsClusterReady c \<and> ClusterName c = call_cluster call"
      by (auto dest!: cachedCopies_ready)
  qed
  have 3: "\<forall>call\<in>set (operations (emitted s (snd (snd (handleDeletionInClusters env kind qualifiedName
                                      (deleteFromClusters_deletionFunc env fedResource) [] s))))).
            \<exists>c\<in>set clusters. IsClusterReady c \<and> ClusterName c = call_cluster call"
  proof
    fix call
    assume "call \<in> set (operations (emitted s (snd (snd (handleDeletionInClusters env kind qualifiedName
                                      (deleteFromClusters_deletionFunc env fedResource) [] s)))))"
    then have "call \<in> set (concat (map (\<lambda>(n, obj). cascade_operation env fedResource n obj)
                  (cachedCopies env (QualifiedName_String qualifiedName) (world s) clusters)))"
      by (simp add: handleDeletionInClusters_closed [OF assms] fold_deleteFromClusters_deletionFunc Let_def)
    then obtain obj where "(call_cluster call, obj) \<in> set (cachedCopies env (QualifiedName_String qualifiedName) (world s) clusters)"
      using cascade_operation_copies by blast
    then show "\<exists>c\<in>set clusters. IsClusterReady c \<and> ClusterName c = call_cluster call"
      by (auto dest!: cachedCopies_ready)
  qed
  have 4: "\<forall>call\<in>set (operations (emitted s (snd (ensureRemovedOrUnmanaged env fedResource s)))).
            \<exists>c\<in>set clusters. IsClusterReady c \<and> ClusterName c = call_cluster call"
    by (auto simp add: ensureRemovedOrUnmanaged_closed [OF assms] Let_def)
  have 5: "fst (ensureRemovedOrUnmanaged env fedResource s) \<noteq> None \<and>
            fst (removeManagedLabel env kind qualifiedName s) \<noteq> None \<and>
            snd (fst (deleteFromClusters env fedResource s)) \<noteq> None \<and>
            filter is_Update (emitted s (snd (deleteFromClusters env fedResource s))) = []"
    if "\<exists>c\<in>set clusters. \<not> IsClusterReady c"
  proof -
    have u: "unreadyNames clusters \<noteq> []"
      using that by (auto simp: unreadyNames_def filter_empty_conv)
    have a: "fst (ensureRemovedOrUnmanaged env fedResource s) \<noteq> None"
      using u by (simp add: ensureRemovedOrUnmanaged_closed [OF assms] Let_def split: option.splits)
    have b: "fst (removeManagedLabel env kind qualifiedName s) \<noteq> None"
      using u by (simp add: removeManagedLabel_closed [OF assms] Let_def split: option.splits)
    have c: "snd (fst (deleteFromClusters env fedResource s)) \<noteq> None \<and>
            filter is_Update (emitted s (snd (deleteFromClusters env fedResource s))) = []"
      using u
      by (simp add: deleteFromClusters_def handleDeletionInClusters_closed [OF assms] Let_def
          fold_deleteFromClusters_deletionFunc split: option.splits)
    show ?thesis using a b c by simp
  qed
  have 6: "call_cluster call \<noteq> ClusterName c"
    if d: "distinct (map ClusterName clusters)" and c: "c \<in> set clusters" "\<not> IsClusterReady c"
      and call: "call \<in> set (operations (emitted s (snd (syncToClusters env fedResource s))) @
                            operations (emitted s (snd (removeManagedLabel env kind qualifiedName s))) @
                            operations (emitted s (snd (snd (handleDeletionInClusters env kind qualifiedName
                                      (deleteFromClusters_deletionFunc env fedResource) [] s)))) @
                            operations (emitted s (snd (ensureRemovedOrUnmanaged env fedResource s))))"
    for c call
  proof -
    consider "call \<in> set (operations (emitted s (snd (syncToClusters env fedResource s))))"
      | "call \<in> set (operations (emitted s (snd (removeManagedLabel env kind qualifiedName s))))"
      | "call \<in> set (operations (emitted s (snd (snd (handleDeletionInClusters env kind qualifiedName
                                      (deleteFromClusters_deletionFunc env fedResource) [] s)))))"
      | "call \<in> set (operations (emitted s (snd (ensureRemovedOrUnmanaged env fedResource s))))"
      using call by auto
    then show ?thesis
    proof cases
      case 1
      show ?thesis by (rule ready_names_only [OF \<open>\<forall>call\<in>set (operations (emitted s (snd (syncToClusters env fedResource s)))).
            \<exists>c\<in>set clusters. IsClusterReady c \<and> ClusterName c = call_cluster call\<close> d c 1])
    next
      case 2
      show ?thesis by (rule ready_names_only [OF \<open>\<forall>call\<in>set (operations (emitted s (snd (removeManagedLabel env kind qualifiedName s)))).
            \<exists>c\<in>set clusters. IsClusterReady c \<and> ClusterName c = call_cluster call\<close> d c 2])
    next
      case 3
      show ?thesis by (rule ready_names_only [OF \<open>\<forall>call\<in>set (operations (emitted s (snd (snd (handleDeletionInClusters env kind qualifiedName
                                      (deleteFromClusters_deletionFunc env fedResource) [] s))))).
            \<exists>c\<in>set clusters. IsClusterReady c \<and> ClusterName c = call_cluster call\<close> d c 3])
    next
      case 4
      show ?thesis by (rule ready_names_only [OF \<open>\<forall>call\<in>set (operations (emitted s (snd (ensureRemovedOrUnmanaged env fedResource s)))).
            \<exists>c\<in>set clusters. IsClusterReady c \<and> ClusterName c = call_cluster call\<close> d c 4])
    qed
  qed
  show ?thesis using 1 2 3 4 5 6 by blast
qed

theorem unready_cluster_untouched_witness:
  "operations (emitted \<lparr>world = 0, events = []\<rparr>
      (snd (syncToClusters unreadyEnv (exampleResource exampleObject) \<lparr>world = 0, events = []\<rparr>))) =
     [Update ''a'' (exampleCopy None)]
   \<and> operations (emitted \<lparr>world = 0, events = []\<rparr>
      (snd (removeManagedLabel unreadyEnv ''Deployment'' \<lparr>Namespace = ''ns'', Name = ''web''\<rparr>
              \<lparr>world = 0, events = []\<rparr>))) =
     [RemoveManagedLabel ''a'' (exampleCopy None)]
   \<and> operations (emitted \<lparr>world = 0, events = []\<rparr>
      (snd (ensureRemovedOrUnmanaged unreadyEnv (exampleResource exampleObject) \<lparr>world = 0, events = []\<rparr>))) =
     [CheckRemovedOrUnlabeled ''a'']
   \<and> fst (ensureRemovedOrUnmanaged unreadyEnv (exampleResource exampleObject) \<lparr>world = 0, events = []\<rparr>) =
     Some (Errorf ''the following clusters were not ready'' [''c''])
   \<and> snd (fst (deleteFromClusters unreadyEnv (exampleResource exampleObject) \<lparr>world = 0, events = []\<rparr>)) \<noteq> None"
proof -
  let ?fr = "exampleResource exampleObject"
  let ?s = "\<lparr>world = 0::nat, events = []\<rparr>"
  let ?cs = "[\<lparr>ClusterName = ''a'', IsClusterReady = True\<rparr>, \<lparr>ClusterName = ''c'', IsClusterReady = False\<rparr>]"
  have g: "GetClusters unreadyEnv (world ?s) = Inr ?cs"
    by (simp add: unreadyEnv_def exampleEnv_def)
  have u: "\<exists>c\<in>set ?cs. \<not> IsClusterReady c" by simp
  have 1: "operations (emitted ?s (snd (syncToClusters unreadyEnv ?fr ?s))) = [Update ''a'' (exampleCopy None)]"
    by (simp add: unreadyEnv_def exampleEnv_def exampleResource_def exampleCopy_def exampleObject_def
        QualifiedName_String_def syncToClusters_def syncToCluster_def Wait_def setPropagationStatus_def
        PollImmediate_def statusCycle_def emitted_def emit_def Let_def eval_nat_numeral operations_def)
  have 2: "operations (emitted ?s (snd (removeManagedLabel unreadyEnv ''Deployment''
              \<lparr>Namespace = ''ns'', Name = ''web''\<rparr> ?s))) = [RemoveManagedLabel ''a'' (exampleCopy None)]"
    by (simp add: unreadyEnv_def exampleEnv_def exampleCopy_def QualifiedName_String_def Wait_def
        emitted_def emit_def Let_def removeManagedLabel_def handleDeletionInClusters_def
        handleDeletionInCluster_def removeManagedLabel_deletionFunc_def operations_def)
  have 3: "ensureRemovedOrUnmanaged unreadyEnv ?fr ?s =
      (Some (Errorf ''the following clusters were not ready'' [''c'']),
       \<lparr>world = 0, events = [EvWait CheckUnmanagedDispatcher [CheckRemovedOrUnlabeled ''a'']]\<rparr>)"
    by (simp add: unreadyEnv_def exampleEnv_def Wait_def emit_def Let_def ensureRemovedOrUnmanaged_def
        checkCluster_def)
  have 4: "snd (fst (deleteFromClusters unreadyEnv ?fr ?s)) \<noteq> None"
    using unready_cluster_untouched [OF g, of ?fr "''Deployment''" "\<lparr>Namespace = ''ns'', Name = ''web''\<rparr>",
        THEN conjunct2, THEN conjunct2, THEN conjunct2, THEN conjunct2] u
    by blast
  show ?thesis using 1 2 3 4 by (simp add: emitted_def)
qed

subsection \<open>The structure of deleteFromClusters\<close>

lemma unreadyNames_empty: "unreadyNames clusters = [] \<longleftrightarrow> (\<forall>c\<in>set clusters. IsClusterReady c)"
  by (auto simp: unreadyNames_def filter_empty_conv)

lemma filter_ready_all: "\<forall>c\<in>set clusters. IsClusterReady c \<Longrightarrow> filter IsClusterReady clusters = clusters"
  by (induction clusters) auto

lemma handleDeletionInClusters_events:
  assumes "handleDeletionInClusters env kind qn f captured s = (r, c, s1)"
  shows "\<exists>es. events s1 = events s @ es \<and> filter is_Update es = []"
proof (cases "GetClusters env (world s)")
  case (Inl e)
  then show ?thesis using assms by (auto simp: handleDeletionInClusters_def)
next
  case (Inr clusters)
  show ?thesis
    using assms by (auto simp: handleDeletionInClusters_closed [OF Inr] Let_def)
qed

lemma handleDeletionInClusters_ok:
  assumes "handleDeletionInClusters env kind qn f captured s = ((ok, None), c, s1)"
  shows "\<exists>clusters. GetClusters env (world s) = Inr clusters \<and> (\<forall>c\<in>set clusters. IsClusterReady c)
     \<and> retrievalFailures env (QualifiedName_String qn) (world s) clusters = []"
proof (cases "GetClusters env (world s)")
  case (Inl e)
  then show ?thesis using assms by (auto simp: handleDeletionInClusters_def)
next
  case (Inr clusters)
  have "unreadyNames clusters = [] \<and> retrievalFailures env (QualifiedName_String qn) (world s) clusters = []"
    using assms
    by (auto simp: handleDeletionInClusters_closed [OF Inr] Let_def split: option.splits if_splits)
  then show ?thesis using Inr by (simp add: unreadyNames_empty)
qed

lemma ensureRemovedOrUnmanaged_None:
  assumes g: "GetClusters env (world s1) = Inr clusters2"
  shows "fst (ensureRemovedOrUnmanaged env fr s1) = None \<longleftrightarrow>
     (\<forall>c\<in>set clusters2. IsClusterReady c \<and>
          OperationOutcome env CheckUnmanagedDispatcher (CheckRemovedOrUnlabeled (ClusterName c)) (world s1)) \<and>
     WaitTimeout env CheckUnmanagedDispatcher (map (\<lambda>c. CheckRemovedOrUnlabeled (ClusterName c)) clusters2) (world s1) = None"
proof (cases "\<forall>c\<in>set clusters2. IsClusterReady c")
  case True
  then show ?thesis
    by (auto simp add: ensureRemovedOrUnmanaged_closed [OF g] Let_def filter_ready_all
        unreadyNames_empty list_all_iff split: option.splits)
next
  case False
  then have "unreadyNames clusters2 \<noteq> []" by (simp add: unreadyNames_empty)
  then show ?thesis using False
    by (auto simp add: ensureRemovedOrUnmanaged_closed [OF g] Let_def split: option.splits)
qed

lemma ensureRemovedOrUnmanaged_events:
  "ensureRemovedOrUnmanaged env fr s1 = (r, s2) \<Longrightarrow> \<exists>es. events s2 = events s1 @ es \<and> filter is_Update es = []"
  by (cases "GetClusters env (world s1)")
    (auto simp: ensureRemovedOrUnmanaged_closed Let_def, auto simp: ensureRemovedOrUnmanaged_def)

lemma removeFinalizer_events:
  "removeFinalizer env fr s2 = (r, fr', s3) \<Longrightarrow>
     events s3 = events s2 \<or>
     events s3 = events s2 @ [EvUpdate ((Object fr)\<lparr>Finalizers := Finalizers (Object fr) - {FinalizerSyncController}\<rparr>)]"
  by (auto simp: removeFinalizer_def RemoveFinalizers_def split: option.splits if_splits sum.splits prod.splits)

lemma removeFinalizer_present:
  assumes "MetaAccessor env (Object fr) = None" "FinalizerSyncController \<in> Finalizers (Object fr)"
  shows "removeFinalizer env fr s2 =
    (let obj = (Object fr)\<lparr>Finalizers := Finalizers (Object fr) - {FinalizerSyncController}\<rparr> in
     case HostUpdate env obj (world s2) of
       (Inl e, w) \<Rightarrow> (Some e, fr\<lparr>Object := obj\<rparr>, \<lparr>world = w, events = events s2 @ [EvUpdate obj]\<rparr>)
     | (Inr obj', w) \<Rightarrow> (None, fr\<lparr>Object := obj'\<rparr>, \<lparr>world = w, events = events s2 @ [EvUpdate obj]\<rparr>))"
  using assms
  by (simp add: removeFinalizer_def RemoveFinalizers_def Let_def emit_def split: sum.splits prod.splits)

lemma deleteFromClusters_cases:
  fixes env :: "'w env"
  obtains
    (dispatch_failed) r remaining s1 e where
      "handleDeletionInClusters env (TargetKind fr) (TargetName fr) (deleteFromClusters_deletionFunc env fr) [] s = (r, remaining, s1)"
      "r \<noteq> (True, None)" "deleteFromClusters env fr s = ((False, Some e), s1)"
      "filter is_Update (emitted s s1) = []"
  | (recheck) remaining s1 where
      "handleDeletionInClusters env (TargetKind fr) (TargetName fr) (deleteFromClusters_deletionFunc env fr) [] s = ((True, None), remaining, s1)"
      "remaining \<noteq> []" "deleteFromClusters env fr s = ((True, None), s1)"
      "filter is_Update (emitted s s1) = []"
  | (check_failed) s1 s2 e where
      "handleDeletionInClusters env (TargetKind fr) (TargetName fr) (deleteFromClusters_deletionFunc env fr) [] s = ((True, None), [], s1)"
      "ensureRemovedOrUnmanaged env fr s1 = (Some e, s2)"
      "deleteFromClusters env fr s =
         ((False, Some (Wrap e ''failed to verify that managed resources no longer exist in any cluster'')), s2)"
      "filter is_Update (emitted s s2) = []"
  | (finalize) s1 s2 r fr' s3 es where
      "handleDeletionInClusters env (TargetKind fr) (TargetName fr) (deleteFromClusters_deletionFunc env fr) [] s = ((True, None), [], s1)"
      "ensureRemovedOrUnmanaged env fr s1 = (None, s2)"
      "removeFinalizer env fr s2 = (r, fr', s3)"
      "deleteFromClusters env fr s = ((False, r), s3)"
      "events s2 = events s @ es" "filter is_Update es = []"
proof -
  obtain ok err remaining s1 where h:
    "handleDeletionInClusters env (TargetKind fr) (TargetName fr) (deleteFromClusters_deletionFunc env fr) [] s = ((ok, err), remaining, s1)"
    by (metis prod_cases3 surj_pair)
  obtain es1 where es1: "events s1 = events s @ es1" "filter is_Update es1 = []"
    using handleDeletionInClusters_events [OF h] by blast
  show ?thesis
  proof (cases "(ok, err) = (True, None)")
    case False
    then have "\<exists>e. deleteFromClusters env fr s = ((False, Some e), s1)"
      using h by (auto simp: deleteFromClusters_def)
    then show ?thesis using dispatch_failed [OF h False] es1 by auto
  next
    case True
    then have h': "handleDeletionInClusters env (TargetKind fr) (TargetName fr) (deleteFromClusters_deletionFunc env fr) [] s = ((True, None), remaining, s1)"
      using h by simp
    show ?thesis
    proof (cases "remaining = []")
      case False
      then have "deleteFromClusters env fr s = ((True, None), s1)"
        using h' by (simp add: deleteFromClusters_def)
      then show ?thesis using recheck [OF h' False] es1 by auto
    next
      case True
      obtain r2 s2 where c: "ensureRemovedOrUnmanaged env fr s1 = (r2, s2)" by force
      obtain es2 where es2: "events s2 = events s1 @ es2" "filter is_Update es2 = []"
        using ensureRemovedOrUnmanaged_events [OF c] by blast
      show ?thesis
      proof (cases r2)
        case (Some e)
        then have "deleteFromClusters env fr s =
            ((False, Some (Wrap e ''failed to verify that managed resources no longer exist in any cluster'')), s2)"
          using h' True c by (simp add: deleteFromClusters_def)
        then show ?thesis using check_failed [of s1 e s2] h' True c Some es1 es2 by auto
      next
        case None
        obtain r fr' s3 where f: "removeFinalizer env fr s2 = (r, fr', s3)" by (metis prod_cases3)
        have "deleteFromClusters env fr s = ((False, r), s3)"
          using h' True c None f by (simp add: deleteFromClusters_def)
        then show ?thesis using finalize [of s1 s2 r fr' s3 "es1 @ es2"] h' True c None f es1 es2 by auto
      qed
    qed
  qed
qed

subsection \<open>The cascading block of ensureDeletion\<close>

lemma events_via_prepend:
  assumes "\<And>es t. f (prepend es t) = (case f t of (r, t') \<Rightarrow> (r, prepend es t'))"
  shows "\<exists>es. events (snd (f s)) = events s @ es"
proof -
  have "f (prepend (events s) (s\<lparr>events := []\<rparr>)) =
      (case f (s\<lparr>events := []\<rparr>) of (r, t') \<Rightarrow> (r, prepend (events s) t'))"
    by (rule assms)
  then have "f s = (case f (s\<lparr>events := []\<rparr>) of (r, t') \<Rightarrow> (r, prepend (events s) t'))"
    by (simp add: prepend_events_self)
  then show ?thesis
    by (simp add: split: prod.splits)
qed

lemma deleteFromClusters_events:
  "\<exists>es. events (snd (deleteFromClusters env fr s)) = events s @ es"
  by (rule events_via_prepend) (rule deleteFromClusters_prepend)

lemma ensureDeletion_events:
  "\<exists>es. events (snd (ensureDeletion env fr s)) = events s @ es"
  by (rule events_via_prepend) (rule ensureDeletion_prepend)

text \<open>
  What the cascading block of ensureDeletion adds to deleteFromClusters: the status, and
  the report of an error to the error handler.
\<close>

lemma ensureDeletion_cascade_closed:
  "ensureDeletion_cascade env fr s0 =
     (case deleteFromClusters env fr s0 of
        ((recheck, err), s1) \<Rightarrow>
          (case err of
             Some e \<Rightarrow> (StatusError, s1\<lparr>events := events s1 @ [EvHandleError (Wrap e ''failed to delete'')]\<rparr>)
           | None \<Rightarrow> (if recheck then StatusNeedsRecheck else StatusAllOK, s1)))"
  by (simp add: ensureDeletion_cascade_def emit_def split: prod.splits option.splits)

lemma ensureDeletion_cascade_emitted:
  "emitted s0 (snd (ensureDeletion_cascade env fr s0)) =
     emitted s0 (snd (deleteFromClusters env fr s0)) @
       (case snd (fst (deleteFromClusters env fr s0)) of
          Some e \<Rightarrow> [EvHandleError (Wrap e ''failed to delete'')]
        | None \<Rightarrow> [])"
proof -
  obtain recheck err s1 where d: "deleteFromClusters env fr s0 = ((recheck, err), s1)"
    by (metis surj_pair)
  obtain es where e: "events s1 = events s0 @ es"
    using deleteFromClusters_events [of env fr s0] d by auto
  have 1: "emitted s0 s1 = es" using e by (rule emitted_append)
  show ?thesis
  proof (cases err)
    case None
    then show ?thesis by (simp add: ensureDeletion_cascade_closed d)
  next
    case (Some x)
    have "events (snd (ensureDeletion_cascade env fr s0)) =
        events s0 @ (es @ [EvHandleError (Wrap x ''failed to delete'')])"
      using e Some by (simp add: ensureDeletion_cascade_closed d)
    then have "emitted s0 (snd (ensureDeletion_cascade env fr s0)) = es @ [EvHandleError (Wrap x ''failed to delete'')]"
      by (rule emitted_append)
    then show ?thesis using 1 Some by (simp add: d)
  qed
qed

text \<open>
  ensureDeletion on a resource that carries the finalizer and is not to be orphaned: the
  version bookkeeping is dropped, then the cascading block runs.
\<close>

lemma ensureDeletion_cascading:
  assumes fin: "FinalizerSyncController \<in> Finalizers (Object fr)"
    and casc: "\<not> orphanResources (Object fr)"
    and s0: "s0 = (emit EvDeleteVersions s)\<lparr>world := DeleteVersions env fr (world s)\<rparr>"
  shows "ensureDeletion env fr s = ensureDeletion_cascade env fr s0"
    and "fst (ensureDeletion env fr s) =
       (case fst (deleteFromClusters env fr s0) of
          (recheck, Some e) \<Rightarrow> StatusError
        | (recheck, None) \<Rightarrow> if recheck then StatusNeedsRecheck else StatusAllOK)"
    and "emitted s (snd (ensureDeletion env fr s)) =
       EvDeleteVersions # emitted s0 (snd (deleteFromClusters env fr s0)) @
         (case snd (fst (deleteFromClusters env fr s0)) of
            Some e \<Rightarrow> [EvHandleError (Wrap e ''failed to delete'')]
          | None \<Rightarrow> [])"
proof -
  show ed: "ensureDeletion env fr s = ensureDeletion_cascade env fr s0"
    using fin casc s0 by (simp add: ensureDeletion_def Let_def)
  show "fst (ensureDeletion env fr s) =
       (case fst (deleteFromClusters env fr s0) of
          (recheck, Some e) \<Rightarrow> StatusError
        | (recheck, None) \<Rightarrow> if recheck then StatusNeedsRecheck else StatusAllOK)"
    by (simp add: ed ensureDeletion_cascade_closed split: prod.splits option.splits)
  have e0: "events s0 = events s @ [EvDeleteVersions]" using s0 by simp
  have "\<exists>es. events (snd (ensureDeletion_cascade env fr s0)) = events s0 @ es"
  proof -
    have "ensureDeletion_cascade env fr (prepend es t) =
        (case ensureDeletion_cascade env fr t of (r, t') \<Rightarrow> (r, prepend es t'))" for es t
      by (auto simp add: ensureDeletion_cascade_def deleteFromClusters_prepend split: prod.splits option.splits)
    then show ?thesis by (rule events_via_prepend)
  qed
  then obtain es where es: "events (snd (ensureDeletion_cascade env fr s0)) = events s0 @ es"
    by blast
  have 1: "emitted s0 (snd (ensureDeletion_cascade env fr s0)) = es"
    using es by (rule emitted_append)
  have "events (snd (ensureDeletion env fr s)) = events s @ EvDeleteVersions # es"
    using e0 es by (simp add: ed)
  then have "emitted s (snd (ensureDeletion env fr s)) = EvDeleteVersions # es"
    by (rule emitted_append)
  then have "emitted s (snd (ensureDeletion env fr s)) =
      EvDeleteVersions # emitted s0 (snd (ensureDeletion_cascade env fr s0))"
    using 1 by simp
  then show "emitted s (snd (ensureDeletion env fr s)) =
       EvDeleteVersions # emitted s0 (snd (deleteFromClusters env fr s0)) @
         (case snd (fst (deleteFromClusters env fr s0)) of
            Some e \<Rightarrow> [EvHandleError (Wrap e ''failed to delete'')]
          | None \<Rightarrow> [])"
    by (simp add: ensureDeletion_cascade_emitted)
qed

lemma ensureDeletion_cascading_updates:
  assumes fin: "FinalizerSyncController \<in> Finalizers (Object fr)"
    and casc: "\<not> orphanResources (Object fr)"
    and s0: "s0 = (emit EvDeleteVersions s)\<lparr>world := DeleteVersions env fr (world s)\<rparr>"
  shows "filter is_Update (emitted s (snd (ensureDeletion env fr s))) =
     filter is_Update (emitted s0 (snd (deleteFromClusters env fr s0)))"
  by (simp add: ensureDeletion_cascading(3) [OF assms] split: option.splits)

text \<open>reconcile hands a resolved resource that is being deleted to ensureDeletion.\<close>

lemma reconcile_terminating:
  assumes "isSynced env t = (True, t)"
    and "GetFederatedResource env qualifiedName (world t) = (Some fr, False, None)"
    and "DeletionTimestamp (Object fr) \<noteq> None"
    and s: "s = emit (EvFederatedResource qualifiedName) t"
  shows "reconcile env qualifiedName t = ensureDeletion env fr s"
    and "emitted t (snd (reconcile env qualifiedName t)) =
           EvFederatedResource qualifiedName # emitted s (snd (ensureDeletion env fr s))"
proof -
  show r: "reconcile env qualifiedName t = ensureDeletion env fr s"
    using assms by (simp add: reconcile_def Let_def)
  obtain es where es: "events (snd (ensureDeletion env fr s)) = events s @ es"
    using ensureDeletion_events by blast
  have 1: "emitted s (snd (ensureDeletion env fr s)) = es"
    using es by (rule emitted_append)
  have "events (snd (reconcile env qualifiedName t)) = events t @ EvFederatedResource qualifiedName # es"
    using es s by (simp add: r)
  then have "emitted t (snd (reconcile env qualifiedName t)) = EvFederatedResource qualifiedName # es"
    by (rule emitted_append)
  then show "emitted t (snd (reconcile env qualifiedName t)) =
           EvFederatedResource qualifiedName # emitted s (snd (ensureDeletion env fr s))"
    using 1 by simp
qed

text \<open>
  deleteFromClusters, case by case: when it writes the resource, when it fails before
  the check, when the check fails, and what it does when the check confirms.
\<close>

lemma deleteFromClusters_update_confirmed:
  fixes env :: "'w env"
  assumes up: "filter is_Update (emitted s (snd (deleteFromClusters env fr s))) \<noteq> []"
  shows "\<exists>clusters1 s1 clusters2.
          GetClusters env (world s) = Inr clusters1 \<and> (\<forall>c\<in>set clusters1. IsClusterReady c) \<and>
          handleDeletionInClusters env (TargetKind fr) (TargetName fr) (deleteFromClusters_deletionFunc env fr) [] s = ((True, None), [], s1) \<and>
          GetClusters env (world s1) = Inr clusters2 \<and>
          (\<forall>c\<in>set clusters2. IsClusterReady c \<and>
             OperationOutcome env CheckUnmanagedDispatcher (CheckRemovedOrUnlabeled (ClusterName c)) (world s1)) \<and>
          WaitTimeout env CheckUnmanagedDispatcher (map (\<lambda>c. CheckRemovedOrUnlabeled (ClusterName c)) clusters2) (world s1) = None \<and>
          EvWait CheckUnmanagedDispatcher (map (\<lambda>c. CheckRemovedOrUnlabeled (ClusterName c)) clusters2) \<in> set (emitted s (snd (deleteFromClusters env fr s)))"
proof (cases rule: deleteFromClusters_cases [of env fr s])
  case (dispatch_failed r remaining s1 e)
  then show ?thesis using up by simp
next
  case (recheck remaining s1)
  then show ?thesis using up by simp
next
  case (check_failed s1 s2 e)
  then show ?thesis using up by simp
next
  case (finalize s1 s2 r fr' s3 es)
  obtain clusters1 where c1: "GetClusters env (world s) = Inr clusters1" "\<forall>c\<in>set clusters1. IsClusterReady c"
    using handleDeletionInClusters_ok [OF finalize(1)] by blast
  obtain clusters2 where c2: "GetClusters env (world s1) = Inr clusters2"
    using finalize(2) by (cases "GetClusters env (world s1)") (auto simp: ensureRemovedOrUnmanaged_def)
  have n: "fst (ensureRemovedOrUnmanaged env fr s1) = None" using finalize(2) by simp
  note conf = n [unfolded ensureRemovedOrUnmanaged_None [OF c2]]
  have rdy: "filter IsClusterReady clusters2 = clusters2" using conf by (simp add: filter_ready_all)
  obtain es1 where es1: "events s1 = events s @ es1"
    using handleDeletionInClusters_events [OF finalize(1)] by blast
  have "events s2 = events s1 @ [EvWait CheckUnmanagedDispatcher (map (\<lambda>c. CheckRemovedOrUnlabeled (ClusterName c)) clusters2)]"
    using finalize(2) by (auto simp: ensureRemovedOrUnmanaged_closed [OF c2] Let_def rdy)
  moreover have "\<exists>es3. events s3 = events s2 @ es3"
    using removeFinalizer_events [OF finalize(3)] by auto
  ultimately have "EvWait CheckUnmanagedDispatcher (map (\<lambda>c. CheckRemovedOrUnlabeled (ClusterName c)) clusters2) \<in> set (emitted s (snd (deleteFromClusters env fr s)))"
    using es1 finalize(4) by (auto simp: emitted_def)
  then show ?thesis using c1 c2 conf finalize(1) by blast
qed

lemma deleteFromClusters_dispatch_error:
  fixes env :: "'w env"
  assumes g: "GetClusters env (world s) = Inr clusters1"
    and bad: "(\<exists>c\<in>set clusters1. \<not> IsClusterReady c) \<or>
         WaitTimeout env UnmanagedDispatcher
           (concat (map (\<lambda>(n, obj). cascade_operation env fr n obj)
              (cachedCopies env (QualifiedName_String (TargetName fr)) (world s) clusters1))) (world s) \<noteq> None"
  shows "snd (fst (deleteFromClusters env fr s)) \<noteq> None \<and>
        filter is_Update (emitted s (snd (deleteFromClusters env fr s))) = []"
proof -
  have u: "unreadyNames clusters1 \<noteq> [] \<or>
         WaitTimeout env UnmanagedDispatcher
           (concat (map (\<lambda>(n, obj). cascade_operation env fr n obj)
              (cachedCopies env (QualifiedName_String (TargetName fr)) (world s) clusters1))) (world s) \<noteq> None"
    using bad by (auto simp: unreadyNames_empty)
  then show ?thesis
    by (auto simp add: deleteFromClusters_def handleDeletionInClusters_closed [OF g] Let_def
        fold_deleteFromClusters_deletionFunc split: option.splits)
qed

lemma deleteFromClusters_check_error:
  fixes env :: "'w env"
  assumes h: "handleDeletionInClusters env (TargetKind fr) (TargetName fr) (deleteFromClusters_deletionFunc env fr) [] s = ((True, None), [], s1)" and g: "GetClusters env (world s1) = Inr clusters2"
    and bad: "(\<exists>c\<in>set clusters2. \<not> IsClusterReady c) \<or>
         (\<exists>c\<in>set clusters2. \<not> OperationOutcome env CheckUnmanagedDispatcher
                                  (CheckRemovedOrUnlabeled (ClusterName c)) (world s1)) \<or>
         WaitTimeout env CheckUnmanagedDispatcher
           (map (\<lambda>c. CheckRemovedOrUnlabeled (ClusterName c)) (filter IsClusterReady clusters2)) (world s1) \<noteq> None"
  shows "snd (fst (deleteFromClusters env fr s)) \<noteq> None \<and>
        filter is_Update (emitted s (snd (deleteFromClusters env fr s))) = []"
proof -
  have "fst (ensureRemovedOrUnmanaged env fr s1) \<noteq> None"
  proof
    assume "fst (ensureRemovedOrUnmanaged env fr s1) = None"
    note conf = this [unfolded ensureRemovedOrUnmanaged_None [OF g]]
    then have "filter IsClusterReady clusters2 = clusters2" by (simp add: filter_ready_all)
    then show False using conf bad by auto
  qed
  then obtain e s2 where c: "ensureRemovedOrUnmanaged env fr s1 = (Some e, s2)"
    by (cases "ensureRemovedOrUnmanaged env fr s1") auto
  obtain es1 where es1: "events s1 = events s @ es1" "filter is_Update es1 = []"
    using handleDeletionInClusters_events [OF h] by blast
  obtain es2 where es2: "events s2 = events s1 @ es2" "filter is_Update es2 = []"
    using ensureRemovedOrUnmanaged_events [OF c] by blast
  have "deleteFromClusters env fr s =
      ((False, Some (Wrap e ''failed to verify that managed resources no longer exist in any cluster'')), s2)"
    using h c by (simp add: deleteFromClusters_def)
  then show ?thesis using es1 es2 by (simp add: emitted_def)
qed

lemma deleteFromClusters_confirmed:
  fixes env :: "'w env"
  assumes h: "handleDeletionInClusters env (TargetKind fr) (TargetName fr) (deleteFromClusters_deletionFunc env fr) [] s = ((True, None), [], s1)" and g: "GetClusters env (world s1) = Inr clusters2"
    and ok: "\<forall>c\<in>set clusters2. IsClusterReady c \<and>
             OperationOutcome env CheckUnmanagedDispatcher (CheckRemovedOrUnlabeled (ClusterName c)) (world s1)"
        "WaitTimeout env CheckUnmanagedDispatcher (map (\<lambda>c. CheckRemovedOrUnlabeled (ClusterName c)) clusters2) (world s1) = None"
    and fin: "MetaAccessor env (Object fr) = None" "FinalizerSyncController \<in> Finalizers (Object fr)"
    and obj': "obj' = (Object fr)\<lparr>Finalizers := Finalizers (Object fr) - {FinalizerSyncController}\<rparr>"
  shows "filter is_Update (emitted s (snd (deleteFromClusters env fr s))) = [EvUpdate obj']"
    and "fst (deleteFromClusters env fr s) =
       (False, case fst (HostUpdate env obj' (WaitWorld env CheckUnmanagedDispatcher (map (\<lambda>c. CheckRemovedOrUnlabeled (ClusterName c)) clusters2) (world s1))) of
                 Inl e \<Rightarrow> Some e | Inr written \<Rightarrow> None)"
proof -
  have "fst (ensureRemovedOrUnmanaged env fr s1) = None"
    using ok by (simp add: ensureRemovedOrUnmanaged_None [OF g])
  then obtain s2 where c: "ensureRemovedOrUnmanaged env fr s1 = (None, s2)"
    by (cases "ensureRemovedOrUnmanaged env fr s1") auto
  have rdy: "filter IsClusterReady clusters2 = clusters2" using ok by (simp add: filter_ready_all)
  have w2: "world s2 = WaitWorld env CheckUnmanagedDispatcher (map (\<lambda>c. CheckRemovedOrUnlabeled (ClusterName c)) clusters2) (world s1)"
    using c by (auto simp: ensureRemovedOrUnmanaged_closed [OF g] Let_def rdy)
  obtain es1 where es1: "events s1 = events s @ es1" "filter is_Update es1 = []"
    using handleDeletionInClusters_events [OF h] by blast
  obtain es2 where es2: "events s2 = events s1 @ es2" "filter is_Update es2 = []"
    using ensureRemovedOrUnmanaged_events [OF c] by blast
  obtain r fr' s3 where f: "removeFinalizer env fr s2 = (r, fr', s3)" by (metis prod_cases3)
  have e3: "events s3 = events s2 @ [EvUpdate obj']"
    using f obj' by (auto simp: removeFinalizer_present [OF fin] Let_def split: prod.splits sum.splits)
  have r: "r = (case fst (HostUpdate env obj' (world s2)) of Inl e \<Rightarrow> Some e | Inr written \<Rightarrow> None)"
    using f obj' by (auto simp: removeFinalizer_present [OF fin] Let_def split: prod.splits sum.splits)
  have d: "deleteFromClusters env fr s = ((False, r), s3)"
    using h c f by (simp add: deleteFromClusters_def)
  show "filter is_Update (emitted s (snd (deleteFromClusters env fr s))) = [EvUpdate obj']"
    using d es1 es2 e3 by (simp add: emitted_def)
  show "fst (deleteFromClusters env fr s) =
       (False, case fst (HostUpdate env obj' (WaitWorld env CheckUnmanagedDispatcher (map (\<lambda>c. CheckRemovedOrUnlabeled (ClusterName c)) clusters2) (world s1))) of
                 Inl e \<Rightarrow> Some e | Inr written \<Rightarrow> None)"
    using d r w2 by simp
qed

subsection \<open>The finalizer is removed on confirmed evidence only\<close>

text \<open>
  C1: on the cascading path (the resource carries the finalizer and is not to be
  orphaned) ensureDeletion writes the resource only when the dispatch of the deletions
  succeeded over a list of ready clusters with no cluster left remaining, and the check
  dispatcher, joined on a list of clusters that are all ready, confirmed without timeout
  that every one of them has the target removed or unlabeled. A cluster that is not
  ready (in the first list or in the list of the check), a failed check, or a timeout
  of either join makes deleteFromClusters return an error and ensureDeletion return
  StatusError, and the resource is not written. When everything is confirmed the one
  write, of the resource without its finalizer, is made, no recheck is asked for, and
  the status is StatusAllOK when the write succeeds and StatusError when it fails.
  ensureDeletion returns StatusError exactly when deleteFromClusters returns an error,
  and it does not write the resource when it returns StatusNeedsRecheck. reconcile,
  for a resolved resource that is being deleted, returns the status of ensureDeletion
  and writes the resource exactly as ensureDeletion does.
\<close>

theorem finalizer_removed_only_when_confirmed:
  fixes env :: "'w env"
  assumes fin: "FinalizerSyncController \<in> Finalizers (Object fr)"
    and casc: "\<not> orphanResources (Object fr)"
    and s0: "s0 = (emit EvDeleteVersions s)\<lparr>world := DeleteVersions env fr (world s)\<rparr>"
    and obj': "obj' = (Object fr)\<lparr>Finalizers := Finalizers (Object fr) - {FinalizerSyncController}\<rparr>"
  shows
  "(filter is_Update (emitted s (snd (ensureDeletion env fr s))) \<noteq> [] \<longrightarrow>
      (\<exists>clusters1 s1 clusters2.
          GetClusters env (world s0) = Inr clusters1 \<and> (\<forall>c\<in>set clusters1. IsClusterReady c) \<and>
          handleDeletionInClusters env (TargetKind fr) (TargetName fr)
            (deleteFromClusters_deletionFunc env fr) [] s0 = ((True, None), [], s1) \<and>
          GetClusters env (world s1) = Inr clusters2 \<and>
          (\<forall>c\<in>set clusters2. IsClusterReady c \<and>
             OperationOutcome env CheckUnmanagedDispatcher (CheckRemovedOrUnlabeled (ClusterName c)) (world s1)) \<and>
          WaitTimeout env CheckUnmanagedDispatcher
            (map (\<lambda>c. CheckRemovedOrUnlabeled (ClusterName c)) clusters2) (world s1) = None \<and>
          EvWait CheckUnmanagedDispatcher (map (\<lambda>c. CheckRemovedOrUnlabeled (ClusterName c)) clusters2)
            \<in> set (emitted s (snd (ensureDeletion env fr s)))))
 \<and> (\<forall>clusters1. GetClusters env (world s0) = Inr clusters1 \<and>
        ((\<exists>c\<in>set clusters1. \<not> IsClusterReady c) \<or>
         WaitTimeout env UnmanagedDispatcher
           (concat (map (\<lambda>(n, obj). cascade_operation env fr n obj)
              (cachedCopies env (QualifiedName_String (TargetName fr)) (world s0) clusters1))) (world s0) \<noteq> None) \<longrightarrow>
        snd (fst (deleteFromClusters env fr s0)) \<noteq> None \<and>
        fst (ensureDeletion env fr s) = StatusError \<and>
        filter is_Update (emitted s (snd (ensureDeletion env fr s))) = [])
 \<and> (\<forall>s1 clusters2.
        handleDeletionInClusters env (TargetKind fr) (TargetName fr)
            (deleteFromClusters_deletionFunc env fr) [] s0 = ((True, None), [], s1) \<and>
        GetClusters env (world s1) = Inr clusters2 \<and>
        ((\<exists>c\<in>set clusters2. \<not> IsClusterReady c) \<or>
         (\<exists>c\<in>set clusters2. \<not> OperationOutcome env CheckUnmanagedDispatcher
                                  (CheckRemovedOrUnlabeled (ClusterName c)) (world s1)) \<or>
         WaitTimeout env CheckUnmanagedDispatcher
           (map (\<lambda>c. CheckRemovedOrUnlabeled (ClusterName c)) (filter IsClusterReady clusters2)) (world s1) \<noteq> None) \<longrightarrow>
        snd (fst (deleteFromClusters env fr s0)) \<noteq> None \<and>
        fst (ensureDeletion env fr s) = StatusError \<and>
        filter is_Update (emitted s (snd (ensureDeletion env fr s))) = [])
 \<and> (\<forall>s1 clusters2.
        handleDeletionInClusters env (TargetKind fr) (TargetName fr)
            (deleteFromClusters_deletionFunc env fr) [] s0 = ((True, None), [], s1) \<and>
        GetClusters env (world s1) = Inr clusters2 \<and>
        (\<forall>c\<in>set clusters2. IsClusterReady c \<and>
             OperationOutcome env CheckUnmanagedDispatcher (CheckRemovedOrUnlabeled (ClusterName c)) (world s1)) \<and>
        WaitTimeout env CheckUnmanagedDispatcher
            (map (\<lambda>c. CheckRemovedOrUnlabeled (ClusterName c)) clusters2) (world s1) = None \<and>
        MetaAccessor env (Object fr) = None \<longrightarrow>
        filter is_Update (emitted s (snd (ensureDeletion env fr s))) = [EvUpdate obj'] \<and>
        \<not> fst (fst (deleteFromClusters env fr s0)) \<and>
        fst (ensureDeletion env fr s) =
          (case fst (HostUpdate env obj'
                       (WaitWorld env CheckUnmanagedDispatcher
                          (map (\<lambda>c. CheckRemovedOrUnlabeled (ClusterName c)) clusters2) (world s1))) of
             Inl e \<Rightarrow> StatusError
           | Inr written \<Rightarrow> StatusAllOK))
 \<and> (fst (ensureDeletion env fr s) = StatusError \<longleftrightarrow> snd (fst (deleteFromClusters env fr s0)) \<noteq> None)
 \<and> (fst (ensureDeletion env fr s) = StatusNeedsRecheck \<longrightarrow>
        filter is_Update (emitted s (snd (ensureDeletion env fr s))) = [])
 \<and> (\<forall>qualifiedName t.
        isSynced env t = (True, t) \<and>
        GetFederatedResource env qualifiedName (world t) = (Some fr, False, None) \<and>
        DeletionTimestamp (Object fr) \<noteq> None \<and> s = emit (EvFederatedResource qualifiedName) t \<longrightarrow>
        fst (reconcile env qualifiedName t) = fst (ensureDeletion env fr s) \<and>
        filter is_Update (emitted t (snd (reconcile env qualifiedName t))) =
          filter is_Update (emitted s (snd (ensureDeletion env fr s))))"
proof -
  note st = ensureDeletion_cascading(2) [OF fin casc s0]
  note em = ensureDeletion_cascading(3) [OF fin casc s0]
  note up = ensureDeletion_cascading_updates [OF fin casc s0]
  have err: "fst (ensureDeletion env fr s) = StatusError \<longleftrightarrow> snd (fst (deleteFromClusters env fr s0)) \<noteq> None"
    unfolding st by (auto split: prod.splits option.splits)
  have A: "\<exists>clusters1 s1 clusters2.
          GetClusters env (world s0) = Inr clusters1 \<and> (\<forall>c\<in>set clusters1. IsClusterReady c) \<and>
          handleDeletionInClusters env (TargetKind fr) (TargetName fr)
            (deleteFromClusters_deletionFunc env fr) [] s0 = ((True, None), [], s1) \<and>
          GetClusters env (world s1) = Inr clusters2 \<and>
          (\<forall>c\<in>set clusters2. IsClusterReady c \<and>
             OperationOutcome env CheckUnmanagedDispatcher (CheckRemovedOrUnlabeled (ClusterName c)) (world s1)) \<and>
          WaitTimeout env CheckUnmanagedDispatcher (map (\<lambda>c. CheckRemovedOrUnlabeled (ClusterName c)) clusters2) (world s1) = None \<and>
          EvWait CheckUnmanagedDispatcher (map (\<lambda>c. CheckRemovedOrUnlabeled (ClusterName c)) clusters2) \<in> set (emitted s (snd (ensureDeletion env fr s)))"
    if u: "filter is_Update (emitted s (snd (ensureDeletion env fr s))) \<noteq> []"
  proof -
    have "filter is_Update (emitted s0 (snd (deleteFromClusters env fr s0))) \<noteq> []"
      using u unfolding up .
    from deleteFromClusters_update_confirmed [OF this] show ?thesis
      unfolding em by auto
  qed
  have B: "snd (fst (deleteFromClusters env fr s0)) \<noteq> None \<and>
        fst (ensureDeletion env fr s) = StatusError \<and>
        filter is_Update (emitted s (snd (ensureDeletion env fr s))) = []"
    if "GetClusters env (world s0) = Inr clusters1"
      "(\<exists>c\<in>set clusters1. \<not> IsClusterReady c) \<or>
         WaitTimeout env UnmanagedDispatcher
           (concat (map (\<lambda>(n, obj). cascade_operation env fr n obj)
              (cachedCopies env (QualifiedName_String (TargetName fr)) (world s0) clusters1))) (world s0) \<noteq> None"
    for clusters1
    using deleteFromClusters_dispatch_error [OF that] err up by simp
  have C: "snd (fst (deleteFromClusters env fr s0)) \<noteq> None \<and>
        fst (ensureDeletion env fr s) = StatusError \<and>
        filter is_Update (emitted s (snd (ensureDeletion env fr s))) = []"
    if "handleDeletionInClusters env (TargetKind fr) (TargetName fr)
            (deleteFromClusters_deletionFunc env fr) [] s0 = ((True, None), [], s1)" "GetClusters env (world s1) = Inr clusters2"
      "(\<exists>c\<in>set clusters2. \<not> IsClusterReady c) \<or>
         (\<exists>c\<in>set clusters2. \<not> OperationOutcome env CheckUnmanagedDispatcher
                                  (CheckRemovedOrUnlabeled (ClusterName c)) (world s1)) \<or>
         WaitTimeout env CheckUnmanagedDispatcher
           (map (\<lambda>c. CheckRemovedOrUnlabeled (ClusterName c)) (filter IsClusterReady clusters2)) (world s1) \<noteq> None"
    for s1 clusters2
    using deleteFromClusters_check_error [OF that] err up by simp
  have D: "filter is_Update (emitted s (snd (ensureDeletion env fr s))) = [EvUpdate obj'] \<and>
        \<not> fst (fst (deleteFromClusters env fr s0)) \<and>
        fst (ensureDeletion env fr s) =
          (case fst (HostUpdate env obj' (WaitWorld env CheckUnmanagedDispatcher (map (\<lambda>c. CheckRemovedOrUnlabeled (ClusterName c)) clusters2) (world s1))) of
             Inl e \<Rightarrow> StatusError
           | Inr written \<Rightarrow> StatusAllOK)"
    if h: "handleDeletionInClusters env (TargetKind fr) (TargetName fr)
            (deleteFromClusters_deletionFunc env fr) [] s0 = ((True, None), [], s1)" and g: "GetClusters env (world s1) = Inr clusters2"
      and ok: "\<forall>c\<in>set clusters2. IsClusterReady c \<and>
             OperationOutcome env CheckUnmanagedDispatcher (CheckRemovedOrUnlabeled (ClusterName c)) (world s1)"
        "WaitTimeout env CheckUnmanagedDispatcher (map (\<lambda>c. CheckRemovedOrUnlabeled (ClusterName c)) clusters2) (world s1) = None"
      and m: "MetaAccessor env (Object fr) = None"
    for s1 clusters2
  proof -
    note d = deleteFromClusters_confirmed [OF h g ok m fin obj']
    show ?thesis
      unfolding up st d(2) using d(1) by (simp split: sum.splits)
  qed
  have E: "filter is_Update (emitted s (snd (ensureDeletion env fr s))) = []"
    if ne: "fst (ensureDeletion env fr s) = StatusNeedsRecheck"
  proof (cases rule: deleteFromClusters_cases [of env fr s0])
    case (dispatch_failed r remaining s1 e)
    then show ?thesis unfolding up by simp
  next
    case (recheck remaining s1)
    then show ?thesis unfolding up by simp
  next
    case (check_failed s1 s2 e)
    then show ?thesis unfolding up by simp
  next
    case (finalize s1 s2 r fr' s3 es)
    then show ?thesis using ne unfolding st by (cases r) simp_all
  qed
  have F: "fst (reconcile env qualifiedName t) = fst (ensureDeletion env fr s) \<and>
        filter is_Update (emitted t (snd (reconcile env qualifiedName t))) =
          filter is_Update (emitted s (snd (ensureDeletion env fr s)))"
    if "isSynced env t = (True, t)" "GetFederatedResource env qualifiedName (world t) = (Some fr, False, None)"
      "DeletionTimestamp (Object fr) \<noteq> None" "s = emit (EvFederatedResource qualifiedName) t"
    for qualifiedName t
    using reconcile_terminating [OF that] by simp
  show ?thesis
    apply (intro conjI allI impI)
    subgoal by (rule A)
    subgoal using B by blast
    subgoal using B by blast
    subgoal using B by blast
    subgoal using C by blast
    subgoal using C by blast
    subgoal using C by blast
    subgoal using D by blast
    subgoal using D by blast
    subgoal using D by blast
    subgoal by (rule err)
    subgoal by (rule E)
    subgoal using F by blast
    subgoal using F by blast
    done
qed

theorem finalizer_removed_only_when_confirmed_witness:
  "ensureDeletion cleanEnv (exampleResource terminatingObject) \<lparr>world = 0, events = []\<rparr> =
     (StatusAllOK,
      \<lparr>world = Suc 0,
       events = [EvDeleteVersions, EvWait UnmanagedDispatcher [],
                 EvWait CheckUnmanagedDispatcher [CheckRemovedOrUnlabeled ''a'', CheckRemovedOrUnlabeled ''b''],
                 EvUpdate (terminatingObject\<lparr>Finalizers := {}\<rparr>)]\<rparr>)
   \<and> fst (ensureDeletion (cleanEnv\<lparr>OperationOutcome := (\<lambda>k c w. c \<noteq> CheckRemovedOrUnlabeled ''b'')\<rparr>)
                (exampleResource terminatingObject) \<lparr>world = 0, events = []\<rparr>) = StatusError
   \<and> filter is_Update (emitted \<lparr>world = 0, events = []\<rparr>
        (snd (ensureDeletion (cleanEnv\<lparr>OperationOutcome := (\<lambda>k c w. c \<noteq> CheckRemovedOrUnlabeled ''b'')\<rparr>)
                (exampleResource terminatingObject) \<lparr>world = 0, events = []\<rparr>))) = []"
proof -
  let ?env = "cleanEnv\<lparr>OperationOutcome := (\<lambda>k c w. c \<noteq> CheckRemovedOrUnlabeled ''b'')\<rparr>"
  let ?fr = "exampleResource terminatingObject"
  let ?s = "\<lparr>world = 0::nat, events = []\<rparr>"
  let ?t = "\<lparr>world = 0::nat, events = [EvDeleteVersions]\<rparr>"
  let ?s1 = "\<lparr>world = 0::nat, events = [EvDeleteVersions, EvWait UnmanagedDispatcher []]\<rparr>"
  let ?cs = "[\<lparr>ClusterName = ''a'', IsClusterReady = True\<rparr>, \<lparr>ClusterName = ''b'', IsClusterReady = True\<rparr>]"
  have 1: "ensureDeletion cleanEnv ?fr ?s =
     (StatusAllOK,
      \<lparr>world = Suc 0,
       events = [EvDeleteVersions, EvWait UnmanagedDispatcher [],
                 EvWait CheckUnmanagedDispatcher [CheckRemovedOrUnlabeled ''a'', CheckRemovedOrUnlabeled ''b''],
                 EvUpdate (terminatingObject\<lparr>Finalizers := {}\<rparr>)]\<rparr>)"
    by (simp add: cleanEnv_def exampleEnv_def exampleResource_def terminatingObject_def exampleObject_def
        QualifiedName_String_def Wait_def emit_def Let_def orphanResources_def
        ensureDeletion_def ensureDeletion_cascade_def
        handleDeletionInClusters_def handleDeletionInCluster_def deleteFromClusters_def
        ensureRemovedOrUnmanaged_def checkCluster_def removeFinalizer_def RemoveFinalizers_def)
  have fin: "FinalizerSyncController \<in> Finalizers (Object ?fr)"
    by (simp add: exampleResource_def terminatingObject_def exampleObject_def)
  have casc: "\<not> orphanResources (Object ?fr)"
    by (simp add: exampleResource_def terminatingObject_def exampleObject_def orphanResources_def)
  have s0: "?t = (emit EvDeleteVersions ?s)\<lparr>world := DeleteVersions ?env ?fr (world ?s)\<rparr>"
    by (simp add: cleanEnv_def exampleEnv_def emit_def)
  have obj': "terminatingObject\<lparr>Finalizers := {}\<rparr> =
      (Object ?fr)\<lparr>Finalizers := Finalizers (Object ?fr) - {FinalizerSyncController}\<rparr>"
    by (simp add: exampleResource_def terminatingObject_def exampleObject_def)
  have h: "handleDeletionInClusters ?env (TargetKind ?fr) (TargetName ?fr)
      (deleteFromClusters_deletionFunc ?env ?fr) [] ?t = ((True, None), [], ?s1)"
    by (simp add: cleanEnv_def exampleEnv_def exampleResource_def QualifiedName_String_def Wait_def
        emit_def Let_def handleDeletionInClusters_def handleDeletionInCluster_def)
  have g: "GetClusters ?env (world ?s1) = Inr ?cs"
    by (simp add: cleanEnv_def exampleEnv_def)
  have bad: "\<exists>c\<in>set ?cs. \<not> OperationOutcome ?env CheckUnmanagedDispatcher
      (CheckRemovedOrUnlabeled (ClusterName c)) (world ?s1)"
    by (simp add: cleanEnv_def exampleEnv_def)
  have 2: "snd (fst (deleteFromClusters ?env ?fr ?t)) \<noteq> None \<and>
        fst (ensureDeletion ?env ?fr ?s) = StatusError \<and>
        filter is_Update (emitted ?s (snd (ensureDeletion ?env ?fr ?s))) = []"
    using finalizer_removed_only_when_confirmed [OF fin casc s0 obj', THEN conjunct2, THEN conjunct2,
        THEN conjunct1, rule_format, of ?s1 ?cs] h g bad
    by blast
  show ?thesis using 1 2 by simp
qed

subsection \<open>The cascade path and the remaining clusters\<close>

text \<open>
  The claim as stated puts no condition on the dispatch. With one ready cluster holding a
  copy and the dispatched Delete failing (the join itself does not time out), the cluster
  is remaining after the dispatch completes, and yet deleteFromClusters returns an
  error and the reconcile StatusError, not StatusNeedsRecheck. The same happens when
  every operation succeeds and a second cluster of the list is not ready.
\<close>

theorem cascade_remaining_counterexample:
  "fst (snd (handleDeletionInClusters failingEnv ''Deployment'' \<lparr>Namespace = ''ns'', Name = ''web''\<rparr>
               (deleteFromClusters_deletionFunc failingEnv (exampleResource terminatingObject)) []
               \<lparr>world = 0, events = []\<rparr>)) = [''a'']
   \<and> WaitTimeout failingEnv UnmanagedDispatcher [Delete ''a''] 0 = None
   \<and> deleteFromClusters failingEnv (exampleResource terminatingObject) \<lparr>world = 0, events = []\<rparr> =
       ((False, Some (Errorf ''failed to remove managed resources from one or more clusters.'' [])),
        \<lparr>world = 0, events = [EvWait UnmanagedDispatcher [Delete ''a'']]\<rparr>)
   \<and> fst (ensureDeletion failingEnv (exampleResource terminatingObject) \<lparr>world = 0, events = []\<rparr>) = StatusError
   \<and> fst (snd (handleDeletionInClusters unreadyEnv ''Deployment'' \<lparr>Namespace = ''ns'', Name = ''web''\<rparr>
               (deleteFromClusters_deletionFunc unreadyEnv (exampleResource terminatingObject)) []
               \<lparr>world = 0, events = []\<rparr>)) = [''a'']
   \<and> deleteFromClusters unreadyEnv (exampleResource terminatingObject) \<lparr>world = 0, events = []\<rparr> =
       ((False, Some (Errorf ''the following clusters were not ready'' [''c''])),
        \<lparr>world = 0, events = [EvWait UnmanagedDispatcher [Delete ''a'']]\<rparr>)
   \<and> fst (ensureDeletion unreadyEnv (exampleResource terminatingObject) \<lparr>world = 0, events = []\<rparr>) = StatusError"
  by (simp add: failingEnv_def heldEnv_def unreadyEnv_def exampleEnv_def exampleResource_def terminatingObject_def
      exampleObject_def exampleCopy_def QualifiedName_String_def Wait_def emit_def Let_def
      handleDeletionInClusters_def handleDeletionInCluster_def deleteFromClusters_def
      deleteFromClusters_deletionFunc_def ensureDeletion_def ensureDeletion_cascade_def orphanResources_def
      FinalizerSyncController_def)

text \<open>
  C4, as amended: on the cascade path (the resource carries the finalizer and is not to
  be orphaned) the handler is run for every ready cluster with a cached copy. The
  cluster is tracked as remaining unless the copy is the host-cluster namespace and is
  itself terminating; for a tracked cluster no operation is issued when the copy
  carries a deletion timestamp, RemoveManagedLabel when it is the host-cluster
  namespace, and Delete otherwise. The dispatch succeeded exactly when the join did not
  time out, no cache lookup failed, every cluster was ready and every issued operation
  succeeded. If it succeeded and a cluster is remaining, deleteFromClusters asks for a
  recheck and ensureDeletion returns StatusNeedsRecheck in the state the dispatch left;
  if it did not succeed, deleteFromClusters returns an error and ensureDeletion returns
  StatusError after handing the error to the error handler. In both cases ensureDeletion
  does not write the resource, so the finalizer stays. reconcile, for a resolved
  resource that is being deleted, returns what ensureDeletion returns.
\<close>

theorem cascade_remaining:
  fixes env :: "'w env"
  assumes fin: "FinalizerSyncController \<in> Finalizers (Object fr)"
    and casc: "\<not> orphanResources (Object fr)"
    and s0: "s0 = (emit EvDeleteVersions s)\<lparr>world := DeleteVersions env fr (world s)\<rparr>"
    and g: "GetClusters env (world s0) = Inr clusters"
    and copies: "copies = cachedCopies env (QualifiedName_String (TargetName fr)) (world s0) clusters"
    and calls: "calls = concat (map (\<lambda>(n, obj). cascade_operation env fr n obj) copies)"
    and h: "handleDeletionInClusters env (TargetKind fr) (TargetName fr)
              (deleteFromClusters_deletionFunc env fr) [] s0 = (r, remaining, s1)"
  shows "remaining = map fst (filter (\<lambda>(n, obj). cascade_tracked env fr obj) copies)
     \<and> EvWait UnmanagedDispatcher calls \<in> set (emitted s0 s1)
     \<and> (r = (True, None) \<longleftrightarrow>
          WaitTimeout env UnmanagedDispatcher calls (world s0) = None \<and>
          retrievalFailures env (QualifiedName_String (TargetName fr)) (world s0) clusters = [] \<and>
          (\<forall>c\<in>set clusters. IsClusterReady c) \<and>
          (\<forall>call\<in>set calls. OperationOutcome env UnmanagedDispatcher call (world s0)))
     \<and> (r = (True, None) \<and> remaining \<noteq> [] \<longrightarrow>
          deleteFromClusters env fr s0 = ((True, None), s1) \<and>
          ensureDeletion env fr s = (StatusNeedsRecheck, s1) \<and>
          filter is_Update (emitted s (snd (ensureDeletion env fr s))) = [])
     \<and> (r \<noteq> (True, None) \<longrightarrow>
          (\<exists>e. deleteFromClusters env fr s0 = ((False, Some e), s1) \<and>
               ensureDeletion env fr s =
                 (StatusError, emit (EvHandleError (Wrap e ''failed to delete'')) s1)) \<and>
          filter is_Update (emitted s (snd (ensureDeletion env fr s))) = [])
     \<and> (\<forall>qualifiedName t.
          isSynced env t = (True, t) \<and>
          GetFederatedResource env qualifiedName (world t) = (Some fr, False, None) \<and>
          DeletionTimestamp (Object fr) \<noteq> None \<and> s = emit (EvFederatedResource qualifiedName) t \<longrightarrow>
          reconcile env qualifiedName t = ensureDeletion env fr s \<and>
          filter is_Update (emitted t (snd (reconcile env qualifiedName t))) =
            filter is_Update (emitted s (snd (ensureDeletion env fr s))))"
proof -
  note ed = ensureDeletion_cascading(1) [OF fin casc s0]
  note up = ensureDeletion_cascading_updates [OF fin casc s0]
  note cl = h [unfolded handleDeletionInClusters_closed [OF g] Let_def fold_deleteFromClusters_deletionFunc,
      folded copies, simplified, folded calls]
  have ops: "filter is_operation calls = calls"
    unfolding calls by (induction copies) (auto simp: cascade_operation_def)
  have 1: "remaining = map fst (filter (\<lambda>(n, obj). cascade_tracked env fr obj) copies)"
    using cl by auto
  have 2: "EvWait UnmanagedDispatcher calls \<in> set (emitted s0 s1)"
    using cl by (auto simp: emitted_def)
  have 3: "r = (True, None) \<longleftrightarrow>
          WaitTimeout env UnmanagedDispatcher calls (world s0) = None \<and>
          retrievalFailures env (QualifiedName_String (TargetName fr)) (world s0) clusters = [] \<and>
          (\<forall>c\<in>set clusters. IsClusterReady c) \<and>
          (\<forall>call\<in>set calls. OperationOutcome env UnmanagedDispatcher call (world s0))"
    using cl by (auto simp: ops list_all_iff unreadyNames_empty [symmetric] split: option.splits if_splits)
  have nu: "filter is_Update (emitted s0 s1) = []"
    using handleDeletionInClusters_events [OF h] by (auto simp: emitted_def)
  have 4: "deleteFromClusters env fr s0 = ((True, None), s1) \<and>
          ensureDeletion env fr s = (StatusNeedsRecheck, s1) \<and>
          filter is_Update (emitted s (snd (ensureDeletion env fr s))) = []"
    if "r = (True, None)" "remaining \<noteq> []"
  proof -
    have d: "deleteFromClusters env fr s0 = ((True, None), s1)"
      using h that by (simp add: deleteFromClusters_def)
    have "filter is_Update (emitted s (snd (ensureDeletion env fr s))) = []"
      unfolding up d using nu by simp
    then show ?thesis using d by (simp add: ed ensureDeletion_cascade_closed)
  qed
  have 5: "(\<exists>e. deleteFromClusters env fr s0 = ((False, Some e), s1) \<and>
               ensureDeletion env fr s =
                 (StatusError, emit (EvHandleError (Wrap e ''failed to delete'')) s1)) \<and>
          filter is_Update (emitted s (snd (ensureDeletion env fr s))) = []"
    if "r \<noteq> (True, None)"
  proof -
    have "\<exists>e. deleteFromClusters env fr s0 = ((False, Some e), s1)"
      using h that by (cases r) (auto simp: deleteFromClusters_def)
    then obtain e where d: "deleteFromClusters env fr s0 = ((False, Some e), s1)"
      by blast
    have "filter is_Update (emitted s (snd (ensureDeletion env fr s))) = []"
      unfolding up d using nu by simp
    then show ?thesis using d by (simp add: ed ensureDeletion_cascade_def)
  qed
  have 6: "reconcile env qualifiedName t = ensureDeletion env fr s \<and>
          filter is_Update (emitted t (snd (reconcile env qualifiedName t))) =
            filter is_Update (emitted s (snd (ensureDeletion env fr s)))"
    if "isSynced env t = (True, t)" "GetFederatedResource env qualifiedName (world t) = (Some fr, False, None)"
      "DeletionTimestamp (Object fr) \<noteq> None" "s = emit (EvFederatedResource qualifiedName) t"
    for qualifiedName t
    using reconcile_terminating [OF that] by simp
  show ?thesis
    apply (intro conjI allI impI)
    subgoal by (rule 1)
    subgoal by (rule 2)
    subgoal by (rule 3)
    subgoal using 4 by blast
    subgoal using 4 by blast
    subgoal using 4 by blast
    subgoal using 5 by blast
    subgoal using 5 by blast
    subgoal using 6 by blast
    subgoal using 6 by blast
    done
qed

theorem cascade_remaining_witness:
  "ensureDeletion heldEnv (exampleResource terminatingObject) \<lparr>world = 0, events = []\<rparr> =
     (StatusNeedsRecheck,
      \<lparr>world = 0, events = [EvDeleteVersions, EvWait UnmanagedDispatcher [Delete ''a'']]\<rparr>)
   \<and> filter is_Update (emitted \<lparr>world = 0, events = []\<rparr>
         (snd (ensureDeletion heldEnv (exampleResource terminatingObject) \<lparr>world = 0, events = []\<rparr>))) = []
   \<and> fst (ensureDeletion failingEnv (exampleResource terminatingObject) \<lparr>world = 0, events = []\<rparr>) = StatusError
   \<and> filter is_Update (emitted \<lparr>world = 0, events = []\<rparr>
         (snd (ensureDeletion failingEnv (exampleResource terminatingObject) \<lparr>world = 0, events = []\<rparr>))) = []"
proof -
  let ?fr = "exampleResource terminatingObject"
  let ?s = "\<lparr>world = 0::nat, events = []\<rparr>"
  let ?t = "\<lparr>world = 0::nat, events = [EvDeleteVersions]\<rparr>"
  let ?s1 = "\<lparr>world = 0::nat, events = [EvDeleteVersions, EvWait UnmanagedDispatcher [Delete ''a'']]\<rparr>"
  have fin: "FinalizerSyncController \<in> Finalizers (Object ?fr)"
    by (simp add: exampleResource_def terminatingObject_def exampleObject_def)
  have casc: "\<not> orphanResources (Object ?fr)"
    by (simp add: exampleResource_def terminatingObject_def exampleObject_def orphanResources_def)
  have s0: "?t = (emit EvDeleteVersions ?s)\<lparr>world := DeleteVersions heldEnv ?fr (world ?s)\<rparr>"
    by (simp add: heldEnv_def exampleEnv_def emit_def)
  have g: "GetClusters heldEnv (world ?t) = Inr [\<lparr>ClusterName = ''a'', IsClusterReady = True\<rparr>]"
    by (simp add: heldEnv_def exampleEnv_def)
  have copies: "[(''a'', exampleCopy None)] =
      cachedCopies heldEnv (QualifiedName_String (TargetName ?fr)) (world ?t)
        [\<lparr>ClusterName = ''a'', IsClusterReady = True\<rparr>]"
    by (simp add: heldEnv_def exampleEnv_def cachedCopies_def)
  have calls: "[Delete ''a''] =
      concat (map (\<lambda>(n, obj). cascade_operation heldEnv ?fr n obj) [(''a'', exampleCopy None)])"
    by (simp add: heldEnv_def exampleEnv_def cascade_operation_def cascade_tracked_def exampleCopy_def)
  have h: "handleDeletionInClusters heldEnv (TargetKind ?fr) (TargetName ?fr)
      (deleteFromClusters_deletionFunc heldEnv ?fr) [] ?t = ((True, None), [''a''], ?s1)"
    by (simp add: heldEnv_def exampleEnv_def exampleResource_def exampleCopy_def QualifiedName_String_def
        Wait_def emit_def Let_def handleDeletionInClusters_def handleDeletionInCluster_def
        deleteFromClusters_deletionFunc_def)
  have s0': "?t = (emit EvDeleteVersions ?s)\<lparr>world := DeleteVersions failingEnv ?fr (world ?s)\<rparr>"
    by (simp add: failingEnv_def heldEnv_def exampleEnv_def emit_def)
  have g': "GetClusters failingEnv (world ?t) = Inr [\<lparr>ClusterName = ''a'', IsClusterReady = True\<rparr>]"
    by (simp add: failingEnv_def heldEnv_def exampleEnv_def)
  have copies': "[(''a'', exampleCopy None)] =
      cachedCopies failingEnv (QualifiedName_String (TargetName ?fr)) (world ?t)
        [\<lparr>ClusterName = ''a'', IsClusterReady = True\<rparr>]"
    by (simp add: failingEnv_def heldEnv_def exampleEnv_def cachedCopies_def)
  have calls': "[Delete ''a''] =
      concat (map (\<lambda>(n, obj). cascade_operation failingEnv ?fr n obj) [(''a'', exampleCopy None)])"
    by (simp add: failingEnv_def heldEnv_def exampleEnv_def cascade_operation_def cascade_tracked_def exampleCopy_def)
  have h': "handleDeletionInClusters failingEnv (TargetKind ?fr) (TargetName ?fr)
      (deleteFromClusters_deletionFunc failingEnv ?fr) [] ?t = ((False, None), [''a''], ?s1)"
    by (simp add: failingEnv_def heldEnv_def exampleEnv_def exampleResource_def exampleCopy_def QualifiedName_String_def
        Wait_def emit_def Let_def handleDeletionInClusters_def handleDeletionInCluster_def
        deleteFromClusters_deletionFunc_def)
  have 1: "ensureDeletion heldEnv ?fr ?s = (StatusNeedsRecheck, ?s1) \<and>
      filter is_Update (emitted ?s (snd (ensureDeletion heldEnv ?fr ?s))) = []"
    using cascade_remaining [OF fin casc s0 g copies calls h, THEN conjunct2, THEN conjunct2, THEN conjunct2,
        THEN conjunct1] by simp
  have 2: "(\<exists>e. deleteFromClusters failingEnv ?fr ?t = ((False, Some e), ?s1) \<and>
               ensureDeletion failingEnv ?fr ?s =
                 (StatusError, emit (EvHandleError (Wrap e ''failed to delete'')) ?s1)) \<and>
      filter is_Update (emitted ?s (snd (ensureDeletion failingEnv ?fr ?s))) = []"
    using cascade_remaining [OF fin casc s0' g' copies' calls' h', THEN conjunct2, THEN conjunct2, THEN conjunct2,
        THEN conjunct2, THEN conjunct1] by simp
  show ?thesis using 1 2 by auto
qed

subsection \<open>The orphan path\<close>

lemma labelRemovals_operations: "filter is_operation (labelRemovals copies) = labelRemovals copies"
  by (induction copies) (auto simp: labelRemovals_def)

lemma removeManagedLabel_events:
  assumes "removeManagedLabel env kind qn s1 = (r, s2)"
  shows "\<exists>es. events s2 = events s1 @ es \<and> filter is_Update es = [] \<and>
     (r \<noteq> None \<or> es \<noteq> []) \<and>
     (\<forall>clusters. GetClusters env (world s1) = Inr clusters \<longrightarrow>
        operations es = labelRemovals (cachedCopies env (QualifiedName_String qn) (world s1) clusters))"
proof (cases "GetClusters env (world s1)")
  case (Inl e)
  then show ?thesis using assms
    by (auto simp: removeManagedLabel_def handleDeletionInClusters_def)
next
  case (Inr clusters)
  show ?thesis using assms Inr
    by (auto simp: removeManagedLabel_closed [OF Inr] Let_def labelRemovals_operations)
qed

lemma removeManagedLabel_None:
  assumes g: "GetClusters env (world s1) = Inr clusters"
  shows "fst (removeManagedLabel env kind qn s1) = None \<longleftrightarrow>
     WaitTimeout env UnmanagedDispatcher
       (labelRemovals (cachedCopies env (QualifiedName_String qn) (world s1) clusters)) (world s1) = None \<and>
     retrievalFailures env (QualifiedName_String qn) (world s1) clusters = [] \<and>
     (\<forall>c\<in>set clusters. IsClusterReady c) \<and>
     (\<forall>call\<in>set (labelRemovals (cachedCopies env (QualifiedName_String qn) (world s1) clusters)).
         OperationOutcome env UnmanagedDispatcher call (world s1))"
  by (auto simp add: removeManagedLabel_closed [OF g] Let_def labelRemovals_operations list_all_iff
      unreadyNames_empty [symmetric] split: option.splits)

lemma removeManagedLabel_join:
  assumes g: "GetClusters env (world s1) = Inr clusters"
  shows "\<exists>es. events (snd (removeManagedLabel env kind qn s1)) =
           events s1 @ es @
             [EvWait UnmanagedDispatcher
                (labelRemovals (cachedCopies env (QualifiedName_String qn) (world s1) clusters))]"
  by (simp add: removeManagedLabel_closed [OF g] Let_def)

lemma removeManagedLabel_no_clusters:
  assumes g: "GetClusters env (world s1) = Inl e"
  shows "removeManagedLabel env kind qn s1 = (Some (Wrap e ''failed to get a list of clusters''), s1)"
  using g by (simp add: removeManagedLabel_def handleDeletionInClusters_def)

text \<open>
  The claim as stated fails twice. With a cluster that is not ready, the orphan path
  removes the finalizer and then returns StatusError, not StatusAllOK, because the label
  removal reports the unready cluster. And a ready cluster whose cached copy is itself
  being deleted gets no RemoveManagedLabel.
\<close>

theorem orphan_path_counterexample:
  "orphanResources orphanedObject \<and> FinalizerSyncController \<in> Finalizers orphanedObject
   \<and> ensureDeletion unreadyEnv (exampleResource orphanedObject) \<lparr>world = 0, events = []\<rparr> =
       (StatusError,
        \<lparr>world = Suc 0,
         events = [EvDeleteVersions, EvUpdate (orphanedObject\<lparr>Finalizers := {}\<rparr>),
                   EvWait UnmanagedDispatcher [RemoveManagedLabel ''a'' (exampleCopy None)],
                   EvHandleError (Wrap (Errorf ''the following clusters were not ready'' [''c''])
                                    ''failed to remove the label'')]\<rparr>)
   \<and> ensureDeletion terminatingCopyEnv (exampleResource orphanedObject) \<lparr>world = 0, events = []\<rparr> =
       (StatusAllOK,
        \<lparr>world = Suc 0,
         events = [EvDeleteVersions, EvUpdate (orphanedObject\<lparr>Finalizers := {}\<rparr>),
                   EvWait UnmanagedDispatcher []]\<rparr>)"
  by (simp add: unreadyEnv_def terminatingCopyEnv_def exampleEnv_def exampleResource_def orphanedObject_def
      terminatingObject_def exampleObject_def exampleCopy_def QualifiedName_String_def Wait_def emit_def Let_def
      handleDeletionInClusters_def handleDeletionInCluster_def removeManagedLabel_def
      removeManagedLabel_deletionFunc_def ensureDeletion_def ensureDeletion_orphan_def orphanResources_def
      removeFinalizer_def RemoveFinalizers_def)

text \<open>
  C3, as amended: on the orphan path (the resource carries the finalizer and the orphan
  annotation is true) ensureDeletion removes the finalizer first. When that fails (the
  metadata cannot be accessed, or the write of the resource fails) it returns
  StatusError and dispatches nothing. When the write succeeds, it then records a
  RemoveManagedLabel for every ready cluster whose cached copy is not itself being
  deleted and joins the dispatcher; no check of the clusters is asked for. It returns
  StatusAllOK exactly when the join does not time out, no cache lookup of a ready
  cluster fails, every cluster of the list is ready and every recorded label removal
  succeeds; otherwise, and when the cluster list cannot be retrieved, it hands the
  error to the error handler and returns StatusError. The write that removed the
  finalizer is already made, and nothing writes the resource again.
\<close>

theorem orphan_path:
  fixes env :: "'w env"
  assumes fin: "FinalizerSyncController \<in> Finalizers (Object fr)"
    and orph: "orphanResources (Object fr)"
    and s0: "s0 = (emit EvDeleteVersions s)\<lparr>world := DeleteVersions env fr (world s)\<rparr>"
    and obj': "obj' = (Object fr)\<lparr>Finalizers := Finalizers (Object fr) - {FinalizerSyncController}\<rparr>"
  shows "(MetaAccessor env (Object fr) \<noteq> None \<longrightarrow>
            fst (ensureDeletion env fr s) = StatusError \<and>
            operations (emitted s (snd (ensureDeletion env fr s))) = [] \<and>
            filter is_Update (emitted s (snd (ensureDeletion env fr s))) = [])
       \<and> (\<forall>e w. MetaAccessor env (Object fr) = None \<and> HostUpdate env obj' (world s0) = (Inl e, w) \<longrightarrow>
            fst (ensureDeletion env fr s) = StatusError \<and>
            emitted s (snd (ensureDeletion env fr s)) =
              [EvDeleteVersions, EvUpdate obj', EvHandleError (Wrap e ''failed to remove finalizer'')])
       \<and> (\<forall>obj'' w s1. MetaAccessor env (Object fr) = None \<and> HostUpdate env obj' (world s0) = (Inr obj'', w) \<and>
            s1 = \<lparr>world = w, events = events s @ [EvDeleteVersions, EvUpdate obj']\<rparr> \<longrightarrow>
            (\<exists>rest. emitted s (snd (ensureDeletion env fr s)) = EvDeleteVersions # EvUpdate obj' # rest \<and>
                    filter is_Update rest = [] \<and>
                    (\<forall>clusters. GetClusters env w = Inr clusters \<longrightarrow>
                       operations rest =
                         labelRemovals (cachedCopies env (QualifiedName_String (TargetName fr)) w clusters)) \<and>
                    (fst (removeManagedLabel env (TargetKind fr) (TargetName fr) s1) \<noteq> None \<longrightarrow>
                       (\<exists>e. last rest = EvHandleError e))) \<and>
            fst (ensureDeletion env fr s) =
              (if fst (removeManagedLabel env (TargetKind fr) (TargetName fr) s1) = None
               then StatusAllOK else StatusError))
       \<and> (\<forall>obj'' w clusters. MetaAccessor env (Object fr) = None \<and>
            HostUpdate env obj' (world s0) = (Inr obj'', w) \<and> GetClusters env w = Inr clusters \<longrightarrow>
            EvWait UnmanagedDispatcher
              (labelRemovals (cachedCopies env (QualifiedName_String (TargetName fr)) w clusters))
              \<in> set (emitted s (snd (ensureDeletion env fr s))) \<and>
            (fst (ensureDeletion env fr s) = StatusAllOK \<longleftrightarrow>
               WaitTimeout env UnmanagedDispatcher
                 (labelRemovals (cachedCopies env (QualifiedName_String (TargetName fr)) w clusters)) w = None \<and>
               retrievalFailures env (QualifiedName_String (TargetName fr)) w clusters = [] \<and>
               (\<forall>c\<in>set clusters. IsClusterReady c) \<and>
               (\<forall>call\<in>set (labelRemovals (cachedCopies env (QualifiedName_String (TargetName fr)) w clusters)).
                   OperationOutcome env UnmanagedDispatcher call w)) \<and>
            (fst (ensureDeletion env fr s) = StatusAllOK \<or> fst (ensureDeletion env fr s) = StatusError))
       \<and> (\<forall>obj'' w e. MetaAccessor env (Object fr) = None \<and>
            HostUpdate env obj' (world s0) = (Inr obj'', w) \<and> GetClusters env w = Inl e \<longrightarrow>
            fst (ensureDeletion env fr s) = StatusError \<and>
            emitted s (snd (ensureDeletion env fr s)) =
              [EvDeleteVersions, EvUpdate obj',
               EvHandleError (Wrap (Wrap e ''failed to get a list of clusters'') ''failed to remove the label'')])"
proof -
  have ed: "ensureDeletion env fr s = ensureDeletion_orphan env fr s0"
    using fin orph s0 by (simp add: ensureDeletion_def Let_def)
  have e0: "events s0 = events s @ [EvDeleteVersions]" using s0 by simp
  have A: "fst (ensureDeletion env fr s) = StatusError \<and>
            operations (emitted s (snd (ensureDeletion env fr s))) = [] \<and>
            filter is_Update (emitted s (snd (ensureDeletion env fr s))) = []"
    if "MetaAccessor env (Object fr) \<noteq> None"
    using that e0
    by (auto simp: ed ensureDeletion_orphan_def removeFinalizer_def RemoveFinalizers_def emitted_def)
  have B: "fst (ensureDeletion env fr s) = StatusError \<and>
            emitted s (snd (ensureDeletion env fr s)) =
              [EvDeleteVersions, EvUpdate obj', EvHandleError (Wrap e ''failed to remove finalizer'')]"
    if "MetaAccessor env (Object fr) = None" "HostUpdate env obj' (world s0) = (Inl e, w)" for e w
    using that e0 fin obj'
    by (simp add: ed ensureDeletion_orphan_def removeFinalizer_present Let_def emitted_def)
  have rf: "removeFinalizer env fr s0 =
      (None, fr\<lparr>Object := obj''\<rparr>, \<lparr>world = w, events = events s @ [EvDeleteVersions, EvUpdate obj']\<rparr>)"
    if "MetaAccessor env (Object fr) = None" "HostUpdate env obj' (world s0) = (Inr obj'', w)" for obj'' w
    using that fin obj' e0 by (simp add: removeFinalizer_present Let_def)
  have C: "(\<exists>rest. emitted s (snd (ensureDeletion env fr s)) = EvDeleteVersions # EvUpdate obj' # rest \<and>
                    filter is_Update rest = [] \<and>
                    (\<forall>clusters. GetClusters env w = Inr clusters \<longrightarrow>
                       operations rest =
                         labelRemovals (cachedCopies env (QualifiedName_String (TargetName fr)) w clusters)) \<and>
                    (fst (removeManagedLabel env (TargetKind fr) (TargetName fr) s1) \<noteq> None \<longrightarrow>
                       (\<exists>e. last rest = EvHandleError e))) \<and>
            fst (ensureDeletion env fr s) =
              (if fst (removeManagedLabel env (TargetKind fr) (TargetName fr) s1) = None
               then StatusAllOK else StatusError)"
    if m: "MetaAccessor env (Object fr) = None" and u: "HostUpdate env obj' (world s0) = (Inr obj'', w)"
      and s1: "s1 = \<lparr>world = w, events = events s @ [EvDeleteVersions, EvUpdate obj']\<rparr>"
    for obj'' w s1
  proof -
    have rf: "removeFinalizer env fr s0 = (None, fr\<lparr>Object := obj''\<rparr>, s1)"
      using rf [OF m u] s1 by simp
    obtain r s2 where l: "removeManagedLabel env (TargetKind fr) (TargetName fr) s1 = (r, s2)" by force
    obtain es where es: "events s2 = events s1 @ es" "filter is_Update es = []" "r \<noteq> None \<or> es \<noteq> []"
      "\<forall>clusters. GetClusters env (world s1) = Inr clusters \<longrightarrow>
        operations es = labelRemovals (cachedCopies env (QualifiedName_String (TargetName fr)) (world s1) clusters)"
      using removeManagedLabel_events [OF l] by blast
    show ?thesis
    proof (cases r)
      case None
      then have "ensureDeletion env fr s = (StatusAllOK, s2)"
        using rf l by (simp add: ed ensureDeletion_orphan_def)
      then show ?thesis using None l es s1 by (simp add: emitted_def)
    next
      case (Some e)
      then have "ensureDeletion env fr s = (StatusError, emit (EvHandleError (Wrap e ''failed to remove the label'')) s2)"
        using rf l by (simp add: ed ensureDeletion_orphan_def)
      then show ?thesis using Some l es s1 by (simp add: emitted_def)
    qed
  qed
  have D: "EvWait UnmanagedDispatcher
              (labelRemovals (cachedCopies env (QualifiedName_String (TargetName fr)) w clusters))
              \<in> set (emitted s (snd (ensureDeletion env fr s))) \<and>
            (fst (ensureDeletion env fr s) = StatusAllOK \<longleftrightarrow>
               WaitTimeout env UnmanagedDispatcher
                 (labelRemovals (cachedCopies env (QualifiedName_String (TargetName fr)) w clusters)) w = None \<and>
               retrievalFailures env (QualifiedName_String (TargetName fr)) w clusters = [] \<and>
               (\<forall>c\<in>set clusters. IsClusterReady c) \<and>
               (\<forall>call\<in>set (labelRemovals (cachedCopies env (QualifiedName_String (TargetName fr)) w clusters)).
                   OperationOutcome env UnmanagedDispatcher call w)) \<and>
            (fst (ensureDeletion env fr s) = StatusAllOK \<or> fst (ensureDeletion env fr s) = StatusError)"
    if m: "MetaAccessor env (Object fr) = None" and u: "HostUpdate env obj' (world s0) = (Inr obj'', w)"
      and g: "GetClusters env w = Inr clusters"
    for obj'' w clusters
  proof -
    let ?s1 = "\<lparr>world = w, events = events s @ [EvDeleteVersions, EvUpdate obj']\<rparr>"
    let ?d = "labelRemovals (cachedCopies env (QualifiedName_String (TargetName fr)) w clusters)"
    have g1: "GetClusters env (world ?s1) = Inr clusters" using g by simp
    note n = removeManagedLabel_None [OF g1, of "TargetKind fr" "TargetName fr"]
    obtain r s2 where l: "removeManagedLabel env (TargetKind fr) (TargetName fr) ?s1 = (r, s2)" by force
    obtain es where es: "events s2 = events ?s1 @ es @ [EvWait UnmanagedDispatcher ?d]"
      using removeManagedLabel_join [OF g1, of "TargetKind fr" "TargetName fr"] l by auto
    have st: "fst (ensureDeletion env fr s) = (if r = None then StatusAllOK else StatusError)"
      using rf [OF m u] l by (cases r) (simp_all add: ed ensureDeletion_orphan_def)
    have "\<exists>tl. events (snd (ensureDeletion env fr s)) =
        events s @ ([EvDeleteVersions, EvUpdate obj'] @ es @ [EvWait UnmanagedDispatcher ?d] @ tl)"
      using rf [OF m u] l es by (cases r) (simp_all add: ed ensureDeletion_orphan_def)
    then obtain tl where "events (snd (ensureDeletion env fr s)) =
        events s @ ([EvDeleteVersions, EvUpdate obj'] @ es @ [EvWait UnmanagedDispatcher ?d] @ tl)"
      by blast
    then have "emitted s (snd (ensureDeletion env fr s)) =
        [EvDeleteVersions, EvUpdate obj'] @ es @ [EvWait UnmanagedDispatcher ?d] @ tl"
      by (rule emitted_append)
    then have w: "EvWait UnmanagedDispatcher ?d \<in> set (emitted s (snd (ensureDeletion env fr s)))"
      by simp
    have "r = None \<longleftrightarrow> fst (removeManagedLabel env (TargetKind fr) (TargetName fr) ?s1) = None"
      using l by simp
    then show ?thesis using w st n by simp
  qed
  have E: "fst (ensureDeletion env fr s) = StatusError \<and>
            emitted s (snd (ensureDeletion env fr s)) =
              [EvDeleteVersions, EvUpdate obj',
               EvHandleError (Wrap (Wrap e ''failed to get a list of clusters'') ''failed to remove the label'')]"
    if m: "MetaAccessor env (Object fr) = None" and u: "HostUpdate env obj' (world s0) = (Inr obj'', w)"
      and g: "GetClusters env w = Inl e"
    for obj'' w e
  proof -
    let ?s1 = "\<lparr>world = w, events = events s @ [EvDeleteVersions, EvUpdate obj']\<rparr>"
    have g1: "GetClusters env (world ?s1) = Inl e" using g by simp
    have "ensureDeletion env fr s =
        (StatusError, emit (EvHandleError (Wrap (Wrap e ''failed to get a list of clusters'') ''failed to remove the label'')) ?s1)"
      using rf [OF m u] removeManagedLabel_no_clusters [OF g1, of "TargetKind fr" "TargetName fr"]
      by (simp add: ed ensureDeletion_orphan_def)
    then show ?thesis by (simp add: emitted_def)
  qed
  show ?thesis
    apply (intro conjI allI impI)
    subgoal using A by blast
    subgoal using A by blast
    subgoal using A by blast
    subgoal using B by blast
    subgoal using B by blast
    subgoal using C by blast
    subgoal using C by blast
    subgoal using D by blast
    subgoal using D by blast
    subgoal using D by blast
    subgoal using E by blast
    subgoal using E by blast
    done
qed

theorem orphan_path_witness:
  "fst (ensureDeletion heldEnv (exampleResource orphanedObject) \<lparr>world = 0, events = []\<rparr>) = StatusAllOK
   \<and> EvWait UnmanagedDispatcher [RemoveManagedLabel ''a'' (exampleCopy None)]
        \<in> set (emitted \<lparr>world = 0, events = []\<rparr>
             (snd (ensureDeletion heldEnv (exampleResource orphanedObject) \<lparr>world = 0, events = []\<rparr>)))
   \<and> fst (ensureDeletion failingEnv (exampleResource orphanedObject) \<lparr>world = 0, events = []\<rparr>) = StatusError
   \<and> EvWait UnmanagedDispatcher [RemoveManagedLabel ''a'' (exampleCopy None)]
        \<in> set (emitted \<lparr>world = 0, events = []\<rparr>
             (snd (ensureDeletion failingEnv (exampleResource orphanedObject) \<lparr>world = 0, events = []\<rparr>)))"
proof -
  let ?fr = "exampleResource orphanedObject"
  let ?s = "\<lparr>world = 0::nat, events = []\<rparr>"
  let ?t = "\<lparr>world = 0::nat, events = [EvDeleteVersions]\<rparr>"
  let ?obj' = "orphanedObject\<lparr>Finalizers := {}\<rparr>"
  let ?cs = "[\<lparr>ClusterName = ''a'', IsClusterReady = True\<rparr>]"
  let ?d = "[RemoveManagedLabel ''a'' (exampleCopy None)]"
  have fin: "FinalizerSyncController \<in> Finalizers (Object ?fr)"
    by (simp add: exampleResource_def orphanedObject_def terminatingObject_def exampleObject_def)
  have orph: "orphanResources (Object ?fr)"
    by (simp add: exampleResource_def orphanedObject_def orphanResources_def)
  have obj': "?obj' = (Object ?fr)\<lparr>Finalizers := Finalizers (Object ?fr) - {FinalizerSyncController}\<rparr>"
    by (simp add: exampleResource_def orphanedObject_def terminatingObject_def exampleObject_def)
  have s0: "?t = (emit EvDeleteVersions ?s)\<lparr>world := DeleteVersions heldEnv ?fr (world ?s)\<rparr>"
    "?t = (emit EvDeleteVersions ?s)\<lparr>world := DeleteVersions failingEnv ?fr (world ?s)\<rparr>"
    by (simp_all add: failingEnv_def heldEnv_def exampleEnv_def emit_def)
  have m: "MetaAccessor heldEnv (Object ?fr) = None" "MetaAccessor failingEnv (Object ?fr) = None"
    by (simp_all add: failingEnv_def heldEnv_def exampleEnv_def)
  have u: "HostUpdate heldEnv ?obj' (world ?t) = (Inr ?obj', Suc 0)"
    "HostUpdate failingEnv ?obj' (world ?t) = (Inr ?obj', Suc 0)"
    by (simp_all add: failingEnv_def heldEnv_def exampleEnv_def)
  have g: "GetClusters heldEnv (Suc 0) = Inr ?cs" "GetClusters failingEnv (Suc 0) = Inr ?cs"
    by (simp_all add: failingEnv_def heldEnv_def exampleEnv_def)
  have d: "labelRemovals (cachedCopies heldEnv (QualifiedName_String (TargetName ?fr)) (Suc 0) ?cs) = ?d"
    "labelRemovals (cachedCopies failingEnv (QualifiedName_String (TargetName ?fr)) (Suc 0) ?cs) = ?d"
    by (simp_all add: failingEnv_def heldEnv_def exampleEnv_def cachedCopies_def labelRemovals_def exampleCopy_def)
  have good: "WaitTimeout heldEnv UnmanagedDispatcher ?d (Suc 0) = None"
    "retrievalFailures heldEnv (QualifiedName_String (TargetName ?fr)) (Suc 0) ?cs = []"
    "\<forall>c\<in>set ?cs. IsClusterReady c"
    "\<forall>call\<in>set ?d. OperationOutcome heldEnv UnmanagedDispatcher call (Suc 0)"
    by (simp_all add: heldEnv_def exampleEnv_def retrievalFailures_def)
  have bad: "\<not> (\<forall>call\<in>set ?d. OperationOutcome failingEnv UnmanagedDispatcher call (Suc 0))"
    by (simp add: failingEnv_def)
  note 1 = orphan_path [OF fin orph s0(1) obj', THEN conjunct2, THEN conjunct2, THEN conjunct2, THEN conjunct1,
      rule_format, of ?obj' "Suc 0" ?cs, unfolded d(1)]
  note 2 = orphan_path [OF fin orph s0(2) obj', THEN conjunct2, THEN conjunct2, THEN conjunct2, THEN conjunct1,
      rule_format, of ?obj' "Suc 0" ?cs, unfolded d(2)]
  show ?thesis
    using 1 2 m u g good bad by blast
qed

subsection \<open>The orphan annotation\<close>

lemma orphanResources_iff:
  "orphanResources obj \<longleftrightarrow>
     (\<exists>annotations. Annotations obj = Some annotations \<and> annotations ''kubefed.k8s.io/orphan'' = Some ''true'')"
  by (simp add: orphanResources_def OrphanManagedResources_def split: option.splits)


text \<open>
  C10: for a resource that carries the finalizer, ensureDeletion takes the orphan block
  if and only if the annotations map exists and binds the key kubefed.k8s.io/orphan to
  exactly the string "true"; a missing map, a missing key, or any other value ("True",
  "1", the empty string) takes the cascading block. reconcile hands a resolved resource
  with a deletion timestamp to ensureDeletion directly.
\<close>

theorem orphan_annotation_routes:
  assumes fin: "FinalizerSyncController \<in> Finalizers (Object fr)"
    and s0: "s0 = (emit EvDeleteVersions s)\<lparr>world := DeleteVersions env fr (world s)\<rparr>"
  shows "ensureDeletion env fr s =
           (if (\<exists>annotations. Annotations (Object fr) = Some annotations \<and>
                  annotations ''kubefed.k8s.io/orphan'' = Some ''true'')
            then ensureDeletion_orphan env fr s0
            else ensureDeletion_cascade env fr s0)
       \<and> (Annotations (Object fr) = None \<longrightarrow> ensureDeletion env fr s = ensureDeletion_cascade env fr s0)
       \<and> (\<forall>annotations. Annotations (Object fr) = Some annotations \<and>
              annotations ''kubefed.k8s.io/orphan'' \<in> {None, Some ''True'', Some ''1'', Some ''''} \<longrightarrow>
              ensureDeletion env fr s = ensureDeletion_cascade env fr s0)
       \<and> (\<forall>qualifiedName. isSynced env s = (True, s) \<and>
              GetFederatedResource env qualifiedName (world s) = (Some fr, False, None) \<and>
              DeletionTimestamp (Object fr) \<noteq> None \<longrightarrow>
              reconcile env qualifiedName s = ensureDeletion env fr (emit (EvFederatedResource qualifiedName) s))"
proof -
  have 1: "ensureDeletion env fr s =
           (if (\<exists>annotations. Annotations (Object fr) = Some annotations \<and>
                  annotations ''kubefed.k8s.io/orphan'' = Some ''true'')
            then ensureDeletion_orphan env fr s0
            else ensureDeletion_cascade env fr s0)"
    unfolding orphanResources_iff [symmetric]
    using fin s0 by (simp add: ensureDeletion_def Let_def)
  have 2: "reconcile env qualifiedName s = ensureDeletion env fr (emit (EvFederatedResource qualifiedName) s)"
    if "isSynced env s = (True, s)" "GetFederatedResource env qualifiedName (world s) = (Some fr, False, None)"
      "DeletionTimestamp (Object fr) \<noteq> None" for qualifiedName
    using that by (simp add: reconcile_def Let_def)
  show ?thesis using 1 2 by auto
qed

theorem orphan_annotation_routes_witness:
  "ensureDeletion heldEnv (exampleResource orphanedObject) \<lparr>world = 0, events = []\<rparr> =
     ensureDeletion_orphan heldEnv (exampleResource orphanedObject) \<lparr>world = 0, events = [EvDeleteVersions]\<rparr>
   \<and> ensureDeletion heldEnv (exampleResource terminatingObject) \<lparr>world = 0, events = []\<rparr> =
     ensureDeletion_cascade heldEnv (exampleResource terminatingObject) \<lparr>world = 0, events = [EvDeleteVersions]\<rparr>
   \<and> ensureDeletion heldEnv
        (exampleResource (terminatingObject\<lparr>Annotations := Some [OrphanManagedResources \<mapsto> ''True'']\<rparr>))
        \<lparr>world = 0, events = []\<rparr> =
     ensureDeletion_cascade heldEnv
        (exampleResource (terminatingObject\<lparr>Annotations := Some [OrphanManagedResources \<mapsto> ''True'']\<rparr>))
        \<lparr>world = 0, events = [EvDeleteVersions]\<rparr>"
proof -
  let ?s = "\<lparr>world = 0::nat, events = []\<rparr>"
  let ?t = "\<lparr>world = 0::nat, events = [EvDeleteVersions]\<rparr>"
  let ?upper = "terminatingObject\<lparr>Annotations := Some [OrphanManagedResources \<mapsto> ''True'']\<rparr>"
  have fin: "FinalizerSyncController \<in> Finalizers (Object (exampleResource obj))"
    if "Finalizers obj = {FinalizerSyncController}" for obj
    using that by (simp add: exampleResource_def)
  have f: "Finalizers orphanedObject = {FinalizerSyncController}"
    "Finalizers terminatingObject = {FinalizerSyncController}"
    "Finalizers ?upper = {FinalizerSyncController}"
    by (simp_all add: orphanedObject_def terminatingObject_def exampleObject_def)
  have t: "?t = (emit EvDeleteVersions ?s)\<lparr>world := DeleteVersions heldEnv fr (world ?s)\<rparr>" for fr
    by (simp add: heldEnv_def exampleEnv_def emit_def)
  have a: "\<exists>annotations. Annotations (Object (exampleResource orphanedObject)) = Some annotations \<and>
      annotations ''kubefed.k8s.io/orphan'' = Some ''true''"
    by (simp add: exampleResource_def orphanedObject_def OrphanManagedResources_def)
  have b: "Annotations (Object (exampleResource terminatingObject)) = None"
    by (simp add: exampleResource_def terminatingObject_def exampleObject_def)
  have c: "Annotations (Object (exampleResource ?upper)) = Some [OrphanManagedResources \<mapsto> ''True''] \<and>
      [OrphanManagedResources \<mapsto> ''True''] ''kubefed.k8s.io/orphan'' \<in> {None, Some ''True'', Some ''1'', Some ''''}"
    by (simp add: exampleResource_def OrphanManagedResources_def)
  show ?thesis
    using orphan_annotation_routes [OF fin [OF f(1)] t, THEN conjunct1] a
      orphan_annotation_routes [OF fin [OF f(2)] t, THEN conjunct2, THEN conjunct1] b
      orphan_annotation_routes [OF fin [OF f(3)] t, THEN conjunct2, THEN conjunct2, THEN conjunct1] c
    by (simp only: if_True) blast
qed

subsection \<open>Possible orphans and absent resources\<close>





subsection \<open>Version and status bookkeeping after the join\<close>

lemma statusCycle_reason:
  "statusCycle env reason sm (obj, s) = (r, obj', s') \<Longrightarrow>
     EvSetPropagationStatus ob r' m \<in> set (events s') \<Longrightarrow>
     EvSetPropagationStatus ob r' m \<in> set (events s) \<or> (r' = reason \<and> m = sm)"
  by (auto simp: statusCycle_def Let_def split: sum.splits prod.splits if_splits)

lemma poll_reason:
  "poll n (statusCycle env reason sm) (obj, s) = (r, obj', s') \<Longrightarrow>
     EvSetPropagationStatus ob r' m \<in> set (events s') \<Longrightarrow>
     EvSetPropagationStatus ob r' m \<in> set (events s) \<or> (r' = reason \<and> m = sm)"
proof (induction n arbitrary: obj s)
  case 0
  then show ?case by simp
next
  case (Suc n)
  obtain res obj1 s1 where c: "statusCycle env reason sm (obj, s) = (res, obj1, s1)"
    by (metis prod_cases3)
  show ?case
  proof (cases "res = (False, None)")
    case True
    then have "poll n (statusCycle env reason sm) (obj1, s1) = (r, obj', s')"
      using Suc.prems c by simp
    from Suc.IH [OF this Suc.prems(2)] statusCycle_reason [OF c] show ?thesis by blast
  next
    case False
    then have "s' = s1" using Suc.prems c by (cases res) (auto split: option.splits if_splits)
    then show ?thesis using statusCycle_reason [OF c] Suc.prems(2) by blast
  qed
qed

lemma setPropagationStatus_reason:
  assumes "EvSetPropagationStatus ob r' m \<in> set (events (snd (setPropagationStatus env fr reason sm s)))"
  shows "EvSetPropagationStatus ob r' m \<in> set (events s) \<or> (r' = reason \<and> m = sm)"
proof -
  obtain r obj' s' where p: "poll (Suc (PollTicks env 1 5)) (statusCycle env reason sm) (Object fr, s) = (r, obj', s')"
    by (metis prod_cases3)
  have "EvSetPropagationStatus ob r' m \<in> set (events s')"
    using assms p
    by (auto simp: setPropagationStatus_def PollImmediate_def simp del: poll.simps split: option.splits)
  then show ?thesis using poll_reason [OF p] by blast
qed

text \<open>setPropagationStatus reads only the host client, the merge and the poll window.\<close>

lemma setPropagationStatus_cong:
  assumes "HostUpdateStatus env' = HostUpdateStatus env" "HostGet env' = HostGet env"
    "SetPropagationStatus env' = SetPropagationStatus env" "PollTicks env' = PollTicks env"
  shows "setPropagationStatus env' fr reason sm s = setPropagationStatus env fr reason sm s"
proof -
  have "statusCycle env' reason sm = statusCycle env reason sm"
    unfolding statusCycle_def assms by (rule refl)
  then show ?thesis
    by (simp add: setPropagationStatus_def PollImmediate_def assms del: poll.simps)
qed

lemma syncToCluster_cong:
  assumes "GetByKey env' = GetByKey env" "IsNamespaceInHostCluster env' = IsNamespaceInHostCluster env"
  shows "syncToCluster env' = syncToCluster env"
  unfolding syncToCluster_def assms by (rule refl)

lemma syncDecision_cong:
  assumes "GetByKey env' = GetByKey env" "IsNamespaceInHostCluster env' = IsNamespaceInHostCluster env"
  shows "syncDecision env' = syncDecision env"
  unfolding syncDecision_def assms by (rule refl)

lemma syncToClusters_tail:
  assumes g: "GetClusters env (world s) = Inr clusters"
    and p: "ComputePlacement env fr clusters (world s) = Inr selected"
    and d: "d = concat (map (syncDecision env fr (QualifiedName_String (TargetName fr)) selected (world s)) clusters)"
    and w3: "w3 = WaitWorld env ManagedDispatcher d (world s)"
    and vm: "vm = DispatcherVersionMap env d w3"
  shows "syncToClusters env fr s =
     setPropagationStatus env fr AggregateSuccess
       (Some (DispatcherStatusMap env d (snd (UpdateVersions env fr selected vm w3))))
       \<lparr>world = snd (UpdateVersions env fr selected vm w3),
        events = events s @ [EvComputePlacement clusters, EvWait ManagedDispatcher d] @
          (case WaitTimeout env ManagedDispatcher d (world s) of
             Some e \<Rightarrow> [EvRecordError (ReasonText ''OperationTimeoutError'') e]
           | None \<Rightarrow> []) @
          [EvUpdateVersions selected vm] @
          (case fst (UpdateVersions env fr selected vm w3) of
             Some e \<Rightarrow> [EvHandleError e]
           | None \<Rightarrow> [])\<rparr>"
  using g p
  by (cases s)
    (simp add: syncToClusters_def Let_def fold_syncToCluster d w3 vm Wait_def emit_def
      split: option.splits prod.splits)

text \<open>
  C6: once the cluster list and the placement are available, syncToClusters joins the
  dispatcher, hands the dispatcher's version map to the version bookkeeping, and then
  always reaches the status aggregation: the resource's object is merged with the
  dispatcher's per-cluster status map, read after the version write, under reason
  AggregateSuccess, and no merge is made under any other reason or with any other map.
  The returned status is that of the status write alone: it does not depend on whether
  the write of the version map fails, on the outcome of any dispatched operation, or on
  a timeout of the join (changing these, the version write keeping its effect on the
  world, leaves the returned status as it is). A timeout is recorded on the resource as
  OperationTimeoutError, and a failed version write is handed to the error handler, and
  that is all that happens to them.
\<close>

theorem sync_bookkeeping_is_advisory:
  fixes env :: "'w env"
  assumes g: "GetClusters env (world s) = Inr clusters"
    and p: "ComputePlacement env fr clusters (world s) = Inr selected"
    and d: "d = concat (map (syncDecision env fr (QualifiedName_String (TargetName fr)) selected (world s)) clusters)"
    and w3: "w3 = WaitWorld env ManagedDispatcher d (world s)"
    and vm: "vm = DispatcherVersionMap env d w3"
    and sm: "sm = DispatcherStatusMap env d (snd (UpdateVersions env fr selected vm w3))"
  shows "(\<exists>es. emitted s (snd (syncToClusters env fr s)) =
            [EvComputePlacement clusters, EvWait ManagedDispatcher d] @
            (case WaitTimeout env ManagedDispatcher d (world s) of
               Some e \<Rightarrow> [EvRecordError (ReasonText ''OperationTimeoutError'') e]
             | None \<Rightarrow> []) @
            [EvUpdateVersions selected vm] @
            (case fst (UpdateVersions env fr selected vm w3) of
               Some e \<Rightarrow> [EvHandleError e]
             | None \<Rightarrow> []) @
            EvSetPropagationStatus (Object fr) AggregateSuccess (Some sm) # es)
     \<and> EvSetPropagationStatus (Object fr) AggregateSuccess (Some sm)
          \<in> set (emitted s (snd (syncToClusters env fr s)))
     \<and> (\<forall>ob r m. EvSetPropagationStatus ob r m \<in> set (emitted s (snd (syncToClusters env fr s))) \<longrightarrow>
            r = AggregateSuccess \<and> m = Some sm)
     \<and> (\<forall>uv oo wt. (\<forall>f sel v w. snd (uv f sel v w) = snd (UpdateVersions env f sel v w)) \<longrightarrow>
            fst (syncToClusters (env\<lparr>UpdateVersions := uv, OperationOutcome := oo, WaitTimeout := wt\<rparr>) fr s) =
            fst (syncToClusters env fr s))
     \<and> fst (syncToClusters env fr s) =
          fst (setPropagationStatus env fr AggregateSuccess (Some sm)
                 \<lparr>world = snd (UpdateVersions env fr selected vm w3), events = []\<rparr>)
     \<and> (\<forall>e. WaitTimeout env ManagedDispatcher d (world s) = Some e \<longrightarrow>
            EvRecordError (ReasonText ''OperationTimeoutError'') e \<in> set (emitted s (snd (syncToClusters env fr s))))
     \<and> (\<forall>e. fst (UpdateVersions env fr selected vm w3) = Some e \<longrightarrow>
            EvHandleError e \<in> set (emitted s (snd (syncToClusters env fr s))))"
proof -
  let ?sm = "Some sm"
  let ?pre = "[EvComputePlacement clusters, EvWait ManagedDispatcher d] @
          (case WaitTimeout env ManagedDispatcher d (world s) of
             Some e \<Rightarrow> [EvRecordError (ReasonText ''OperationTimeoutError'') e]
           | None \<Rightarrow> []) @
          [EvUpdateVersions selected vm] @
          (case fst (UpdateVersions env fr selected vm w3) of
             Some e \<Rightarrow> [EvHandleError e]
           | None \<Rightarrow> [])"
  let ?t = "\<lparr>world = snd (UpdateVersions env fr selected vm w3), events = events s @ ?pre\<rparr>"
  note tail = syncToClusters_tail [OF g p d w3 vm, folded sm]
  obtain es where es: "emitted ?t (snd (setPropagationStatus env fr AggregateSuccess ?sm ?t)) =
      EvSetPropagationStatus (Object fr) AggregateSuccess ?sm # es"
    using setPropagationStatus_emitted [of ?t env fr AggregateSuccess ?sm] by blast
  obtain es' where es': "events (snd (setPropagationStatus env fr AggregateSuccess ?sm ?t)) = events ?t @ es'"
    using setPropagationStatus_events by blast
  have em': "emitted ?t (snd (setPropagationStatus env fr AggregateSuccess ?sm ?t)) = es'"
    using es' by (rule emitted_append)
  then have es'': "es' = EvSetPropagationStatus (Object fr) AggregateSuccess ?sm # es"
    using es by simp
  have "events (snd (syncToClusters env fr s)) = events s @ (?pre @ es')"
    using es' by (simp add: tail)
  then have "emitted s (snd (syncToClusters env fr s)) = ?pre @ es'"
    by (rule emitted_append)
  then have E: "emitted s (snd (syncToClusters env fr s)) =
      ?pre @ EvSetPropagationStatus (Object fr) AggregateSuccess ?sm # es"
    using es'' by simp
  have 0: "\<exists>es. emitted s (snd (syncToClusters env fr s)) =
      ?pre @ EvSetPropagationStatus (Object fr) AggregateSuccess ?sm # es"
    using E by blast
  have 1: "EvSetPropagationStatus (Object fr) AggregateSuccess ?sm
                 \<in> set (emitted s (snd (syncToClusters env fr s)))"
    unfolding E by simp
  have 2: "r = AggregateSuccess \<and> m = Some sm"
    if "EvSetPropagationStatus ob r m \<in> set (emitted s (snd (syncToClusters env fr s)))" for ob r m
  proof -
    have "EvSetPropagationStatus ob r m \<in> set (?pre @ es')"
      using that unfolding E es'' by simp
    then have "EvSetPropagationStatus ob r m \<in> set es'"
      by (auto split: option.splits)
    moreover have "emitted ?t (snd (setPropagationStatus env fr AggregateSuccess ?sm ?t)) =
        events (snd (setPropagationStatus env fr AggregateSuccess ?sm (?t\<lparr>events := []\<rparr>)))"
      by (rule emitted_via_prepend) (rule setPropagationStatus_prepend)
    ultimately have "EvSetPropagationStatus ob r m \<in> set (events (snd (setPropagationStatus env fr AggregateSuccess ?sm (?t\<lparr>events := []\<rparr>))))"
      using em' by simp
    from setPropagationStatus_reason [OF this] show ?thesis by simp
  qed
  have 3: "fst (syncToClusters (env\<lparr>UpdateVersions := uv, OperationOutcome := oo, WaitTimeout := wt\<rparr>) fr s) =
            fst (syncToClusters env fr s)"
    if uv: "\<forall>f sel v w. snd (uv f sel v w) = snd (UpdateVersions env f sel v w)" for uv oo wt
  proof -
    let ?env' = "env\<lparr>UpdateVersions := uv, OperationOutcome := oo, WaitTimeout := wt\<rparr>"
    have g': "GetClusters ?env' (world s) = Inr clusters" using g by simp
    have p': "ComputePlacement ?env' fr clusters (world s) = Inr selected" using p by simp
    have d': "d = concat (map (syncDecision ?env' fr (QualifiedName_String (TargetName fr)) selected (world s)) clusters)"
    proof -
      have "syncDecision ?env' = syncDecision env"
        by (rule syncDecision_cong) simp_all
      then show ?thesis unfolding d by simp
    qed
    have w3': "w3 = WaitWorld ?env' ManagedDispatcher d (world s)" using w3 by simp
    have vm': "vm = DispatcherVersionMap ?env' d w3" using vm by simp
    note tail' = syncToClusters_tail [OF g' p' d' w3' vm']
    have c: "setPropagationStatus ?env' fr reason m u = setPropagationStatus env fr reason m u" for reason m u
      by (rule setPropagationStatus_cong) simp_all
    have u: "snd (UpdateVersions ?env' fr selected vm w3) = snd (UpdateVersions env fr selected vm w3)"
      using uv by simp
    have m: "DispatcherStatusMap ?env' = DispatcherStatusMap env" by simp
    show ?thesis
      unfolding tail tail' c u m sm
      by (rule setPropagationStatus_world) simp
  qed
  have 4: "EvRecordError (ReasonText ''OperationTimeoutError'') e \<in> set (emitted s (snd (syncToClusters env fr s)))"
    if "WaitTimeout env ManagedDispatcher d (world s) = Some e" for e
    unfolding E using that by simp
  have 5: "EvHandleError e \<in> set (emitted s (snd (syncToClusters env fr s)))"
    if "fst (UpdateVersions env fr selected vm w3) = Some e" for e
    unfolding E using that by simp
  have 6: "fst (syncToClusters env fr s) =
          fst (setPropagationStatus env fr AggregateSuccess (Some sm)
                 \<lparr>world = snd (UpdateVersions env fr selected vm w3), events = []\<rparr>)"
    unfolding tail by (rule setPropagationStatus_world) simp
  show ?thesis
    apply (intro conjI allI impI)
    subgoal using 0 by simp
    subgoal by (rule 1)
    subgoal using 2 by blast
    subgoal using 2 by blast
    subgoal using 3 by blast
    subgoal by (rule 6)
    subgoal using 4 by blast
    subgoal using 5 by blast
    done
qed

theorem sync_bookkeeping_is_advisory_witness:
  "syncToClusters reportingEnv (exampleResource exampleObject) \<lparr>world = 0, events = []\<rparr> =
     (StatusAllOK,
      \<lparr>world = Suc 0,
       events = [EvComputePlacement [\<lparr>ClusterName = ''a'', IsClusterReady = True\<rparr>],
                 EvWait ManagedDispatcher [Delete ''a''],
                 EvRecordError (ReasonText ''OperationTimeoutError'') (External ''timeout''),
                 EvUpdateVersions {} [(''a'', ''7'')],
                 EvHandleError (External ''versions''),
                 EvSetPropagationStatus exampleObject AggregateSuccess
                   (Some [(''a'', OtherPropagationStatus ''DeletionTimedOut'')]),
                 EvUpdateStatus exampleObject]\<rparr>)
   \<and> EvSetPropagationStatus exampleObject AggregateSuccess
        (Some [(''a'', OtherPropagationStatus ''DeletionTimedOut'')])
        \<in> set (emitted \<lparr>world = 0, events = []\<rparr>
               (snd (syncToClusters reportingEnv (exampleResource exampleObject) \<lparr>world = 0, events = []\<rparr>)))
   \<and> EvHandleError (External ''versions'')
        \<in> set (emitted \<lparr>world = 0, events = []\<rparr>
               (snd (syncToClusters reportingEnv (exampleResource exampleObject) \<lparr>world = 0, events = []\<rparr>)))"
proof -
  let ?fr = "exampleResource exampleObject"
  let ?s = "\<lparr>world = 0::nat, events = []\<rparr>"
  have g: "GetClusters reportingEnv (world ?s) = Inr [\<lparr>ClusterName = ''a'', IsClusterReady = True\<rparr>]"
    by (simp add: reportingEnv_def troubledEnv_def heldEnv_def exampleEnv_def)
  have p: "ComputePlacement reportingEnv ?fr [\<lparr>ClusterName = ''a'', IsClusterReady = True\<rparr>] (world ?s) = Inr {}"
    by (simp add: reportingEnv_def troubledEnv_def heldEnv_def exampleEnv_def)
  have d: "[Delete ''a''] =
      concat (map (syncDecision reportingEnv ?fr (QualifiedName_String (TargetName ?fr)) {} (world ?s))
                [\<lparr>ClusterName = ''a'', IsClusterReady = True\<rparr>])"
    by (simp add: reportingEnv_def troubledEnv_def heldEnv_def exampleEnv_def syncDecision_def exampleCopy_def)
  have w3: "(0::nat) = WaitWorld reportingEnv ManagedDispatcher [Delete ''a''] (world ?s)"
    by (simp add: reportingEnv_def troubledEnv_def heldEnv_def exampleEnv_def)
  have vm: "[(''a'', ''7'')] = DispatcherVersionMap reportingEnv [Delete ''a''] 0"
    by (simp add: reportingEnv_def)
  have sm: "[(''a'', OtherPropagationStatus ''DeletionTimedOut'')] =
      DispatcherStatusMap reportingEnv [Delete ''a'']
        (snd (UpdateVersions reportingEnv ?fr {} [(''a'', ''7'')] 0))"
    by (simp add: reportingEnv_def)
  have u: "fst (UpdateVersions reportingEnv ?fr {} [(''a'', ''7'')] 0) = Some (External ''versions'')"
    by (simp add: reportingEnv_def troubledEnv_def)
  have ob: "Object ?fr = exampleObject" by (simp add: exampleResource_def)
  have 1: "syncToClusters reportingEnv ?fr ?s =
     (StatusAllOK,
      \<lparr>world = Suc 0,
       events = [EvComputePlacement [\<lparr>ClusterName = ''a'', IsClusterReady = True\<rparr>],
                 EvWait ManagedDispatcher [Delete ''a''],
                 EvRecordError (ReasonText ''OperationTimeoutError'') (External ''timeout''),
                 EvUpdateVersions {} [(''a'', ''7'')],
                 EvHandleError (External ''versions''),
                 EvSetPropagationStatus exampleObject AggregateSuccess
                   (Some [(''a'', OtherPropagationStatus ''DeletionTimedOut'')]),
                 EvUpdateStatus exampleObject]\<rparr>)"
    by (simp add: reportingEnv_def troubledEnv_def heldEnv_def exampleEnv_def exampleResource_def exampleCopy_def
        exampleObject_def QualifiedName_String_def syncToClusters_def syncToCluster_def Wait_def
        setPropagationStatus_def PollImmediate_def statusCycle_def emit_def Let_def eval_nat_numeral)
  have 2: "EvSetPropagationStatus exampleObject AggregateSuccess
        (Some [(''a'', OtherPropagationStatus ''DeletionTimedOut'')])
        \<in> set (emitted ?s (snd (syncToClusters reportingEnv ?fr ?s)))"
    using sync_bookkeeping_is_advisory [OF g p d w3 vm sm, THEN conjunct2, THEN conjunct1]
    unfolding ob .
  have 3: "EvHandleError (External ''versions'') \<in> set (emitted ?s (snd (syncToClusters reportingEnv ?fr ?s)))"
    using sync_bookkeeping_is_advisory [OF g p d w3 vm sm, THEN conjunct2, THEN conjunct2, THEN conjunct2,
        THEN conjunct2, THEN conjunct2, THEN conjunct2, rule_format, OF u] .
  show ?thesis using 1 2 3 by simp
qed

end
